(* ===== verification/Prelude.thy ===== *)
theory Prelude
  imports Complex_Main
begin

text \<open>
  Shared vocabulary of the development. Go byte slices (\<open>[]byte\<close>) and Go strings are
  both modelled as \<open>string\<close> (a list of 8-bit \<open>char\<close>s), so a byte is a \<open>char\<close> and
  \<open>length\<close> counts bytes, as Go's \<open>len\<close> does. This theory holds the helpers of Go's
  \<open>bytes\<close> package that the sources call (\<open>HasPrefix\<close>, \<open>TrimPrefix\<close>,
  \<open>TrimSpace\<close>), the splitting of a byte string at its first newline (what
  \<open>bufio.Reader.ReadBytes('\n')\<close> does on a buffer), and the lemmas on them that the
  component theories share. The collection \<open>model_simps\<close> gathers the characteristic
  equations the component proofs unfold.
\<close>

named_theorems model_simps "characteristic equations of the model's operations"

type_synonym bytes = string

subsection \<open>Prefixes (\<open>bytes.HasPrefix\<close>, \<open>bytes.TrimPrefix\<close>)\<close>

fun has_prefix :: "bytes \<Rightarrow> bytes \<Rightarrow> bool" where
  "has_prefix [] p = (p = [])"
| "has_prefix (c # cs) p = (case p of [] \<Rightarrow> True | d # ds \<Rightarrow> c = d \<and> has_prefix cs ds)"

definition trim_prefix :: "bytes \<Rightarrow> bytes \<Rightarrow> bytes" where
  "trim_prefix s p = (if has_prefix s p then drop (length p) s else s)"

subsection \<open>White space (\<open>bytes.TrimSpace\<close> on ASCII input)\<close>

definition is_space :: "char \<Rightarrow> bool" where
  "is_space c \<longleftrightarrow> c = CHR 0x20 \<or> c = CHR 0x09 \<or> c = CHR 0x0A \<or> c = CHR 0x0B
     \<or> c = CHR 0x0C \<or> c = CHR 0x0D"

definition trim_space :: "bytes \<Rightarrow> bytes" where
  "trim_space s = rev (dropWhile is_space (rev (dropWhile is_space s)))"

definition newline :: char where
  "newline = CHR 0x0A"

definition trimmed :: "bytes \<Rightarrow> bool" where
  "trimmed p \<longleftrightarrow> p = [] \<or> \<not> is_space (hd p) \<and> \<not> is_space (last p)"

subsection \<open>Splitting at the first newline\<close>

text \<open>
  \<open>break_line buf\<close> is \<open>Some (line, rest)\<close> when \<open>buf\<close> holds a newline: \<open>line\<close> is
  everything up to and including the first one, as \<open>ReadBytes('\n')\<close> returns it.
\<close>

fun break_line :: "bytes \<Rightarrow> (bytes \<times> bytes) option" where
  "break_line [] = None"
| "break_line (c # cs) =
     (if c = newline then Some ([c], cs)
      else map_option (\<lambda>(l, r). (c # l, r)) (break_line cs))"

subsection \<open>Decimal formatting (\<open>strconv.Itoa\<close>)\<close>

fun dec_digits :: "nat \<Rightarrow> string" where
  "dec_digits n =
     (if n < 10 then [char_of (48 + n)] else dec_digits (n div 10) @ [char_of (48 + n mod 10)])"

definition itoa :: "int \<Rightarrow> string" where
  "itoa i = (if i < 0 then CHR ''-'' # dec_digits (nat (- i)) else dec_digits (nat i))"

declare dec_digits.simps [simp del]

text \<open>
  A reference reading of a decimal numeral (what \<open>strconv.Atoi\<close> returns on the
  numerals \<open>itoa\<close> writes), used to state that \<open>itoa\<close> loses nothing.
\<close>

definition dec_value :: "string \<Rightarrow> nat" where
  "dec_value s = foldl (\<lambda>acc c. 10 * acc + (of_char c - 48)) 0 s"

definition parse_dec :: "string \<Rightarrow> int" where
  "parse_dec s = (if s \<noteq> [] \<and> hd s = CHR ''-'' then - int (dec_value (tl s)) else int (dec_value s))"

subsection \<open>Properties\<close>

lemma has_prefix_iff [simp]: "has_prefix s p \<longleftrightarrow> (\<exists>r. s = p @ r)"
proof (induction s arbitrary: p)
  case Nil
  then show ?case by simp
next
  case (Cons c cs)
  then show ?case by (cases p) auto
qed

lemma has_prefix_append [simp]: "has_prefix (p @ r) p"
  by simp

lemma trim_prefix_append [simp]: "trim_prefix (p @ r) p = r"
  by (simp add: trim_prefix_def)

lemma newline_is_space [simp, intro]: "is_space newline"
  by (simp add: is_space_def newline_def)

lemma trim_space_Nil [simp]: "trim_space [] = []"
  by (simp add: trim_space_def)

lemma trim_space_pad:
  assumes "\<forall>c \<in> set x. is_space c" and "\<forall>c \<in> set y. is_space c" and "trimmed p"
  shows "trim_space (x @ p @ y) = p"
proof (cases "p = []")
  case True
  with assms(1,2) show ?thesis by (auto simp: trim_space_def dropWhile_append dest: set_dropWhileD)
next
  case False
  with assms(3) have hd: "\<not> is_space (hd p)" and lst: "\<not> is_space (hd (rev p))"
    by (auto simp: trimmed_def hd_rev)
  from False hd have "dropWhile is_space (p @ y) = p @ y"
    by (cases p) auto
  with assms(1) have "dropWhile is_space (x @ p @ y) = p @ y"
    by (simp add: dropWhile_append)
  moreover from False lst have "dropWhile is_space (rev y @ rev p) = rev p"
    using assms(2) by (cases "rev p") (auto simp: dropWhile_append)
  ultimately show ?thesis by (simp add: trim_space_def)
qed

lemma trim_space_all_space: "\<forall>c \<in> set x. is_space c \<Longrightarrow> trim_space x = []"
  using trim_space_pad [of x "[]" "[]"] by (simp add: trimmed_def)

lemma break_line_None_iff: "break_line s = None \<longleftrightarrow> newline \<notin> set s"
  by (induction s) auto

lemma break_line_no_newline [simp]: "newline \<notin> set s \<Longrightarrow> break_line s = None"
  by (simp add: break_line_None_iff)

lemma break_line_Some:
  "break_line s = Some (l, r) \<Longrightarrow> s = l @ r \<and> l \<noteq> [] \<and> last l = newline \<and> newline \<notin> set (butlast l)"
proof (induction s arbitrary: l)
  case Nil
  then show ?case by simp
next
  case (Cons c cs)
  then show ?case by (auto split: if_splits)
qed

lemma break_line_append_line [simp]:
  "newline \<notin> set l \<Longrightarrow> break_line (l @ newline # r) = Some (l @ [newline], r)"
  by (induction l) auto

lemma break_line_append_left:
  "break_line s = Some (l, r) \<Longrightarrow> break_line (s @ t) = Some (l, r @ t)"
proof (induction s arbitrary: l)
  case Nil
  then show ?case by simp
next
  case (Cons c cs)
  then show ?case by (auto split: if_splits)
qed

lemma break_line_append_none:
  "newline \<notin> set s \<Longrightarrow> break_line (s @ t) = map_option (\<lambda>(l, r). (s @ l, r)) (break_line t)"
  by (induction s) (auto simp: option.map_comp split_def comp_def option.map_ident)

lemma break_line_shorter: "break_line s = Some (l, r) \<Longrightarrow> length r < length s"
  by (auto dest!: break_line_Some)

lemma dec_digits_value: "dec_value (dec_digits n) = n \<and> dec_digits n \<noteq> [] \<and> (\<forall>c \<in> set (dec_digits n). 48 \<le> (of_char c :: nat))"
proof (induction n rule: dec_digits.induct)
  case (1 n)
  show ?case
  proof (cases "n < 10")
    case True
    then show ?thesis by (simp add: dec_digits.simps [of n] dec_value_def)
  next
    case False
    with "1.IH" show ?thesis by (auto simp: dec_digits.simps [of n] dec_value_def)
  qed
qed

lemma itoa_parse: "parse_dec (itoa i) = i"
proof -
  have "hd (dec_digits n) \<noteq> CHR ''-''" for n
    using dec_digits_value [of n] by (cases "dec_digits n") auto
  then show ?thesis using dec_digits_value by (auto simp: itoa_def parse_dec_def)
qed

end
