(* ===== verification/Http.thy ===== *)
theory Http
  imports Prelude
begin

text \<open>
  The parts of Go's \<open>net/http\<close> that the client sources consume, as the sources see
  them: a header map with \<open>Set\<close>/\<open>Get\<close> (keys canonicalised as
  \<open>textproto.CanonicalMIMEHeaderKey\<close> does), a request and a response record, a
  response body as the sequence of reads the transport delivers (each read yields bytes or
  fails), \<open>io.ReadAll\<close> over it, and the \<open>HTTPDoer\<close> interface of
  \<open>src/config.go\<close> as a function that threads the state of the outside world.
  \<open>isFailureStatusCode\<close> of \<open>src/client.go\<close> closes the theory.
\<close>

subsection \<open>Transport failures and response bodies\<close>

text \<open>
  A transport failure: the caller's context was cancelled or timed out, the body was
  already closed (\<open>http: read on closed response body\<close>), or any other network error.
\<close>

datatype io_error = Canceled | DeadlineExceeded | BodyClosed | NetError string

text \<open>One read of the underlying body: bytes, or a failure.\<close>

datatype chunk = Data bytes | Fail io_error

type_synonym body = "chunk list"

text \<open>\<open>io.ReadAll\<close>: the bytes of every read up to the end, or the first failure.\<close>

fun read_all :: "body \<Rightarrow> io_error + bytes" where
  "read_all [] = Inr []"
| "read_all (Data d # cs) = (case read_all cs of Inl e \<Rightarrow> Inl e | Inr r \<Rightarrow> Inr (d @ r))"
| "read_all (Fail e # cs) = Inl e"

definition data_of :: "body \<Rightarrow> bytes" where
  "data_of cs = concat (map (\<lambda>c. case c of Data d \<Rightarrow> d | Fail _ \<Rightarrow> []) cs)"

definition no_fail :: "body \<Rightarrow> bool" where
  "no_fail cs \<longleftrightarrow> (\<forall>c \<in> set cs. \<exists>d. c = Data d)"

subsection \<open>Headers (\<open>http.Header\<close>)\<close>

definition is_token_char :: "char \<Rightarrow> bool" where
  "is_token_char c \<longleftrightarrow>
     (let n = of_char c :: nat in
       (48 \<le> n \<and> n \<le> 57) \<or> (65 \<le> n \<and> n \<le> 90) \<or> (97 \<le> n \<and> n \<le> 122)
       \<or> c \<in> set ''!#$%&*+-.^_|~'' \<or> n = 39 \<or> n = 96)"

definition to_upper :: "char \<Rightarrow> char" where
  "to_upper c = (let n = of_char c :: nat in if 97 \<le> n \<and> n \<le> 122 then char_of (n - 32) else c)"

definition to_lower :: "char \<Rightarrow> char" where
  "to_lower c = (let n = of_char c :: nat in if 65 \<le> n \<and> n \<le> 90 then char_of (n + 32) else c)"

fun canon_from :: "bool \<Rightarrow> string \<Rightarrow> string" where
  "canon_from up [] = []"
| "canon_from up (c # cs) =
     (let c' = (if up then to_upper c else to_lower c) in c' # canon_from (c' = CHR ''-'') cs)"

text \<open>
  \<open>CanonicalMIMEHeaderKey\<close>: a key made of token characters only has its first letter
  and every letter after a hyphen upper-cased and the others lower-cased; any other key
  is left as it is.
\<close>

definition canonical_key :: "string \<Rightarrow> string" where
  "canonical_key k = (if list_all is_token_char k then canon_from True k else k)"

type_synonym header = "string \<rightharpoonup> string list"

definition header_set :: "header \<Rightarrow> string \<Rightarrow> string \<Rightarrow> header" where
  "header_set h k v = h(canonical_key k \<mapsto> [v])"

definition header_get :: "header \<Rightarrow> string \<Rightarrow> string" where
  "header_get h k = (case h (canonical_key k) of Some (v # _) \<Rightarrow> v | _ \<Rightarrow> [])"

subsection \<open>Requests, responses and the transport\<close>

record request =
  req_method :: string
  req_url :: string
  req_header :: header
  req_body :: "bytes option"

record response =
  status_code :: int
  status :: string
  resp_header :: header
  resp_body :: body

text \<open>
  The \<open>HTTPDoer\<close> interface (\<open>Do(req) (*http.Response, error)\<close>): given the state
  \<open>'w\<close> of the world (the server, the network, the requests seen so far), sending a
  request yields a response or a transport error, and the next state of the world.
\<close>

type_synonym 'w http_doer = "request \<Rightarrow> 'w \<Rightarrow> (io_error + response) \<times> 'w"

text \<open>\<open>isFailureStatusCode\<close> (\<open>src/client.go\<close>): outside \<open>[200, 400)\<close>.\<close>

definition is_failure_status_code :: "response \<Rightarrow> bool" where
  "is_failure_status_code resp \<longleftrightarrow> status_code resp < 200 \<or> status_code resp \<ge> 400"

subsection \<open>Properties\<close>

lemma data_of_simps [simp]:
  "data_of [] = []" "data_of (Data d # cs) = d @ data_of cs" "data_of (Fail e # cs) = data_of cs"
  by (simp_all add: data_of_def)

lemma no_fail_simps [simp]:
  "no_fail []" "no_fail (Data d # cs) = no_fail cs" "\<not> no_fail (Fail e # cs)"
  by (simp_all add: no_fail_def)

lemma read_all_no_fail: "no_fail cs \<Longrightarrow> read_all cs = Inr (data_of cs)"
proof (induction cs)
  case Nil
  then show ?case by simp
next
  case (Cons c cs)
  then show ?case by (cases c) auto
qed

lemma header_get_set_same [simp]: "header_get (header_set h k v) k = v"
  by (simp add: header_get_def header_set_def)

lemma header_get_empty [simp]: "header_get Map.empty k = []"
  by (simp add: header_get_def)

lemma header_get_set_other:
  "canonical_key k' \<noteq> canonical_key k \<Longrightarrow> header_get (header_set h k v) k' = header_get h k'"
  by (simp add: header_get_def header_set_def)

lemma canonical_key_simps [simp]:
  "canonical_key ''Accept'' = ''Accept''" "canonical_key ''Content-Type'' = ''Content-Type''"
  "canonical_key ''Authorization'' = ''Authorization''"
  by (simp_all add: canonical_key_def is_token_char_def to_upper_def to_lower_def Let_def)

end
