(* ===== verification/Errors.thy ===== *)
theory Errors
  imports Http
begin

text \<open>
  The error values the client returns. \<open>APIError\<close>, \<open>ErrorResponse\<close> and
  \<open>RequestError\<close> live in the repository's \<open>error.go\<close>, which is not among the sources
  given here; they are modelled from the error envelope of the specification (a message,
  a type and a code, and the HTTP status fields the caller injects). The sentinel errors
  of the completion endpoint and of the stream reader are constructors of
  \<open>client_error\<close>, the model of Go's \<open>error\<close> as the sources return it.

  JSON decoding is Go's \<open>encoding/json\<close>, a library the sources call: it is an
  interface here. \<open>envelope_decoder\<close> is \<open>json.Unmarshal(body, &errRes)\<close> into an
  \<open>ErrorResponse\<close>: it returns its error, if any, and the \<open>Error\<close> field it managed to
  fill, since Go's decoder fills what it can before it reports a type mismatch.
\<close>

datatype json_error = SyntaxError string | UnmarshalTypeError string

record api_error =
  err_code :: string
  err_message :: string
  err_param :: "string option"
  err_type :: string
  http_status :: string
  http_status_code :: int

type_synonym envelope_decoder = "bytes \<Rightarrow> json_error option \<times> api_error option"

datatype error_cause = NoCause | JsonCause json_error | ApiCause api_error

record request_error =
  rq_http_status :: string
  rq_http_status_code :: int
  rq_err :: error_cause
  rq_body :: bytes

datatype client_error =
    Transport io_error
  | ReadingBody io_error
  | APIErr api_error
  | RequestErr request_error
  | BuildErr string
  | DecodeErr json_error
  | ErrCompletionStreamNotSupported
  | ErrCompletionUnsupportedModel
  | ErrCompletionRequestPromptTypeNotSupported
  | ErrTooManyEmptyStreamMessages
  | FormErr string

subsection \<open>\<open>handleErrorResp\<close> (\<open>src/client.go\<close>)\<close>

text \<open>
  The decision of \<open>handleErrorResp\<close> once the body is read: decode it as an
  \<open>ErrorResponse\<close>; if that fails or yields no \<open>Error\<close>, return a \<open>RequestError\<close>
  with the status and the raw body, whose cause is the decoded \<open>Error\<close> if there is one
  and the decoder's error otherwise; else return the decoded \<open>APIError\<close> with the
  status fields written into it. The stream core resolves its error accumulator the same
  way (specification, section 4.3).
\<close>

definition error_from_body :: "envelope_decoder \<Rightarrow> string \<Rightarrow> int \<Rightarrow> bytes \<Rightarrow> client_error" where
  "error_from_body dec st code body =
     (let req_err = \<lambda>cause. RequestErr \<lparr>rq_http_status = st, rq_http_status_code = code,
                                     rq_err = cause, rq_body = body\<rparr>
      in case dec body of
           (err, None) \<Rightarrow> req_err (case err of None \<Rightarrow> NoCause | Some j \<Rightarrow> JsonCause j)
         | (Some j, Some a) \<Rightarrow> req_err (ApiCause a)
         | (None, Some a) \<Rightarrow> APIErr (a\<lparr>http_status := st, http_status_code := code\<rparr>))"

text \<open>A read failure is wrapped as \<open>error, reading response body\<close>.\<close>

definition handle_error_resp :: "envelope_decoder \<Rightarrow> response \<Rightarrow> client_error" where
  "handle_error_resp dec resp =
     (case read_all (resp_body resp) of
        Inl e \<Rightarrow> ReadingBody e
      | Inr body \<Rightarrow> error_from_body dec (status resp) (status_code resp) body)"

text \<open>The status a returned error carries, if it carries one.\<close>

fun error_status_code :: "client_error \<Rightarrow> int option" where
  "error_status_code (APIErr a) = Some (http_status_code a)"
| "error_status_code (RequestErr r) = Some (rq_http_status_code r)"
| "error_status_code _ = None"

subsection \<open>Properties\<close>

text \<open>
  C12. Every error handleErrorResp returns for a response whose body could be read carries the response status code (as an APIError with the status written in, or as a RequestError); only a failure while reading the body yields an error without a status.
\<close>

theorem handle_error_resp_status:
  "error_status_code (handle_error_resp dec resp) =
     (case read_all (resp_body resp) of Inl _ \<Rightarrow> None | Inr _ \<Rightarrow> Some (status_code resp))"
  by (simp add: handle_error_resp_def error_from_body_def split: sum.splits option.splits prod.splits)

end
