(* ===== verification/Client.thy ===== *)
theory Client
  imports Errors
begin

text \<open>
  The client of \<open>src/client.go\<close> and its configuration (\<open>src/config.go\<close>). The
  \<open>ClientConfig\<close> record keeps the token, the base URL, the assistant version, the
  transport (\<open>HTTPDoer\<close>, a world-passing function, see \<open>Http\<close>) and the empty-message
  limit of the stream reader. The \<open>Client\<close> record adds the request builder and the form
  builder of the internal package, which are interfaces here (their code is not among the
  sources): a request builder turns a method, a URL, a body and a header into a request
  or an error; a form builder appends one multipart operation to the form body or fails.
  The operations follow the source: \<open>newRequest\<close> applies its option setters in order,
  builds, then sets the common headers; \<open>sendRequest\<close> sets \<open>Accept\<close> and a default
  \<open>Content-Type\<close>, calls the transport, records the response header in the target, and
  either turns a failure status into an error (\<open>handleErrorResp\<close>) or decodes the body.
\<close>

subsection \<open>Request bodies and readers\<close>

text \<open>A JSON value, as \<open>encoding/json\<close> writes it.\<close>

datatype json = JNull | JBool bool | JNum rat | JStr string | JArr "json list"
  | JObj "(string \<times> json) list"

text \<open>
  A struct as \<open>encoding/json\<close> writes it: its fields in declaration order, each with
  its key, leaving out those a tag's \<open>omitempty\<close> drops (\<open>None\<close>).
\<close>

definition json_fields :: "(string \<times> json option) list \<Rightarrow> json" where
  "json_fields fs = JObj (List.map_filter (\<lambda>(k, v). map_option (Pair k) v) fs)"

text \<open>
  An \<open>io.Reader\<close> as the sources use one: plain bytes, bytes with a \<open>Name()\<close> method
  (an \<open>*os.File\<close>), or the \<open>file\<close> wrapper of \<open>src/image.go\<close> around another reader.
\<close>

datatype go_reader = PlainReader bytes | NamedReader string bytes
  | WrappedFile go_reader string string

text \<open>The \<open>body any\<close> argument of \<open>newRequest\<close>: none, a value to marshal, or a reader.\<close>

datatype payload = NoBody | JsonBody json | ReaderBody bytes

type_synonym request_builder = "string \<Rightarrow> string \<Rightarrow> payload \<Rightarrow> header \<Rightarrow> string + request"

text \<open>One operation of a multipart form builder.\<close>

datatype form_op = FormFileReader string "go_reader option" string | WriteField string string | CloseForm

type_synonym form_builder = "form_op \<Rightarrow> bytes \<Rightarrow> string + bytes"

subsection \<open>Configuration (\<open>src/config.go\<close>)\<close>

record 'w client_config =
  auth_token :: string
  base_url :: string
  assistant_version :: string
  http_client :: "'w http_doer"
  empty_messages_limit :: nat

definition giteeai_api_url_v1 :: string where
  "giteeai_api_url_v1 = ''https://ai.gitee.com/v1''"

definition default_empty_messages_limit :: nat where
  "default_empty_messages_limit = 300"

definition default_assistant_version :: string where
  "default_assistant_version = ''v2''"

text \<open>\<open>DefaultConfig\<close>; \<open>&http.Client{}\<close> is the transport the caller's world provides.\<close>

definition default_config :: "'w http_doer \<Rightarrow> string \<Rightarrow> 'w client_config" where
  "default_config doer token =
     \<lparr>auth_token = token, base_url = giteeai_api_url_v1,
      assistant_version = default_assistant_version, http_client = doer,
      empty_messages_limit = default_empty_messages_limit\<rparr>"

definition config_string :: "'w client_config \<Rightarrow> string" where
  "config_string cfg = ''<GiteeAI API ClientConfig>''"

subsection \<open>The client and its requests (\<open>src/client.go\<close>)\<close>

record 'w client =
  config :: "'w client_config"
  request_builder :: request_builder
  form_builder :: form_builder
  form_content_type :: string

definition new_client_with_config ::
  "request_builder \<Rightarrow> form_builder \<Rightarrow> string \<Rightarrow> 'w client_config \<Rightarrow> 'w client" where
  "new_client_with_config rb fb ct cfg =
     \<lparr>config = cfg, request_builder = rb, form_builder = fb, form_content_type = ct\<rparr>"

definition new_client ::
  "request_builder \<Rightarrow> form_builder \<Rightarrow> string \<Rightarrow> 'w http_doer \<Rightarrow> string \<Rightarrow> 'w client" where
  "new_client rb fb ct doer token = new_client_with_config rb fb ct (default_config doer token)"

record request_options =
  opt_body :: payload
  opt_header :: header

type_synonym request_option = "request_options \<Rightarrow> request_options"

definition with_body :: "payload \<Rightarrow> request_option" where
  "with_body b = (\<lambda>args. args\<lparr>opt_body := b\<rparr>)"

definition with_content_type :: "string \<Rightarrow> request_option" where
  "with_content_type ct = (\<lambda>args. args\<lparr>opt_header := header_set (opt_header args) ''Content-Type'' ct\<rparr>)"

definition with_beta_assistant_version :: "string \<Rightarrow> request_option" where
  "with_beta_assistant_version v =
     (\<lambda>args. args\<lparr>opt_header := header_set (opt_header args) ''OpenAI-Beta'' (''assistants='' @ v)\<rparr>)"

definition set_request_header :: "string \<Rightarrow> string \<Rightarrow> request \<Rightarrow> request" where
  "set_request_header k v req = req\<lparr>req_header := header_set (req_header req) k v\<rparr>"

definition set_common_headers :: "'w client \<Rightarrow> request \<Rightarrow> request" where
  "set_common_headers c req =
     (if auth_token (config c) \<noteq> [] then
        set_request_header ''Authorization'' (''Bearer '' @ auth_token (config c)) req
      else req)"

definition new_request ::
  "'w client \<Rightarrow> string \<Rightarrow> string \<Rightarrow> request_option list \<Rightarrow> client_error + request" where
  "new_request c method url setters =
     (let args = fold (\<lambda>setter a. setter a) setters \<lparr>opt_body = NoBody, opt_header = Map.empty\<rparr>
      in case request_builder c method url (opt_body args) (opt_header args) of
           Inl e \<Rightarrow> Inl (BuildErr e)
         | Inr req \<Rightarrow> Inr (set_common_headers c req))"

text \<open>\<open>fullURL\<close> takes \<open>withModel\<close> options and ignores them.\<close>

record full_url_options =
  url_model :: string

type_synonym full_url_option = "full_url_options \<Rightarrow> full_url_options"

definition with_model :: "string \<Rightarrow> full_url_option" where
  "with_model m = (\<lambda>args. args\<lparr>url_model := m\<rparr>)"

definition full_url :: "'w client \<Rightarrow> string \<Rightarrow> full_url_option list \<Rightarrow> string" where
  "full_url c suffix setters = base_url (config c) @ suffix"

subsection \<open>Sending and decoding\<close>

text \<open>
  The target \<open>v\<close> of \<open>sendRequest\<close>: \<open>*string\<close> and \<open>*audioTextResponse\<close> take the
  whole body as text (\<open>decodeString\<close>); any other type is decoded as JSON.
\<close>

datatype 'a target = StringTarget "string \<Rightarrow> 'a" | JsonTarget "bytes \<Rightarrow> json_error + 'a"

definition decode_string :: "body \<Rightarrow> client_error + string" where
  "decode_string b = (case read_all b of Inl e \<Rightarrow> Inl (Transport e) | Inr s \<Rightarrow> Inr s)"

text \<open>
  \<open>json.NewDecoder(body).Decode(v)\<close> (\<open>encoding/json\<close>, used by \<open>decodeResponse\<close>):
  the decoder reads the body until its buffer holds one complete JSON value and decodes that
  value, so what the body holds after it, a transport failure included, is never read. The
  end of a value is found by the scanner: an object or array ends at its closing bracket
  (brackets inside strings and escaped quotes do not count), a string or a literal at the
  first byte that cannot continue it. At the end of the body a pending literal is complete;
  otherwise the result is \<open>io.EOF\<close> for a body of white space only and
  \<open>io.ErrUnexpectedEOF\<close> for a truncated value. A failed read before the value is
  complete is returned as it is. The unmarshalling of the value into the target type is
  the parameter \<open>dec\<close>.
\<close>

definition json_space :: "char \<Rightarrow> bool" where
  "json_space c \<longleftrightarrow> c = CHR 0x20 \<or> c = CHR 0x09 \<or> c = CHR 0x0A \<or> c = CHR 0x0D"

fun scan_nested :: "nat \<Rightarrow> bool \<Rightarrow> bool \<Rightarrow> bytes \<Rightarrow> nat \<Rightarrow> nat option" where
  "scan_nested d instr esc [] i = None"
| "scan_nested d instr esc (c # cs) i =
     (if instr then
        (if esc then scan_nested d True False cs (Suc i)
         else if c = CHR 0x5C then scan_nested d True True cs (Suc i)
         else if c = CHR 0x22 then (if d = 0 then Some (Suc i) else scan_nested d False False cs (Suc i))
         else scan_nested d True False cs (Suc i))
      else if c = CHR 0x22 then scan_nested d True False cs (Suc i)
      else if c = CHR ''{'' \<or> c = CHR ''['' then scan_nested (Suc d) False False cs (Suc i)
      else if c = CHR ''}'' \<or> c = CHR '']'' then (if d \<le> 1 then Some (Suc i) else scan_nested (d - 1) False False cs (Suc i))
      else scan_nested d False False cs (Suc i))"

definition scalar_char :: "char \<Rightarrow> bool" where
  "scalar_char c \<longleftrightarrow> \<not> json_space c \<and> c \<notin> set ''{}[],:'' \<and> c \<noteq> CHR 0x22"

definition json_value_end :: "bytes \<Rightarrow> nat option" where
  "json_value_end s =
     (let ws = length (takeWhile json_space s); t = drop ws s
      in case t of
           [] \<Rightarrow> None
         | c # cs \<Rightarrow>
             if c = CHR ''{'' \<or> c = CHR ''['' then map_option ((+) ws) (scan_nested 0 False False t 0)
             else if c = CHR 0x22 then
               (case scan_nested 0 True False cs 1 of
                  Some n \<Rightarrow> if n < length t then Some (ws + n) else None
                | None \<Rightarrow> None)
             else (let k = length (takeWhile scalar_char t) in if k < length t then Some (ws + k) else None))"

definition decode_value :: "(bytes \<Rightarrow> json_error + 'a) \<Rightarrow> bytes \<Rightarrow> client_error + 'a" where
  "decode_value dec v = (case dec v of Inl je \<Rightarrow> Inl (DecodeErr je) | Inr a \<Rightarrow> Inr a)"

fun json_decode :: "(bytes \<Rightarrow> json_error + 'a) \<Rightarrow> bytes \<Rightarrow> body \<Rightarrow> client_error + 'a" where
  "json_decode dec buf [] =
     (case json_value_end (buf @ '' '') of
        Some n \<Rightarrow> decode_value dec (take n buf)
      | None \<Rightarrow> Inl (Transport (NetError (if list_all json_space buf then ''EOF'' else ''unexpected EOF''))))"
| "json_decode dec buf (Fail e # cs) = Inl (Transport e)"
| "json_decode dec buf (Data d # cs) =
     (case json_value_end (buf @ d) of
        Some n \<Rightarrow> decode_value dec (take n (buf @ d))
      | None \<Rightarrow> json_decode dec (buf @ d) cs)"

definition decode_response :: "body \<Rightarrow> 'a target option \<Rightarrow> client_error + 'a option" where
  "decode_response b v =
     (case v of
        None \<Rightarrow> Inr None
      | Some (StringTarget f) \<Rightarrow>
          (case decode_string b of Inl e \<Rightarrow> Inl e | Inr s \<Rightarrow> Inr (Some (f s)))
      | Some (JsonTarget dec) \<Rightarrow>
          (case json_decode dec [] b of Inl e \<Rightarrow> Inl e | Inr a \<Rightarrow> Inr (Some a)))"

text \<open>
  \<open>sendRequest\<close>: the result is the error or the decoded value, the header recorded in
  the target by \<open>SetHeader\<close> (when there is a target and a response), and the world after
  the call.
\<close>

text \<open>
  \<open>httpHeader\<close>, embedded in every response struct (the \<open>Response\<close> interface):
  \<open>SetHeader\<close> replaces the header the value holds by the response's.
\<close>

definition set_header :: "header \<Rightarrow> header \<Rightarrow> header" where
  "set_header hdr h = hdr"

type_synonym ('r, 'w) api_result = "((client_error + 'r option) \<times> header option) \<times> 'w"

definition send_request_headers :: "request \<Rightarrow> request" where
  "send_request_headers req =
     (let req1 = set_request_header ''Accept'' ''application/json'' req
      in if header_get (req_header req1) ''Content-Type'' = []
         then set_request_header ''Content-Type'' ''application/json'' req1 else req1)"

definition send_request ::
  "'w client \<Rightarrow> envelope_decoder \<Rightarrow> 'a target option \<Rightarrow> request \<Rightarrow> 'w
   \<Rightarrow> ((client_error + 'a option) \<times> header option) \<times> 'w" where
  "send_request c dec v req w =
     (case http_client (config c) (send_request_headers req) w of
        (Inl e, w') \<Rightarrow> ((Inl (Transport e), None), w')
      | (Inr res, w') \<Rightarrow>
          (let hdr = (case v of None \<Rightarrow> None | Some _ \<Rightarrow> Some (set_header (resp_header res) Map.empty))
           in if is_failure_status_code res then ((Inl (handle_error_resp dec res), hdr), w')
              else ((decode_response (resp_body res) v, hdr), w')))"

text \<open>
  \<open>RawResponse\<close>: the unread body (the embedded \<open>io.ReadCloser\<close>) and the header
  recorded by \<open>SetHeader\<close>; \<open>sendRequestRaw\<close> returns it for a successful response.
\<close>

record raw_response =
  raw_body :: body
  raw_header :: header

definition send_request_raw ::
  "'w client \<Rightarrow> envelope_decoder \<Rightarrow> request \<Rightarrow> 'w \<Rightarrow> (client_error + raw_response) \<times> 'w" where
  "send_request_raw c dec req w =
     (case http_client (config c) req w of
        (Inl e, w') \<Rightarrow> (Inl (Transport e), w')
      | (Inr res, w') \<Rightarrow>
          if is_failure_status_code res then (Inl (handle_error_resp dec res), w')
          else (Inr \<lparr>raw_body = resp_body res, raw_header = resp_header res\<rparr>, w'))"

subsection \<open>Interfaces the endpoint lemmas are stated over\<close>

text \<open>
  A transport that answers with a server function and logs every request it is handed;
  its world is the log.
\<close>

definition recording_doer :: "(request \<Rightarrow> io_error + response) \<Rightarrow> request list http_doer" where
  "recording_doer srv req sent = (srv req, sent @ [req])"

text \<open>
  The contract of a request builder: it builds every request, with the method, the URL and
  the header it is given (the body is the builder's business).
\<close>

definition builds_faithfully :: "request_builder \<Rightarrow> bool" where
  "builds_faithfully rb \<longleftrightarrow>
     (\<forall>m u b h. \<exists>r. rb m u b h = Inr r \<and> req_method r = m \<and> req_url r = u \<and> req_header r = h)"

text \<open>The option record \<open>newRequest\<close> hands to the builder.\<close>

definition request_args :: "request_option list \<Rightarrow> request_options" where
  "request_args setters = fold (\<lambda>setter a. setter a) setters \<lparr>opt_body = NoBody, opt_header = Map.empty\<rparr>"

subsection \<open>Properties\<close>

lemma new_request_args:
  "new_request c method url setters =
     (case request_builder c method url (opt_body (request_args setters)) (opt_header (request_args setters)) of
        Inl e \<Rightarrow> Inl (BuildErr e)
      | Inr req \<Rightarrow> Inr (set_common_headers c req))"
  by (simp add: new_request_def request_args_def Let_def)

lemma new_request_faithful:
  assumes "builds_faithfully (request_builder c)"
  obtains r where "new_request c method url setters = Inr (set_common_headers c r)"
    and "req_method r = method" and "req_url r = url"
    and "req_header r = opt_header (request_args setters)"
proof -
  from assms obtain r where
    "request_builder c method url (opt_body (request_args setters)) (opt_header (request_args setters)) = Inr r"
    and "req_method r = method" and "req_url r = url" and "req_header r = opt_header (request_args setters)"
    unfolding builds_faithfully_def by blast
  then show ?thesis using that by (simp add: new_request_args)
qed

lemma set_common_headers_fields [simp]:
  "req_method (set_common_headers c r) = req_method r" "req_url (set_common_headers c r) = req_url r"
  "req_body (set_common_headers c r) = req_body r"
  by (simp_all add: set_common_headers_def set_request_header_def)

lemma send_request_headers_fields [simp]:
  "req_method (send_request_headers r) = req_method r" "req_url (send_request_headers r) = req_url r"
  "req_body (send_request_headers r) = req_body r"
  by (simp_all add: send_request_headers_def set_request_header_def Let_def)

lemma send_request_log:
  "http_client (config c) = recording_doer srv \<Longrightarrow>
     snd (send_request c dec v req sent) = sent @ [send_request_headers req]"
  by (simp add: send_request_def recording_doer_def Let_def split: sum.splits)

lemma header_get_set_request_header:
  "header_get (req_header (set_request_header k v req)) k' =
     (if canonical_key k' = canonical_key k then v else header_get (req_header req) k')"
  by (simp add: set_request_header_def header_get_def header_set_def)

text \<open>
  The request an endpoint hands the transport: \<open>newRequest\<close> then \<open>sendRequest\<close>, as
  every endpoint of \<open>src/completion.go\<close>, \<open>src/models.go\<close> and \<open>src/image.go\<close>
  composes them.
\<close>

lemma endpoint_log:
  assumes "builds_faithfully (request_builder c)" and "http_client (config c) = recording_doer srv"
  obtains r where
    "snd (case new_request c m u setters of
            Inl e \<Rightarrow> ((Inl e, None), sent) | Inr req \<Rightarrow> send_request c dec v req sent)
       = sent @ [send_request_headers (set_common_headers c r)]"
    and "req_method r = m" and "req_url r = u" and "req_header r = opt_header (request_args setters)"
proof -
  from assms(1) obtain r where "new_request c m u setters = Inr (set_common_headers c r)"
    and "req_method r = m" and "req_url r = u" and "req_header r = opt_header (request_args setters)"
    by (rule new_request_faithful)
  with send_request_log [OF assms(2)] show ?thesis by (intro that [of r]) simp_all
qed

lemma header_get_sent:
  "header_get (req_header (send_request_headers (set_common_headers c r))) k =
     (if canonical_key k = ''Accept'' then ''application/json''
      else if canonical_key k = ''Content-Type'' then
        (if header_get (req_header r) ''Content-Type'' = [] then ''application/json''
         else header_get (req_header r) ''Content-Type'')
      else if canonical_key k = ''Authorization'' \<and> auth_token (config c) \<noteq> [] then
        ''Bearer '' @ auth_token (config c)
      else header_get (req_header r) k)"
  by (simp add: send_request_headers_def set_common_headers_def header_get_set_request_header Let_def
      canonical_key_simps) (simp add: header_get_def canonical_key_simps)

lemma json_fields_keys:
  "\<exists>kvs. json_fields fs = JObj kvs \<and> map fst kvs = map fst (filter (\<lambda>kv. snd kv \<noteq> None) fs)"
  by (induction fs) (auto simp: json_fields_def List.map_filter_simps split: option.splits)

lemma key_in_present_fields:
  "distinct (map fst fs) \<Longrightarrow>
     k \<in> set (map fst (filter (\<lambda>kv. snd kv \<noteq> None) fs)) \<longleftrightarrow> (\<exists>v. map_of fs k = Some (Some v))"
  by (induction fs) (auto simp: image_iff)

lemma endpoint_result:
  assumes "builds_faithfully (request_builder c)" and "http_client (config c) = recording_doer (\<lambda>q. Inr res)"
  shows "\<exists>q. (case new_request c m u setters of
                Inl e \<Rightarrow> ((Inl e, None), sent) | Inr req \<Rightarrow> send_request c dec (Some t) req sent)
     = ((if is_failure_status_code res then Inl (handle_error_resp dec res) else decode_response (resp_body res) (Some t),
         Some (resp_header res)), sent @ [q])"
proof -
  from assms(1) obtain r where "new_request c m u setters = Inr (set_common_headers c r)"
    by (rule new_request_faithful)
  with assms(2) show ?thesis by (simp add: send_request_def recording_doer_def set_header_def)
qed

lemma json_fields_lookup:
  "distinct (map fst fs) \<Longrightarrow>
     \<exists>kvs. json_fields fs = JObj kvs \<and> distinct (map fst kvs) \<and> (\<forall>k. map_of kvs k = Option.bind (map_of fs k) (\<lambda>v. v))"
proof (induction fs)
  case Nil
  then show ?case by (simp add: json_fields_def List.map_filter_simps)
next
  case (Cons f fs)
  obtain k v where f: "f = (k, v)" by fastforce
  with Cons.prems have kf: "map_of fs k = None" and dfs: "distinct (map fst fs)"
    by (simp_all add: map_of_eq_None_iff)
  from Cons.IH [OF dfs] obtain kvs where j: "json_fields fs = JObj kvs" and d: "distinct (map fst kvs)"
    and m: "\<forall>k. map_of kvs k = Option.bind (map_of fs k) (\<lambda>v. v)" by blast
  from m kf have "map_of kvs k = None" by simp
  then have nk: "k \<notin> set (map fst kvs)" by (simp add: map_of_eq_None_iff)
  show ?case
  proof (cases v)
    case None
    with j f have "json_fields (f # fs) = JObj kvs" by (simp add: json_fields_def List.map_filter_simps)
    with d m f None kf show ?thesis by (intro exI [of _ kvs]) simp
  next
    case (Some x)
    with j f have "json_fields (f # fs) = JObj ((k, x) # kvs)" by (simp add: json_fields_def List.map_filter_simps)
    with d m f Some nk kf show ?thesis by (intro exI [of _ "(k, x) # kvs"]) simp
  qed
qed

end
