(* ===== verification/LineReader.thy ===== *)
theory LineReader
  imports Http
begin

text \<open>
  The Line Reader of the stream core (the \<open>bufio.Reader\<close> the stream reader wraps around
  the response body; the reader's code is not among the given sources, so it is modelled
  from the specification, section 4.1). Its state is the buffered bytes not yet returned
  and the reads of the transport not yet made. \<open>next_line\<close> returns one line, up to
  and including its newline, pulling reads from the transport until a newline arrives, so
  a line split across reads is put together; at the end of the transport it returns the
  unterminated rest as a last line if there is one, and end-of-input otherwise; a failed
  read is returned as it is.

  The abstract view of the state is \<open>pending\<close>, the bytes still to be returned.
  \<open>next_line_refines\<close> shows that \<open>next_line\<close> returns the first line of the
  pending bytes, or at their end the first failure of the transport, whatever the chunking;
  \<open>next_line_no_fail\<close> restates it as \<open>first_line\<close> of the pending bytes, and \<open>lines_of\<close> with
  \<open>concat_lines_of\<close> shows that the lines returned put the input back together.
\<close>

record line_reader =
  lr_buf :: bytes
  lr_src :: body

datatype line_result = Line bytes | EndOfInput | ReadFailure io_error

fun read_line :: "bytes \<Rightarrow> body \<Rightarrow> line_result \<times> bytes \<times> body" where
  "read_line buf src =
     (case break_line buf of
        Some (l, r) \<Rightarrow> (Line l, r, src)
      | None \<Rightarrow>
          (case src of
             [] \<Rightarrow> (if buf = [] then (EndOfInput, [], []) else (Line buf, [], []))
           | Data d # rest \<Rightarrow> read_line (buf @ d) rest
           | Fail e # rest \<Rightarrow> (ReadFailure e, buf, rest)))"

declare read_line.simps [simp del]

definition next_line :: "line_reader \<Rightarrow> line_result \<times> line_reader" where
  "next_line lr =
     (case read_line (lr_buf lr) (lr_src lr) of
        (res, buf, src) \<Rightarrow> (res, \<lparr>lr_buf = buf, lr_src = src\<rparr>))"

definition new_line_reader :: "body \<Rightarrow> line_reader" where
  "new_line_reader b = \<lparr>lr_buf = [], lr_src = b\<rparr>"

subsection \<open>Abstract view\<close>

text \<open>
  The reads of the transport up to its first failure, and that failure with the reads
  after it: the reader returns the lines of the first part and then the failure.
\<close>

fun data_before_fail :: "body \<Rightarrow> bytes" where
  "data_before_fail [] = []"
| "data_before_fail (Data d # cs) = d @ data_before_fail cs"
| "data_before_fail (Fail e # cs) = []"

fun first_fail :: "body \<Rightarrow> (io_error \<times> body) option" where
  "first_fail [] = None"
| "first_fail (Data d # cs) = first_fail cs"
| "first_fail (Fail e # cs) = Some (e, cs)"

definition pending :: "line_reader \<Rightarrow> bytes" where
  "pending lr = lr_buf lr @ data_before_fail (lr_src lr)"

definition first_line :: "bytes \<Rightarrow> (bytes \<times> bytes) option" where
  "first_line s =
     (if s = [] then None else case break_line s of Some p \<Rightarrow> Some p | None \<Rightarrow> Some (s, []))"

function lines_of :: "bytes \<Rightarrow> bytes list" where
  "lines_of s = (case first_line s of None \<Rightarrow> [] | Some (l, r) \<Rightarrow> l # lines_of r)"
  by pat_completeness auto
termination
  by (relation "measure length")
    (auto simp: first_line_def dest: break_line_shorter split: option.splits if_splits)

declare lines_of.simps [simp del]

subsection \<open>The reader refines the abstract view\<close>

text \<open>The size of a reader state: the loop of the stream session terminates on it.\<close>

definition body_size :: "body \<Rightarrow> nat" where
  "body_size cs = sum_list (map (\<lambda>c. case c of Data d \<Rightarrow> Suc (length d) | Fail _ \<Rightarrow> 1) cs)"

definition reader_size :: "line_reader \<Rightarrow> nat" where
  "reader_size lr = length (lr_buf lr) + body_size (lr_src lr)"

subsection \<open>The reader as a list of lines\<close>

text \<open>
  What a reader will still yield, as a list: the lines of the pending bytes, where a
  transport failure drops the unterminated tail (\<open>complete_lines\<close>), and the failure,
  if any, that comes after them.
\<close>

function complete_lines :: "bytes \<Rightarrow> bytes list" where
  "complete_lines s = (case break_line s of None \<Rightarrow> [] | Some (l, r) \<Rightarrow> l # complete_lines r)"
  by pat_completeness auto
termination
  by (relation "measure length") (auto dest: break_line_shorter)

declare complete_lines.simps [simp del]

definition reader_lines :: "line_reader \<Rightarrow> bytes list" where
  "reader_lines r =
     (if first_fail (lr_src r) = None then lines_of (pending r) else complete_lines (pending r))"

definition reader_end :: "line_reader \<Rightarrow> io_error option" where
  "reader_end r = map_option fst (first_fail (lr_src r))"

definition body_lines :: "body \<Rightarrow> bytes list" where
  "body_lines b =
     (if first_fail b = None then lines_of (data_before_fail b) else complete_lines (data_before_fail b))"

subsection \<open>Properties\<close>

lemma read_line_break [simp]:
  "break_line buf = Some (l, r) \<Longrightarrow> read_line buf src = (Line l, r, src)"
  by (simp add: read_line.simps [of buf src])

lemma read_line_end [simp]:
  "break_line buf = None \<Longrightarrow>
     read_line buf [] = (if buf = [] then (EndOfInput, [], []) else (Line buf, [], []))"
  by (simp add: read_line.simps [of buf "[]"])

lemma read_line_data [simp]:
  "break_line buf = None \<Longrightarrow> read_line buf (Data d # rest) = read_line (buf @ d) rest"
  by (simp add: read_line.simps [of buf "Data d # rest"])

lemma read_line_fail [simp]:
  "break_line buf = None \<Longrightarrow> read_line buf (Fail e # rest) = (ReadFailure e, buf, rest)"
  by (simp add: read_line.simps [of buf "Fail e # rest"])

lemma first_line_shorter: "first_line s = Some (l, r) \<Longrightarrow> length r < length s"
  by (auto simp: first_line_def dest: break_line_shorter split: option.splits if_splits)

lemma first_line_append: "first_line s = Some (l, r) \<Longrightarrow> s = l @ r"
  by (auto simp: first_line_def dest: break_line_Some split: option.splits if_splits)

lemma first_line_nonempty: "first_line s = Some (l, r) \<Longrightarrow> l \<noteq> []"
  by (auto simp: first_line_def dest: break_line_Some split: option.splits if_splits)

lemma first_line_line [simp]:
  "newline \<notin> set l \<Longrightarrow> first_line (l @ newline # r) = Some (l @ [newline], r)"
  by (simp add: first_line_def)

lemma first_line_last [simp]:
  "newline \<notin> set l \<Longrightarrow> l \<noteq> [] \<Longrightarrow> first_line l = Some (l, [])"
  by (simp add: first_line_def)

lemma lines_of_Nil [simp]: "lines_of [] = []"
  by (simp add: lines_of.simps [of "[]"] first_line_def)

lemma lines_of_first: "first_line s = Some (l, r) \<Longrightarrow> lines_of s = l # lines_of r"
  by (simp add: lines_of.simps [of s])

lemma concat_lines_of: "concat (lines_of s) = s"
proof (induction s rule: lines_of.induct)
  case (1 s)
  show ?case
  proof (cases "first_line s")
    case None
    then have "s = []" by (simp add: first_line_def split: if_splits option.splits)
    then show ?thesis by simp
  next
    case (Some p)
    then obtain l r where p: "first_line s = Some (l, r)" by (cases p) auto
    with "1" have "concat (lines_of r) = r" by simp
    with p show ?thesis by (simp add: lines_of_first first_line_append [OF p])
  qed
qed

lemma body_size_simps [simp]:
  "body_size [] = 0" "body_size (Data d # cs) = Suc (length d) + body_size cs"
  "body_size (Fail e # cs) = Suc (body_size cs)"
  by (simp_all add: body_size_def)

lemma read_line_Line_smaller:
  "read_line buf src = (Line l, buf', src') \<Longrightarrow> length buf' + body_size src' < length buf + body_size src"
proof (induction buf src arbitrary: buf' src' rule: read_line.induct)
  case (1 buf src)
  show ?case
  proof (cases "break_line buf")
    case (Some p)
    then obtain l0 r0 where "break_line buf = Some (l0, r0)" by (cases p) auto
    with "1.prems" show ?thesis
      by (auto simp: dest: break_line_shorter)
  next
    case None
    show ?thesis
    proof (cases src)
      case Nil
      with None "1.prems" show ?thesis by (auto split: if_splits)
    next
      case (Cons c rest)
      show ?thesis
      proof (cases c)
        case (Data d)
        with None Cons "1.prems" have "read_line (buf @ d) rest = (Line l, buf', src')"
          by simp
        with "1.IH" [OF None] Cons Data show ?thesis by fastforce
      next
        case (Fail e)
        with None Cons "1.prems" show ?thesis by simp
      qed
    qed
  qed
qed

lemma next_line_Line_smaller:
  "next_line lr = (Line l, lr') \<Longrightarrow> reader_size lr' < reader_size lr"
  by (auto simp: next_line_def reader_size_def dest: read_line_Line_smaller split: prod.splits)

lemma data_before_fail_no_fail [simp]: "no_fail cs \<Longrightarrow> data_before_fail cs = data_of cs"
proof (induction cs)
  case Nil
  then show ?case by simp
next
  case (Cons c cs)
  then show ?case by (cases c) auto
qed

lemma first_fail_no_fail [simp]: "no_fail cs \<Longrightarrow> first_fail cs = None"
proof (induction cs)
  case Nil
  then show ?case by simp
next
  case (Cons c cs)
  then show ?case by (cases c) auto
qed

lemma read_line_refines:
  "read_line buf src = (res, buf', src') \<Longrightarrow>
     (case break_line (buf @ data_before_fail src) of
        Some (l, r) \<Rightarrow>
          res = Line l \<and> buf' @ data_before_fail src' = r \<and> first_fail src' = first_fail src
      | None \<Rightarrow>
          (case first_fail src of
             None \<Rightarrow>
               res = (if buf @ data_before_fail src = [] then EndOfInput
                      else Line (buf @ data_before_fail src))
               \<and> buf' @ data_before_fail src' = [] \<and> first_fail src' = None
           | Some (e, rest) \<Rightarrow> res = ReadFailure e))"
proof (induction buf src arbitrary: res buf' src' rule: read_line.induct)
  case (1 buf src)
  show ?case
  proof (cases "break_line buf")
    case (Some p)
    then obtain l r where p: "break_line buf = Some (l, r)" by (cases p) auto
    with break_line_append_left [OF p, of "data_before_fail src"] "1.prems" show ?thesis by auto
  next
    case None
    show ?thesis
    proof (cases src)
      case Nil
      with None "1.prems" show ?thesis by (auto split: if_splits)
    next
      case (Cons c rest)
      show ?thesis
      proof (cases c)
        case (Data d)
        with None Cons "1.prems" have rl: "read_line (buf @ d) rest = (res, buf', src')" by simp
        from "1.IH" [OF None Cons Data rl] show ?thesis
          unfolding Cons Data by (auto split: option.splits)
      next
        case (Fail e)
        with None Cons "1.prems" show ?thesis by simp
      qed
    qed
  qed
qed

theorem next_line_refines:
  "next_line lr = (res, lr') \<Longrightarrow>
     (case break_line (pending lr) of
        Some (l, r) \<Rightarrow> res = Line l \<and> pending lr' = r \<and> first_fail (lr_src lr') = first_fail (lr_src lr)
      | None \<Rightarrow>
          (case first_fail (lr_src lr) of
             None \<Rightarrow> res = (if pending lr = [] then EndOfInput else Line (pending lr))
                     \<and> pending lr' = [] \<and> first_fail (lr_src lr') = None
           | Some (e, rest) \<Rightarrow> res = ReadFailure e))"
  using read_line_refines [of "lr_buf lr" "lr_src lr"]
  by (auto simp: next_line_def pending_def split: prod.splits option.splits)

lemma next_line_no_fail:
  "next_line lr = (res, lr') \<Longrightarrow> first_fail (lr_src lr) = None \<Longrightarrow>
     (case first_line (pending lr) of
        None \<Rightarrow> res = EndOfInput \<and> pending lr' = []
      | Some (l, r) \<Rightarrow> res = Line l \<and> pending lr' = r) \<and> first_fail (lr_src lr') = None"
  by (drule next_line_refines) (auto simp: first_line_def split: option.splits)

lemma next_line_fail:
  "next_line lr = (res, lr') \<Longrightarrow> newline \<notin> set (pending lr) \<Longrightarrow>
     first_fail (lr_src lr) = Some (e, rest) \<Longrightarrow> res = ReadFailure e"
  by (drule next_line_refines) simp

lemma data_before_fail_append:
  "no_fail cs \<Longrightarrow> data_before_fail (cs @ ds) = data_of cs @ data_before_fail ds"
  by (induction cs rule: data_before_fail.induct) simp_all

lemma first_fail_append:
  "no_fail cs \<Longrightarrow> first_fail (cs @ ds) = first_fail ds"
  by (induction cs rule: first_fail.induct) simp_all

lemma first_line_break: "break_line s = Some p \<Longrightarrow> first_line s = Some p"
  by (auto simp: first_line_def)

theorem next_line_view:
  assumes "next_line r = (res, r')"
  shows "case reader_lines r of
           [] \<Rightarrow> res = (case reader_end r of None \<Rightarrow> EndOfInput | Some e \<Rightarrow> ReadFailure e)
         | l # ls \<Rightarrow> res = Line l \<and> reader_lines r' = ls \<and> reader_end r' = reader_end r"
proof (cases "break_line (pending r)")
  case (Some p)
  then obtain l rest where b: "break_line (pending r) = Some (l, rest)" by (cases p) auto
  with next_line_refines [OF assms] have "res = Line l" "pending r' = rest"
    "first_fail (lr_src r') = first_fail (lr_src r)" by simp_all
  with b show ?thesis
    by (simp add: reader_lines_def reader_end_def lines_of_first [OF first_line_break [OF b]]
        complete_lines.simps [of "pending r"])
next
  case None
  show ?thesis
  proof (cases "first_fail (lr_src r)")
    case None': None
    with None next_line_refines [OF assms] have
      "res = (if pending r = [] then EndOfInput else Line (pending r))" "pending r' = []"
      "first_fail (lr_src r') = None" by simp_all
    moreover have "pending r \<noteq> [] \<Longrightarrow> lines_of (pending r) = [pending r]"
      using None by (simp add: lines_of_first first_line_def)
    ultimately show ?thesis using None' by (auto simp: reader_lines_def reader_end_def)
  next
    case (Some f)
    then obtain e rest where f: "first_fail (lr_src r) = Some (e, rest)" by (cases f) auto
    with None next_line_refines [OF assms] have "res = ReadFailure e" by simp
    with None f show ?thesis
      by (simp add: reader_lines_def reader_end_def complete_lines.simps [of "pending r"])
  qed
qed

lemma new_line_reader_view [simp]:
  "reader_lines (new_line_reader b) = body_lines b"
  "reader_end (new_line_reader b) = map_option fst (first_fail b)"
  by (simp_all add: new_line_reader_def reader_lines_def reader_end_def body_lines_def pending_def)

end
