(* ===== verification/Framing.thy ===== *)
theory Framing
  imports LineReader Errors
begin

text \<open>
  The Event Decoder and the Error Accumulator of the stream core (specification, sections
  4.2 and 4.3; their code is not among the given sources). \<open>classify_line\<close> sorts one
  raw line: blank after trimming (a keep-alive), a data line whose trimmed payload is the
  sentinel \<open>[DONE]\<close>, a data line with a payload to decode, or any other line, whose raw
  bytes go to the accumulator. The accumulator appends what it is given and is resolved
  into an error by \<open>error_from_body\<close>, the decision \<open>handleErrorResp\<close> makes on a read
  body. The wire frame of one event is \<open>sse_frame\<close>, the body of a well-formed stream is
  \<open>sse_body\<close>, and \<open>classify_frame_line\<close> / \<open>classify_done_line\<close> show how the decoder
  reads them.
\<close>

definition data_marker :: bytes where
  "data_marker = ''data:''"

definition done_token :: bytes where
  "done_token = ''[DONE]''"

datatype line_kind = Blank | NotData | Sentinel | Payload bytes

definition classify_line :: "bytes \<Rightarrow> line_kind" where
  "classify_line raw =
     (let t = trim_space raw
      in if t = [] then Blank
         else if has_prefix t data_marker then
           (let p = trim_space (trim_prefix t data_marker)
            in if p = done_token then Sentinel else Payload p)
         else NotData)"

subsection \<open>Error accumulator\<close>

definition acc_write :: "bytes \<Rightarrow> bytes \<Rightarrow> bytes" where
  "acc_write acc b = acc @ b"

definition acc_resolve :: "envelope_decoder \<Rightarrow> string \<Rightarrow> int \<Rightarrow> bytes \<Rightarrow> client_error" where
  "acc_resolve dec st code acc = error_from_body dec st code acc"

subsection \<open>Wire frames\<close>

text \<open>
  A payload fits in a frame when it is one line, has no white space at either end, and is
  not the sentinel: exactly the payloads the decoder hands on unchanged.
\<close>

definition frame_payload :: "bytes \<Rightarrow> bool" where
  "frame_payload p \<longleftrightarrow> p \<noteq> [] \<and> trimmed p \<and> newline \<notin> set p \<and> p \<noteq> done_token"

definition data_line :: "bytes \<Rightarrow> bytes" where
  "data_line p = ''data: '' @ p @ [newline]"

definition sse_frame :: "bytes \<Rightarrow> bytes" where
  "sse_frame p = data_line p @ [newline]"

definition sse_body :: "bytes list \<Rightarrow> bytes" where
  "sse_body ps = concat (map sse_frame ps) @ sse_frame done_token"

text \<open>
  A body of frames each preceded by a number of blank keep-alive lines, then the sentinel
  after its own blank lines.
\<close>

definition keepalive_body :: "(nat \<times> bytes) list \<Rightarrow> nat \<Rightarrow> bytes" where
  "keepalive_body kps kd =
     concat (map (\<lambda>(k, p). replicate k newline @ data_line p) kps) @ replicate kd newline @ data_line done_token"

subsection \<open>Properties\<close>

lemma space_chars [simp]: "is_space CHR '' ''" "\<not> is_space CHR ''d''"
  by (simp_all add: is_space_def)

lemma newline_not_in_marker [simp]: "newline \<notin> set ''data: ''"
  by (simp add: newline_def)

lemma trim_data_line:
  assumes "p \<noteq> []" and "trimmed p"
  shows "trim_space (data_line p) = ''data: '' @ p"
    and "trim_space (trim_prefix (''data: '' @ p) data_marker) = p"
proof -
  have "trimmed (''data: '' @ p)"
    using assms by (simp add: trimmed_def)
  then show "trim_space (data_line p) = ''data: '' @ p"
    using trim_space_pad [of "[]" "[newline]" "''data: '' @ p"] by (simp add: data_line_def)
  have "trim_prefix (''data: '' @ p) data_marker = '' '' @ p"
    using trim_prefix_append [of data_marker "'' '' @ p"] by (simp add: data_marker_def)
  then show "trim_space (trim_prefix (''data: '' @ p) data_marker) = p"
    using trim_space_pad [of "'' ''" "[]" p] assms(2) by simp
qed

lemma data_line_marker [simp]: "has_prefix (''data: '' @ p) data_marker"
  by (simp add: data_marker_def)

lemma classify_frame_line:
  "frame_payload p \<Longrightarrow> classify_line (data_line p) = Payload p"
  using trim_data_line [of p] by (simp add: frame_payload_def classify_line_def Let_def data_marker_def)

lemma done_token_trimmed: "done_token \<noteq> [] \<and> trimmed done_token"
  by (simp add: done_token_def trimmed_def is_space_def)

lemma classify_done_line: "classify_line (data_line done_token) = Sentinel"
  using trim_data_line [of done_token] done_token_trimmed
  by (simp add: classify_line_def Let_def data_marker_def)

lemma classify_blank_line: "classify_line [newline] = Blank"
  by (simp add: classify_line_def trim_space_all_space)

lemma data_line_split: "newline \<notin> set p \<Longrightarrow> data_line p = (''data: '' @ p) @ [newline]"
  by (simp add: data_line_def)

end
