(* ===== verification/Stream.thy ===== *)
theory Stream
  imports Client Framing
begin

text \<open>
  The Stream Session (specification, section 4.4; the stream reader's code is not among
  the given sources) and \<open>sendRequestStream\<close> of \<open>src/client.go\<close>, which opens it. The
  session record keeps what the specification lists: the count of consecutive empty
  reads, whether the body is closed, the sticky terminal condition (end of stream or an
  error; the session is sealed once it is set), the empty-read limit, the line reader over
  the body, the error accumulator, and the response as received.

  \<open>recv\<close> returns the stored terminal condition of a sealed session without touching
  the reader; a closed session fails with \<open>BodyClosed\<close>; otherwise \<open>recv_loop\<close> reads
  lines until one decides the call: a blank line counts as empty and fails the session
  once the count exceeds the limit; another non-data line goes to the accumulator; the
  sentinel ends the stream; a payload is decoded into an event (resetting the count) or
  fails the session; a failed read fails it; the end of the body resolves the accumulator
  into an error when it holds bytes or the status is a failure, and ends the stream
  otherwise. The loop terminates because every line it reads makes the reader smaller
  (\<open>next_line_Line_smaller\<close>).
\<close>

datatype terminal = Finished | Failed client_error

datatype 'a recv_result = Event 'a | EOF | Err client_error

record stream_session =
  consecutive_empty_reads :: nat
  closed :: bool
  terminal_error :: "terminal option"
  sr_empty_limit :: nat
  sr_reader :: line_reader
  err_acc :: bytes
  sr_response :: response

record 'a stream_codec =
  decode_payload :: "bytes \<Rightarrow> json_error + 'a"
  decode_envelope :: envelope_decoder

fun terminal_result :: "terminal \<Rightarrow> 'a recv_result" where
  "terminal_result Finished = EOF"
| "terminal_result (Failed e) = Err e"

definition seal :: "terminal \<Rightarrow> stream_session \<Rightarrow> 'a recv_result \<times> stream_session" where
  "seal t s = (terminal_result t, s\<lparr>terminal_error := Some t\<rparr>)"

definition resolve_eof :: "envelope_decoder \<Rightarrow> stream_session \<Rightarrow> terminal" where
  "resolve_eof dec s =
     (if err_acc s \<noteq> [] \<or> is_failure_status_code (sr_response s)
      then Failed (acc_resolve dec (status (sr_response s)) (status_code (sr_response s)) (err_acc s))
      else Finished)"

function recv_loop :: "'a stream_codec \<Rightarrow> stream_session \<Rightarrow> 'a recv_result \<times> stream_session" where
  "recv_loop cd s =
     (case next_line (sr_reader s) of
        (ReadFailure e, r') \<Rightarrow> seal (Failed (Transport e)) (s\<lparr>sr_reader := r'\<rparr>)
      | (EndOfInput, r') \<Rightarrow> seal (resolve_eof (decode_envelope cd) s) (s\<lparr>sr_reader := r'\<rparr>)
      | (Line l, r') \<Rightarrow>
          (case classify_line l of
             Blank \<Rightarrow>
               (let n = Suc (consecutive_empty_reads s)
                in if n > sr_empty_limit s
                   then seal (Failed ErrTooManyEmptyStreamMessages)
                          (s\<lparr>sr_reader := r', consecutive_empty_reads := n\<rparr>)
                   else recv_loop cd (s\<lparr>sr_reader := r', consecutive_empty_reads := n\<rparr>))
           | NotData \<Rightarrow> recv_loop cd (s\<lparr>sr_reader := r', err_acc := acc_write (err_acc s) l\<rparr>)
           | Sentinel \<Rightarrow> seal Finished (s\<lparr>sr_reader := r'\<rparr>)
           | Payload p \<Rightarrow>
               (case decode_payload cd p of
                  Inl je \<Rightarrow> seal (Failed (DecodeErr je)) (s\<lparr>sr_reader := r'\<rparr>)
                | Inr v \<Rightarrow> (Event v, s\<lparr>sr_reader := r', consecutive_empty_reads := 0\<rparr>))))"
  by pat_completeness auto
termination
  by (relation "measure (\<lambda>(cd, s). reader_size (sr_reader s))") (auto dest: next_line_Line_smaller [OF sym])

declare recv_loop.simps [simp del]

definition recv :: "'a stream_codec \<Rightarrow> stream_session \<Rightarrow> 'a recv_result \<times> stream_session" where
  "recv cd s =
     (case terminal_error s of
        Some t \<Rightarrow> (terminal_result t, s)
      | None \<Rightarrow> if closed s then seal (Failed (Transport BodyClosed)) s else recv_loop cd s)"

definition close :: "stream_session \<Rightarrow> stream_session" where
  "close s = s\<lparr>closed := True\<rparr>"

definition open_session :: "nat \<Rightarrow> response \<Rightarrow> stream_session" where
  "open_session limit resp =
     \<lparr>consecutive_empty_reads = 0, closed = False, terminal_error = None, sr_empty_limit = limit,
      sr_reader = new_line_reader (resp_body resp), err_acc = [], sr_response = resp\<rparr>"

subsection \<open>Opening a stream (\<open>sendRequestStream\<close>, \<open>src/client.go\<close>)\<close>

definition stream_headers :: "request \<Rightarrow> request" where
  "stream_headers req =
     set_request_header ''Connection'' ''keep-alive''
       (set_request_header ''Cache-Control'' ''no-cache''
         (set_request_header ''Accept'' ''text/event-stream''
           (set_request_header ''Content-Type'' ''application/json'' req)))"

definition send_request_stream ::
  "'w client \<Rightarrow> envelope_decoder \<Rightarrow> request \<Rightarrow> 'w \<Rightarrow> (client_error + stream_session) \<times> 'w" where
  "send_request_stream c dec req w =
     (case http_client (config c) (stream_headers req) w of
        (Inl e, w') \<Rightarrow> (Inl (Transport e), w')
      | (Inr resp, w') \<Rightarrow>
          if is_failure_status_code resp then (Inl (handle_error_resp dec resp), w')
          else (Inr (open_session (empty_messages_limit (config c)) resp), w'))"

text \<open>Running a number of receive calls, as a caller's loop does.\<close>

fun drain :: "nat \<Rightarrow> 'a stream_codec \<Rightarrow> stream_session \<Rightarrow> 'a recv_result list \<times> stream_session" where
  "drain 0 cd s = ([], s)"
| "drain (Suc n) cd s =
     (case recv cd s of (r, s') \<Rightarrow> (case drain n cd s' of (rs, s'') \<Rightarrow> (r # rs, s'')))"


text \<open>What a result says about the session: an event leaves it open, anything else seals it.\<close>

fun result_terminal :: "'a recv_result \<Rightarrow> terminal option" where
  "result_terminal (Event v) = None"
| "result_terminal EOF = Some Finished"
| "result_terminal (Err e) = Some (Failed e)"

text \<open>
  A caller's interleaving of receive and close calls on one session, with the result of
  each receive (\<open>None\<close> for a close).
\<close>

datatype session_op = OpRecv | OpClose

fun run_ops ::
  "'a stream_codec \<Rightarrow> session_op list \<Rightarrow> stream_session \<Rightarrow> 'a recv_result option list \<times> stream_session" where
  "run_ops cd [] s = ([], s)"
| "run_ops cd (OpRecv # ops) s =
     (case recv cd s of (r, s') \<Rightarrow> (case run_ops cd ops s' of (rs, s'') \<Rightarrow> (Some r # rs, s'')))"
| "run_ops cd (OpClose # ops) s =
     (case run_ops cd ops (close s) of (rs, s'') \<Rightarrow> (None # rs, s''))"

text \<open>
  The sessions a caller can hold: opened by \<open>sendRequestStream\<close> on a response with a
  success status, then any receive or close.
\<close>

inductive reachable_session :: "'a stream_codec \<Rightarrow> stream_session \<Rightarrow> bool" for cd where
  opened: "\<not> is_failure_status_code resp \<Longrightarrow> reachable_session cd (open_session limit resp)"
| received: "reachable_session cd s \<Longrightarrow> recv cd s = (r, s') \<Longrightarrow> reachable_session cd s'"
| closing: "reachable_session cd s \<Longrightarrow> reachable_session cd (close s)"

text \<open>
  The invariant of a session: its response has a success status, and the empty-read count
  stays within the limit while the session is open and passes it by one at most.
\<close>

definition session_inv :: "stream_session \<Rightarrow> bool" where
  "session_inv s \<longleftrightarrow> \<not> is_failure_status_code (sr_response s)
     \<and> consecutive_empty_reads s \<le> Suc (sr_empty_limit s)
     \<and> (terminal_error s = None \<longrightarrow> consecutive_empty_reads s \<le> sr_empty_limit s)"

text \<open>Every line a reader yields, calling \<open>ReadBytes\<close> until it fails or the input ends, up to its end or its first failure.\<close>

function all_lines :: "line_reader \<Rightarrow> line_result list" where
  "all_lines lr = (case next_line lr of (Line l, lr') \<Rightarrow> Line l # all_lines lr' | (res, _) \<Rightarrow> [res])"
  by pat_completeness auto
termination
  by (relation "measure reader_size") (auto dest: next_line_Line_smaller [OF sym])

declare all_lines.simps [simp del]

text \<open>The answer a sealed session gives to one operation of a run.\<close>

definition op_answer :: "'a recv_result \<Rightarrow> session_op \<Rightarrow> 'a recv_result option" where
  "op_answer r op = (case op of OpRecv \<Rightarrow> Some r | OpClose \<Rightarrow> None)"

subsection \<open>Properties\<close>

paragraph \<open>Reading one line through the session.\<close>

lemma next_line_take_line:
  assumes "pending r = l @ newline # rest" and "newline \<notin> set l"
  shows "\<exists>r'. next_line r = (Line (l @ [newline]), r') \<and> pending r' = rest
           \<and> first_fail (lr_src r') = first_fail (lr_src r)"
proof -
  obtain res r' where nl: "next_line r = (res, r')" by fastforce
  from next_line_refines [OF nl] assms nl show ?thesis by auto
qed

lemma frame_line_split:
  "frame_payload p \<Longrightarrow> data_line p @ rest = (''data: '' @ p) @ newline # rest \<and> newline \<notin> set (''data: '' @ p)"
  by (simp add: frame_payload_def data_line_def newline_def)

lemma done_line_split:
  "data_line done_token @ rest = (''data: '' @ done_token) @ newline # rest \<and> newline \<notin> set (''data: '' @ done_token)"
  by (simp add: data_line_def done_token_def newline_def)

lemma recv_loop_payload:
  assumes "pending (sr_reader s) = data_line p @ rest"
    and "frame_payload p" and "decode_payload cd p = Inr v"
  shows "\<exists>r'. recv_loop cd s = (Event v, s\<lparr>sr_reader := r', consecutive_empty_reads := 0\<rparr>)
           \<and> pending r' = rest \<and> first_fail (lr_src r') = first_fail (lr_src (sr_reader s))"
proof -
  have split: "pending (sr_reader s) = (''data: '' @ p) @ newline # rest"
    "newline \<notin> set (''data: '' @ p)"
    using frame_line_split [OF assms(2), of rest] assms(1) by simp_all
  from next_line_take_line [OF split]
  obtain r' where "next_line (sr_reader s) = (Line (data_line p), r')" "pending r' = rest"
    "first_fail (lr_src r') = first_fail (lr_src (sr_reader s))"
    by (auto simp: data_line_def)
  moreover from this(1) assms(2,3)
  have "recv_loop cd s = (Event v, s\<lparr>sr_reader := r', consecutive_empty_reads := 0\<rparr>)"
    by (simp add: recv_loop.simps [of cd s] classify_frame_line)
  ultimately show ?thesis by (intro exI [of _ r'] conjI) assumption+
qed

lemma recv_loop_done:
  assumes "pending (sr_reader s) = data_line done_token @ rest"
  shows "\<exists>r'. recv_loop cd s = (EOF, s\<lparr>sr_reader := r', terminal_error := Some Finished\<rparr>)"
proof -
  have split: "pending (sr_reader s) = (''data: '' @ done_token) @ newline # rest"
    "newline \<notin> set (''data: '' @ done_token)"
    using done_line_split [of rest] assms by simp_all
  from next_line_take_line [OF split]
  obtain r' where "next_line (sr_reader s) = (Line (data_line done_token), r')"
    by (auto simp: data_line_def)
  then have "recv_loop cd s = (EOF, s\<lparr>sr_reader := r', terminal_error := Some Finished\<rparr>)"
    by (simp add: recv_loop.simps [of cd s] classify_done_line seal_def)
  then show ?thesis by blast
qed

lemma recv_loop_blank:
  assumes "pending (sr_reader s) = newline # rest"
    and "Suc (consecutive_empty_reads s) \<le> sr_empty_limit s"
  shows "\<exists>r'. recv_loop cd s =
             recv_loop cd (s\<lparr>sr_reader := r', consecutive_empty_reads := Suc (consecutive_empty_reads s)\<rparr>)
           \<and> pending r' = rest \<and> first_fail (lr_src r') = first_fail (lr_src (sr_reader s))"
proof -
  from next_line_take_line [of "sr_reader s" "[]" rest] assms(1)
  obtain r' where "next_line (sr_reader s) = (Line [newline], r')" "pending r' = rest"
    "first_fail (lr_src r') = first_fail (lr_src (sr_reader s))" by auto
  moreover from this(1) assms(2) have "recv_loop cd s =
      recv_loop cd (s\<lparr>sr_reader := r', consecutive_empty_reads := Suc (consecutive_empty_reads s)\<rparr>)"
    by (simp add: recv_loop.simps [of cd s] classify_blank_line)
  ultimately show ?thesis by (intro exI [of _ r'] conjI) assumption+
qed

lemma recv_loop_blanks:
  assumes "pending (sr_reader s) = replicate k newline @ rest"
    and "consecutive_empty_reads s + k \<le> sr_empty_limit s"
  shows "\<exists>r'. recv_loop cd s =
             recv_loop cd (s\<lparr>sr_reader := r', consecutive_empty_reads := consecutive_empty_reads s + k\<rparr>)
           \<and> pending r' = rest \<and> first_fail (lr_src r') = first_fail (lr_src (sr_reader s))"
  using assms
proof (induction k arbitrary: s)
  case 0
  then have "recv_loop cd s = recv_loop cd (s\<lparr>sr_reader := sr_reader s,
      consecutive_empty_reads := consecutive_empty_reads s + 0\<rparr>)" by simp
  moreover have "pending (sr_reader s) = rest" using "0" by simp
  ultimately show ?case by blast
next
  case (Suc k)
  from recv_loop_blank [of s "replicate k newline @ rest" cd] Suc.prems
  obtain r1 where r1: "recv_loop cd s =
      recv_loop cd (s\<lparr>sr_reader := r1, consecutive_empty_reads := Suc (consecutive_empty_reads s)\<rparr>)"
    and "pending r1 = replicate k newline @ rest"
    and "first_fail (lr_src r1) = first_fail (lr_src (sr_reader s))" by auto
  with Suc.IH [of "s\<lparr>sr_reader := r1, consecutive_empty_reads := Suc (consecutive_empty_reads s)\<rparr>"]
    Suc.prems(2)
  obtain r' where "recv_loop cd s = recv_loop cd (s\<lparr>sr_reader := r',
      consecutive_empty_reads := consecutive_empty_reads s + Suc k\<rparr>)"
    and "pending r' = rest" and "first_fail (lr_src r') = first_fail (lr_src (sr_reader s))"
    by (auto simp: r1)
  then show ?case by (intro exI [of _ r'] conjI) assumption+
qed

lemma recv_loop_blank_over:
  assumes "pending (sr_reader s) = newline # rest" and "sr_empty_limit s < Suc (consecutive_empty_reads s)"
  shows "fst (recv_loop cd s) = Err ErrTooManyEmptyStreamMessages"
proof -
  from next_line_take_line [of "sr_reader s" "[]" rest] assms(1)
  obtain r' where "next_line (sr_reader s) = (Line [newline], r')" by auto
  with assms(2) show ?thesis by (simp add: recv_loop.simps [of cd s] classify_blank_line seal_def)
qed

lemma recv_loop_fail:
  assumes "newline \<notin> set (pending (sr_reader s))" and "first_fail (lr_src (sr_reader s)) = Some (e, rest)"
  shows "\<exists>r'. recv_loop cd s = (Err (Transport e), s\<lparr>sr_reader := r', terminal_error := Some (Failed (Transport e))\<rparr>)"
proof -
  obtain res r' where nl: "next_line (sr_reader s) = (res, r')" by fastforce
  with next_line_fail [OF nl assms] have "next_line (sr_reader s) = (ReadFailure e, r')" by simp
  then have "recv_loop cd s = (Err (Transport e), s\<lparr>sr_reader := r', terminal_error := Some (Failed (Transport e))\<rparr>)"
    by (simp add: recv_loop.simps [of cd s] seal_def)
  then show ?thesis by blast
qed

lemma recv_loop_end:
  assumes "pending (sr_reader s) = []" and "first_fail (lr_src (sr_reader s)) = None"
  shows "\<exists>r'. recv_loop cd s = seal (resolve_eof (decode_envelope cd) s) (s\<lparr>sr_reader := r'\<rparr>)"
proof -
  obtain res r' where nl: "next_line (sr_reader s) = (res, r')" by fastforce
  with next_line_no_fail [OF nl assms(2)] assms(1) have "next_line (sr_reader s) = (EndOfInput, r')"
    by (simp add: first_line_def)
  then have "recv_loop cd s = seal (resolve_eof (decode_envelope cd) s) (s\<lparr>sr_reader := r'\<rparr>)"
    by (simp add: recv_loop.simps [of cd s])
  then show ?thesis by blast
qed

lemma resolve_eof_reader [simp]:
  "resolve_eof dec (s\<lparr>sr_reader := r\<rparr>) = resolve_eof dec s"
  by (simp add: resolve_eof_def)

lemma recv_loop_not_data:
  assumes "pending (sr_reader s) = b" and "first_fail (lr_src (sr_reader s)) = None"
    and "list_all (\<lambda>l. classify_line l = NotData) (lines_of b)"
  shows "\<exists>r'. recv_loop cd s = seal (resolve_eof (decode_envelope cd) (s\<lparr>err_acc := err_acc s @ b\<rparr>))
                                   (s\<lparr>sr_reader := r', err_acc := err_acc s @ b\<rparr>)"
  using assms
proof (induction b arbitrary: s rule: lines_of.induct)
  case (1 b)
  obtain res r1 where nl: "next_line (sr_reader s) = (res, r1)" by fastforce
  show ?case
  proof (cases "first_line b")
    case None
    then have "b = []" by (simp add: first_line_def split: if_splits option.splits)
    with recv_loop_end [of s cd] "1.prems" show ?thesis by simp
  next
    case (Some p)
    then obtain l r where fl: "first_line b = Some (l, r)" by (cases p) auto
    with next_line_no_fail [OF nl] "1.prems" have res: "res = Line l" and r1: "pending r1 = r" "first_fail (lr_src r1) = None"
      by simp_all
    from fl "1.prems"(3) have nd: "classify_line l = NotData" "list_all (\<lambda>l. classify_line l = NotData) (lines_of r)"
      by (simp_all add: lines_of_first)
    with res nl have step: "recv_loop cd s = recv_loop cd (s\<lparr>sr_reader := r1, err_acc := err_acc s @ l\<rparr>)"
      by (simp add: recv_loop.simps [of cd s] acc_write_def)
    have eof: "resolve_eof dec (s\<lparr>sr_reader := r1, err_acc := x\<rparr>) = resolve_eof dec (s\<lparr>err_acc := x\<rparr>)"
      for dec x by (simp add: resolve_eof_def)
    from "1.IH" [OF fl refl, of "s\<lparr>sr_reader := r1, err_acc := err_acc s @ l\<rparr>"] r1 nd
    obtain r' where "recv_loop cd (s\<lparr>sr_reader := r1, err_acc := err_acc s @ l\<rparr>) =
        seal (resolve_eof (decode_envelope cd) (s\<lparr>sr_reader := r1, err_acc := err_acc s @ l @ r\<rparr>))
             (s\<lparr>sr_reader := r', err_acc := err_acc s @ l @ r\<rparr>)" by auto
    with step first_line_append [OF fl] eof show ?thesis by auto
  qed
qed

paragraph \<open>Receive calls.\<close>

lemma recv_open [simp]:
  "terminal_error s = None \<Longrightarrow> \<not> closed s \<Longrightarrow> recv cd s = recv_loop cd s"
  by (simp add: recv_def)

lemma recv_sealed:
  "terminal_error s = Some t \<Longrightarrow> recv cd s = (terminal_result t, s)"
  by (simp add: recv_def)

lemma drain_sealed:
  "terminal_error s = Some t \<Longrightarrow> drain m cd s = (replicate m (terminal_result t), s)"
  by (induction m) (simp_all add: recv_sealed)

lemma recv_frame:
  assumes "terminal_error s = None" and "\<not> closed s"
    and "pending (sr_reader s) = replicate k newline @ data_line p @ rest"
    and "consecutive_empty_reads s + k \<le> sr_empty_limit s"
    and "frame_payload p" and "decode_payload cd p = Inr v"
  shows "\<exists>r'. recv cd s = (Event v, s\<lparr>sr_reader := r', consecutive_empty_reads := 0\<rparr>)
           \<and> pending r' = rest \<and> first_fail (lr_src r') = first_fail (lr_src (sr_reader s))"
proof -
  from recv_loop_blanks [OF assms(3,4), of cd] obtain r1 where
    r1: "recv_loop cd s = recv_loop cd (s\<lparr>sr_reader := r1,
           consecutive_empty_reads := consecutive_empty_reads s + k\<rparr>)"
    and p1: "pending r1 = data_line p @ rest"
    and f1: "first_fail (lr_src r1) = first_fail (lr_src (sr_reader s))" by blast
  from recv_loop_payload [of "s\<lparr>sr_reader := r1, consecutive_empty_reads := consecutive_empty_reads s + k\<rparr>"
      p rest cd v] p1 assms(5,6)
  obtain r' where "recv_loop cd (s\<lparr>sr_reader := r1,
           consecutive_empty_reads := consecutive_empty_reads s + k\<rparr>) =
         (Event v, s\<lparr>sr_reader := r', consecutive_empty_reads := 0\<rparr>)"
    and "pending r' = rest" and "first_fail (lr_src r') = first_fail (lr_src r1)" by auto
  with r1 f1 assms(1,2) show ?thesis by (intro exI [of _ r'] conjI) simp_all
qed

lemma recv_done:
  assumes "terminal_error s = None" and "\<not> closed s"
    and "pending (sr_reader s) = replicate k newline @ data_line done_token @ rest"
    and "consecutive_empty_reads s + k \<le> sr_empty_limit s"
  shows "\<exists>s'. recv cd s = (EOF, s') \<and> terminal_error s' = Some Finished"
proof -
  from recv_loop_blanks [OF assms(3,4), of cd] obtain r1 where
    r1: "recv_loop cd s = recv_loop cd (s\<lparr>sr_reader := r1,
           consecutive_empty_reads := consecutive_empty_reads s + k\<rparr>)"
    and p1: "pending r1 = data_line done_token @ rest" by blast
  define s1 where "s1 = s\<lparr>sr_reader := r1, consecutive_empty_reads := consecutive_empty_reads s + k\<rparr>"
  from recv_loop_done [of s1 rest cd] p1 obtain r' where
    "recv_loop cd s1 = (EOF, s1\<lparr>sr_reader := r', terminal_error := Some Finished\<rparr>)"
    by (auto simp: s1_def)
  with r1 assms(1,2) show ?thesis by (auto simp: s1_def)
qed

lemma drain_frames_then:
  assumes "pending (sr_reader s) = replicate k newline @ concat (map sse_frame ps) @ tail"
    and "k \<le> 1" and "\<forall>p \<in> set ps. frame_payload p" and "map (decode_payload cd) ps = map Inr vs"
    and "terminal_error s = None" and "\<not> closed s" and "consecutive_empty_reads s = 0"
    and "1 \<le> sr_empty_limit s"
    and fin: "\<And>r k. pending r = replicate k newline @ tail \<Longrightarrow>
               first_fail (lr_src r) = first_fail (lr_src (sr_reader s)) \<Longrightarrow> k \<le> 1 \<Longrightarrow>
               \<exists>s'. recv cd (s\<lparr>sr_reader := r\<rparr>) = (terminal_result t, s') \<and> terminal_error s' = Some t"
  shows "fst (drain (length ps + Suc m) cd s) = map Event vs @ replicate (Suc m) (terminal_result t)"
  using assms
proof (induction ps arbitrary: s k vs)
  case Nil
  from Nil.prems(9) [of "sr_reader s" k] Nil.prems(1,2) obtain s' where
    "recv cd s = (terminal_result t, s')" and "terminal_error s' = Some t" by auto
  with Nil.prems(4) show ?case by (simp add: drain_sealed)
next
  case (Cons p ps)
  from Cons.prems(4) obtain v vs' where vs: "vs = v # vs'" and dv: "decode_payload cd p = Inr v"
    and rest: "map (decode_payload cd) ps = map Inr vs'" by (cases vs) auto
  have "pending (sr_reader s) = replicate k newline @ data_line p @
          (replicate 1 newline @ concat (map sse_frame ps) @ tail)"
    using Cons.prems(1) by (simp add: sse_frame_def [of p])
  with Cons.prems dv recv_frame [of s k p _ cd v] obtain r' where
    step: "recv cd s = (Event v, s\<lparr>sr_reader := r', consecutive_empty_reads := 0\<rparr>)"
    and p': "pending r' = replicate 1 newline @ concat (map sse_frame ps) @ tail"
    and f': "first_fail (lr_src r') = first_fail (lr_src (sr_reader s))"
    by auto
  have s1: "s\<lparr>sr_reader := r', consecutive_empty_reads := 0\<rparr> = s\<lparr>sr_reader := r'\<rparr>"
    using Cons.prems(7) by simp
  have "fst (drain (length ps + Suc m) cd (s\<lparr>sr_reader := r'\<rparr>)) =
        map Event vs' @ replicate (Suc m) (terminal_result t)"
  proof (rule Cons.IH [of "s\<lparr>sr_reader := r'\<rparr>" 1 vs'])
    show "\<exists>s'. recv cd (s\<lparr>sr_reader := r', sr_reader := r\<rparr>) = (terminal_result t, s') \<and> terminal_error s' = Some t"
      if "pending r = replicate k newline @ tail" "first_fail (lr_src r) = first_fail (lr_src (sr_reader (s\<lparr>sr_reader := r'\<rparr>)))"
        "k \<le> 1" for r k
      using Cons.prems(9) [of r k] that f' by simp
  qed (use Cons.prems rest p' in simp_all)
  with step s1 vs show ?case by (simp split: prod.splits)
qed

lemma drain_keepalive:
  assumes "pending (sr_reader s) =
      concat (map (\<lambda>(k, p). replicate k newline @ data_line p) kps) @ replicate kd newline @ data_line done_token @ rest"
    and "\<forall>(k, p) \<in> set kps. k \<le> sr_empty_limit s \<and> frame_payload p" and "kd \<le> sr_empty_limit s"
    and "map (decode_payload cd) (map snd kps) = map Inr vs"
    and "terminal_error s = None" and "\<not> closed s" and "consecutive_empty_reads s = 0"
  shows "fst (drain (length kps + Suc m) cd s) = map Event vs @ replicate (Suc m) EOF"
  using assms
proof (induction kps arbitrary: s vs)
  case Nil
  from recv_done [of s kd rest cd] Nil.prems obtain s' where
    "recv cd s = (EOF, s')" and "terminal_error s' = Some Finished" by auto
  with Nil.prems(4) show ?case by (simp add: drain_sealed)
next
  case (Cons kp kps)
  obtain k p where kp: "kp = (k, p)" by fastforce
  from Cons.prems(4) kp obtain v vs' where vs: "vs = v # vs'" and dv: "decode_payload cd p = Inr v"
    and rest: "map (decode_payload cd) (map snd kps) = map Inr vs'" by (cases vs) auto
  from recv_frame [of s k p _ cd v] Cons.prems kp dv obtain r' where
    step: "recv cd s = (Event v, s\<lparr>sr_reader := r', consecutive_empty_reads := 0\<rparr>)"
    and p': "pending r' = concat (map (\<lambda>(k, p). replicate k newline @ data_line p) kps)
               @ replicate kd newline @ data_line done_token @ rest"
    by auto
  have "fst (drain (length kps + Suc m) cd (s\<lparr>sr_reader := r', consecutive_empty_reads := 0\<rparr>)) =
          map Event vs' @ replicate (Suc m) EOF"
    by (rule Cons.IH) (use Cons.prems rest p' in simp_all)
  with step vs show ?case by (simp split: prod.splits)
qed

paragraph \<open>What one receive call changes.\<close>

lemma result_terminal_terminal_result [simp]: "result_terminal (terminal_result t) = Some t"
  by (cases t) simp_all

lemma seal_result [simp]:
  "seal t s = (r, s') \<longleftrightarrow> r = terminal_result t \<and> s' = s\<lparr>terminal_error := Some t\<rparr>"
  by (auto simp: seal_def)

lemma recv_loop_effect:
  "recv_loop cd s = (r, s') \<Longrightarrow>
     closed s' = closed s \<and> sr_empty_limit s' = sr_empty_limit s \<and> sr_response s' = sr_response s
     \<and> (consecutive_empty_reads s \<le> sr_empty_limit s \<longrightarrow> consecutive_empty_reads s' \<le> Suc (sr_empty_limit s))
     \<and> (case result_terminal r of
          None \<Rightarrow> terminal_error s' = terminal_error s \<and> consecutive_empty_reads s' = 0
        | Some t \<Rightarrow> terminal_error s' = Some t \<and> r = terminal_result t)"
proof (induction cd s arbitrary: r s' rule: recv_loop.induct)
  case (1 cd s)
  obtain res lr' where nl: "next_line (sr_reader s) = (res, lr')" by fastforce
  show ?case
  proof (cases res)
    case (ReadFailure e)
    with nl "1.prems" show ?thesis by (auto simp: recv_loop.simps [of cd s])
  next
    case EndOfInput
    with nl "1.prems" show ?thesis by (auto simp: recv_loop.simps [of cd s])
  next
    case (Line l)
    show ?thesis
    proof (cases "classify_line l")
      case Blank
      show ?thesis
      proof (cases "Suc (consecutive_empty_reads s) > sr_empty_limit s")
        case True
        with Blank Line nl "1.prems" show ?thesis by (auto simp: recv_loop.simps [of cd s])
      next
        case False
        with Blank Line nl "1.prems" have
          "recv_loop cd (s\<lparr>sr_reader := lr', consecutive_empty_reads := Suc (consecutive_empty_reads s)\<rparr>) = (r, s')"
          by (simp add: recv_loop.simps [of cd s])
        from "1.IH"(1) [OF nl [symmetric] Line Blank refl False this] False show ?thesis
          by (auto split: option.splits)
      qed
    next
      case NotData
      with Line nl "1.prems" have
        "recv_loop cd (s\<lparr>sr_reader := lr', err_acc := acc_write (err_acc s) l\<rparr>) = (r, s')"
        by (simp add: recv_loop.simps [of cd s])
      from "1.IH"(2) [OF nl [symmetric] Line NotData this] show ?thesis
        by (auto split: option.splits)
    next
      case Sentinel
      with Line nl "1.prems" show ?thesis by (auto simp: recv_loop.simps [of cd s])
    next
      case (Payload p)
      with Line nl "1.prems" show ?thesis
        by (auto simp: recv_loop.simps [of cd s] split: sum.splits)
    qed
  qed
qed

lemma recv_effect:
  "recv cd s = (r, s') \<Longrightarrow>
     closed s' = closed s \<and> sr_empty_limit s' = sr_empty_limit s \<and> sr_response s' = sr_response s
     \<and> (consecutive_empty_reads s \<le> sr_empty_limit s \<longrightarrow> consecutive_empty_reads s' \<le> Suc (sr_empty_limit s))
     \<and> (case result_terminal r of
          None \<Rightarrow> terminal_error s' = terminal_error s \<and> consecutive_empty_reads s' = 0
        | Some t \<Rightarrow> terminal_error s' = Some t \<and> r = terminal_result t)"
  by (auto simp: recv_def dest: recv_loop_effect split: option.splits if_splits)

lemma close_fields [simp]:
  "closed (close s)" "terminal_error (close s) = terminal_error s"
  "consecutive_empty_reads (close s) = consecutive_empty_reads s"
  "sr_empty_limit (close s) = sr_empty_limit s" "sr_response (close s) = sr_response s"
  "sr_reader (close s) = sr_reader s" "err_acc (close s) = err_acc s"
  by (simp_all add: close_def)

lemma close_close [simp]: "close (close s) = close s"
  by (simp add: close_def)

paragraph \<open>The invariant of the sessions a caller holds.\<close>

lemma session_inv_open:
  "\<not> is_failure_status_code resp \<Longrightarrow> session_inv (open_session limit resp)"
  by (simp add: session_inv_def open_session_def)

lemma session_inv_recv:
  assumes "session_inv s" and "recv cd s = (r, s')"
  shows "session_inv s'"
proof (cases "terminal_error s")
  case None
  with assms(1) have "consecutive_empty_reads s \<le> sr_empty_limit s" by (simp add: session_inv_def)
  with recv_effect [OF assms(2)] assms(1) show ?thesis
    by (auto simp: session_inv_def split: option.splits)
next
  case (Some t)
  with assms show ?thesis by (simp add: recv_sealed)
qed

lemma session_inv_close: "session_inv s \<Longrightarrow> session_inv (close s)"
  by (simp add: session_inv_def)

lemma reachable_session_inv: "reachable_session cd s \<Longrightarrow> session_inv s"
proof (induction rule: reachable_session.induct)
  case (opened resp limit)
  then show ?case by (rule session_inv_open)
next
  case (received s r s')
  then show ?case by (blast intro: session_inv_recv)
next
  case (closing s)
  from closing.IH show ?case by (rule session_inv_close)
qed

lemma send_request_stream_reachable:
  "send_request_stream c dec req w = (Inr s, w') \<Longrightarrow> reachable_session cd s"
  by (auto simp: send_request_stream_def split: prod.splits sum.splits if_splits
           intro: reachable_session.opened)

lemma reachable_run_ops:
  "reachable_session cd s \<Longrightarrow> run_ops cd ops s = (rs, s') \<Longrightarrow> reachable_session cd s'"
proof (induction ops arbitrary: s rs)
  case Nil
  then show ?case by simp
next
  case (Cons op ops)
  show ?case
  proof (cases op)
    case OpRecv
    obtain r s1 where r: "recv cd s = (r, s1)" by fastforce
    with Cons.prems(1) have "reachable_session cd s1" by (rule reachable_session.received)
    with Cons.IH [of s1] Cons.prems(2) OpRecv r show ?thesis by (auto split: prod.splits)
  next
    case OpClose
    from Cons.prems(1) have "reachable_session cd (close s)" by (rule reachable_session.closing)
    with Cons.IH [of "close s"] Cons.prems(2) OpClose show ?thesis by (auto split: prod.splits)
  qed
qed

paragraph \<open>A sealed session.\<close>

lemma run_ops_sealed:
  "terminal_error s = Some t \<Longrightarrow>
     run_ops cd ops s = (map (op_answer (terminal_result t)) ops,
                         s\<lparr>closed := closed s \<or> OpClose \<in> set ops\<rparr>)"
proof (induction ops arbitrary: s)
  case Nil
  then show ?case by simp
next
  case (Cons op ops)
  show ?case
  proof (cases op)
    case OpRecv
    with Cons show ?thesis by (simp add: recv_sealed op_answer_def)
  next
    case OpClose
    with Cons.prems Cons.IH [of "close s"] show ?thesis
      by (simp add: op_answer_def close_def)
  qed
qed

lemma ex_recv_done:
  "fst (recv \<lparr>decode_payload = Inr, decode_envelope = \<lambda>b. (None, None)\<rparr>
     (open_session 300 \<lparr>status_code = 200, status = ''200 OK'', resp_header = Map.empty,
        resp_body = [Data ''data: [DONE]\<newline>'']\<rparr>)) = (EOF :: string recv_result)"
  by code_simp

text \<open>
  C1. A stream opened on a response whose body is a sequence of well-formed \<open>data:\<close>
  frames followed by the \<open>[DONE]\<close> sentinel, with the frames separated by blank
  keep-alive lines and delivered by the transport in any chunking (a frame may be split
  across reads), yields the decoded payloads as events in order, then end of stream, and
  end of stream on every later call; no empty event is produced for the blank lines.
\<close>

theorem open_session_delivers_frames:
  assumes "data_before_fail (resp_body resp) = sse_body ps @ rest"
    and "1 \<le> limit" and "\<forall>p \<in> set ps. frame_payload p"
    and "map (decode_payload cd) ps = map Inr vs"
  shows "fst (drain (length ps + Suc m) cd (open_session limit resp)) = map Event vs @ replicate (Suc m) EOF"
proof -
  have "fst (drain (length ps + Suc m) cd (open_session limit resp)) =
          map Event vs @ replicate (Suc m) (terminal_result Finished)"
  proof (rule drain_frames_then [where k = 0])
  show "pending (sr_reader (open_session limit resp)) =
      replicate 0 newline @ concat (map sse_frame ps) @ sse_frame done_token @ rest"
    using assms(1) by (simp add: open_session_def new_line_reader_def pending_def sse_body_def)
  show "\<exists>s'. recv cd ((open_session limit resp)\<lparr>sr_reader := r\<rparr>) = (terminal_result Finished, s') \<and> terminal_error s' = Some Finished"
    if "pending r = replicate k newline @ sse_frame done_token @ rest" "k \<le> 1" for r k
    using recv_done [of "(open_session limit resp)\<lparr>sr_reader := r\<rparr>" k "newline # rest" cd] that assms(2)
    by (simp add: open_session_def sse_frame_def)
  qed (use assms in \<open>simp_all add: open_session_def\<close>)
  then show ?thesis by simp
qed

theorem open_session_delivers_frames_witness:
  \<open>data_before_fail [Data ''data: {"id":"a"}\<newline>\<newline>data: {"i'', Data ''d":"b"}\<newline>\<newline>data: [DONE]\<newline>\<newline>'']
       = sse_body [''{"id":"a"}'', ''{"id":"b"}''] @ []
   \<and> frame_payload ''{"id":"a"}'' \<and> frame_payload ''{"id":"b"}''
   \<and> fst (drain 3 \<lparr>decode_payload = Inr, decode_envelope = \<lambda>b. (None, None)\<rparr>
         (open_session 300 \<lparr>status_code = 200, status = ''200 OK'', resp_header = Map.empty,
            resp_body = [Data ''data: {"id":"a"}\<newline>\<newline>data: {"i'', Data ''d":"b"}\<newline>\<newline>data: [DONE]\<newline>\<newline>'']\<rparr>))
       = [Event ''{"id":"a"}'', Event ''{"id":"b"}'', EOF]\<close>
proof -
  let ?b = \<open>[Data ''data: {"id":"a"}\<newline>\<newline>data: {"i'', Data ''d":"b"}\<newline>\<newline>data: [DONE]\<newline>\<newline>'']\<close>
  let ?ps = \<open>[''{"id":"a"}'', ''{"id":"b"}'']\<close>
  have h2: "data_before_fail ?b = sse_body ?ps @ []"
    by (simp add: sse_body_def sse_frame_def data_line_def done_token_def newline_def)
  have h3: "\<forall>p \<in> set ?ps. frame_payload p"
    by (simp add: frame_payload_def trimmed_def is_space_def newline_def done_token_def)
  let ?resp = \<open>\<lparr>status_code = 200, status = ''200 OK'', resp_header = Map.empty, resp_body = ?b\<rparr>\<close>
  let ?cd = \<open>\<lparr>decode_payload = Inr, decode_envelope = \<lambda>b. (None, None)\<rparr> :: string stream_codec\<close>
  have "fst (drain (length ?ps + Suc 0) ?cd (open_session 300 ?resp)) = map Event ?ps @ replicate (Suc 0) EOF"
    using h2 h3 by (intro open_session_delivers_frames) simp_all
  then show ?thesis using h2 h3 by (simp add: numeral_3_eq_3 del: drain.simps)
qed

text \<open>
  C2. Once a receive call returns a terminal result (end of stream or an error), the
  session is sealed: every later receive returns that same result, whatever the caller
  does in between, and closing changes nothing but the closed flag.
\<close>

theorem terminal_result_is_final:
  assumes "recv cd s1 = (r, s2)" and "result_terminal r = Some t"
  shows "run_ops cd ops s2 = (map (op_answer r) ops, s2\<lparr>closed := closed s2 \<or> OpClose \<in> set ops\<rparr>)"
proof -
  from recv_effect [OF assms(1)] assms(2) have "terminal_error s2 = Some t" and "r = terminal_result t"
    by simp_all
  then show ?thesis by (simp add: run_ops_sealed)
qed

theorem terminal_result_is_final_witness:
  "result_terminal (fst (recv \<lparr>decode_payload = Inr, decode_envelope = \<lambda>b. (None, None)\<rparr>
     (open_session 300 \<lparr>status_code = 200, status = ''200 OK'', resp_header = Map.empty,
        resp_body = [Data ''data: [DONE]\<newline>'']\<rparr>) :: string recv_result \<times> stream_session)) = Some Finished
   \<and> fst (run_ops \<lparr>decode_payload = Inr, decode_envelope = \<lambda>b. (None, None)\<rparr> [OpRecv, OpClose, OpRecv]
        (snd (recv \<lparr>decode_payload = Inr, decode_envelope = \<lambda>b. (None, None)\<rparr>
          (open_session 300 \<lparr>status_code = 200, status = ''200 OK'', resp_header = Map.empty,
             resp_body = [Data ''data: [DONE]\<newline>'']\<rparr>) :: string recv_result \<times> stream_session)))
       = [Some EOF, None, Some EOF]"
proof -
  let ?cd = "\<lparr>decode_payload = Inr, decode_envelope = \<lambda>b. (None, None)\<rparr> :: string stream_codec"
  let ?s0 = "open_session 300 \<lparr>status_code = 200, status = ''200 OK'', resp_header = Map.empty,
             resp_body = [Data ''data: [DONE]\<newline>'']\<rparr>"
  have r: "fst (recv ?cd ?s0) = EOF" by (rule ex_recv_done)
  have "run_ops ?cd [OpRecv, OpClose, OpRecv] (snd (recv ?cd ?s0)) =
      (map (op_answer (fst (recv ?cd ?s0))) [OpRecv, OpClose, OpRecv],
       (snd (recv ?cd ?s0))\<lparr>closed := closed (snd (recv ?cd ?s0)) \<or> OpClose \<in> set [OpRecv, OpClose, OpRecv]\<rparr>)"
    by (rule terminal_result_is_final [of ?cd ?s0 _ _ Finished]) (simp_all add: r prod_eq_iff)
  then show ?thesis by (simp add: r op_answer_def)
qed

text \<open>
  C3. A stream cut by the transport (a cancelled context, a deadline, a network error)
  after some frames and part of the next line delivers the complete frames as events,
  drops the partial line, and then reports the transport's error on this and every later
  receive call.
\<close>

theorem cancelled_stream_fails:
  assumes "resp_body resp = cs @ Fail e # later" and "no_fail cs"
    and "data_of cs = concat (map sse_frame ps) @ p" and "newline \<notin> set p"
    and "\<forall>q \<in> set ps. frame_payload q" and "map (decode_payload cd) ps = map Inr vs"
    and "1 \<le> limit"
  shows "fst (drain (length ps + Suc m) cd (open_session limit resp)) =
           map Event vs @ replicate (Suc m) (Err (Transport e))"
proof -
  have "fst (drain (length ps + Suc m) cd (open_session limit resp)) =
          map Event vs @ replicate (Suc m) (terminal_result (Failed (Transport e)))"
  proof (rule drain_frames_then [where k = 0])
  show "pending (sr_reader (open_session limit resp)) = replicate 0 newline @ concat (map sse_frame ps) @ p"
    using assms(1-3) by (simp add: open_session_def new_line_reader_def pending_def data_before_fail_append)
  show "\<exists>s'. recv cd ((open_session limit resp)\<lparr>sr_reader := r\<rparr>) = (terminal_result (Failed (Transport e)), s')
               \<and> terminal_error s' = Some (Failed (Transport e))"
    if pr: "pending r = replicate k newline @ p"
      and ff: "first_fail (lr_src r) = first_fail (lr_src (sr_reader (open_session limit resp)))"
      and kk: "k \<le> 1" for r k
  proof -
    let ?s = "(open_session limit resp)\<lparr>sr_reader := r\<rparr>"
    from recv_loop_blanks [of ?s k p cd] pr kk assms(7) obtain r1 where
      "recv_loop cd ?s = recv_loop cd (?s\<lparr>sr_reader := r1, consecutive_empty_reads := k\<rparr>)"
      and "pending r1 = p" and "first_fail (lr_src r1) = Some (e, later)"
      using ff assms(1,2) by (auto simp: open_session_def new_line_reader_def first_fail_append)
    moreover from recv_loop_fail [of "?s\<lparr>sr_reader := r1, consecutive_empty_reads := k\<rparr>" e later cd] assms(4) calculation
    obtain r' where "recv_loop cd (?s\<lparr>sr_reader := r1, consecutive_empty_reads := k\<rparr>) = (Err (Transport e),
        ?s\<lparr>sr_reader := r1, consecutive_empty_reads := k\<rparr>\<lparr>sr_reader := r', terminal_error := Some (Failed (Transport e))\<rparr>)"
      by auto
    ultimately show ?thesis by (simp add: open_session_def)
  qed
  qed (use assms in \<open>simp_all add: open_session_def\<close>)
  then show ?thesis by simp
qed

theorem cancelled_stream_fails_witness:
  \<open>fst (drain 3 \<lparr>decode_payload = Inr, decode_envelope = \<lambda>b. (None, None)\<rparr>
      (open_session 300 \<lparr>status_code = 200, status = ''200 OK'', resp_header = Map.empty,
         resp_body = [Data ''data: {"id":"a"}\<newline>\<newline>data: {"id'', Fail Canceled]\<rparr>))
     = [Event ''{"id":"a"}'', Err (Transport Canceled), Err (Transport Canceled)]\<close>
proof -
  let ?ps = \<open>[''{"id":"a"}'']\<close>
  let ?cs = \<open>[Data ''data: {"id":"a"}\<newline>\<newline>data: {"id'']\<close>
  let ?p = \<open>''data: {"id''\<close>
  let ?resp = "\<lparr>status_code = 200, status = ''200 OK'', resp_header = Map.empty, resp_body = ?cs @ [Fail Canceled]\<rparr>"
  let ?cd = \<open>\<lparr>decode_payload = Inr, decode_envelope = \<lambda>b. (None, None)\<rparr> :: string stream_codec\<close>
  have h1: \<open>data_of ?cs = concat (map sse_frame ?ps) @ ''data: {"id''\<close>
    by (simp add: sse_frame_def data_line_def newline_def)
  have h2: "\<forall>q \<in> set ?ps. frame_payload q"
    by (simp add: frame_payload_def trimmed_def is_space_def newline_def done_token_def)
  have "fst (drain (length ?ps + Suc 1) ?cd (open_session 300 ?resp)) =
          map Event ?ps @ replicate (Suc 1) (Err (Transport Canceled))"
    by (rule cancelled_stream_fails [where cs = ?cs and p = ?p and later = "[]"])
      (use h1 h2 in \<open>simp_all add: newline_def\<close>)
  then show ?thesis by (simp add: numeral_3_eq_3 del: drain.simps)
qed

text \<open>
  C4. A stream whose body is not a sequence of frames but an error document (lines that are
  neither blank nor \<open>data:\<close> lines, such as a JSON error envelope sent with a success
  status) ends on its first receive call with the error that \<open>handleErrorResp\<close> would
  build from the whole body and the response's status.
\<close>

theorem error_body_reported:
  assumes "no_fail (resp_body resp)" and "data_of (resp_body resp) \<noteq> []"
    and "list_all (\<lambda>l. classify_line l = NotData) (lines_of (data_of (resp_body resp)))"
  shows "fst (recv cd (open_session limit resp)) =
           Err (error_from_body (decode_envelope cd) (status resp) (status_code resp) (data_of (resp_body resp)))"
proof -
  let ?s = "open_session limit resp"
  from recv_loop_not_data [of ?s "data_of (resp_body resp)" cd] assms
  obtain r' where "recv_loop cd ?s = seal (resolve_eof (decode_envelope cd) (?s\<lparr>err_acc := data_of (resp_body resp)\<rparr>))
                                   (?s\<lparr>sr_reader := r', err_acc := data_of (resp_body resp)\<rparr>)"
    by (auto simp: open_session_def new_line_reader_def pending_def)
  with assms(2) show ?thesis
    by (simp add: open_session_def resolve_eof_def acc_resolve_def seal_def)
qed

theorem error_body_reported_witness:
  \<open>no_fail [Data ''{"error":\<newline>'', Data ''{"code":"quota"}}'']
   \<and> fst (recv \<lparr>decode_payload = Inr, decode_envelope = \<lambda>b. (None, Some \<lparr>err_code = ''quota'',
          err_message = ''out of quota'', err_param = None, err_type = ''billing'',
          http_status = [], http_status_code = 0\<rparr>)\<rparr>
        (open_session 300 \<lparr>status_code = 200, status = ''200 OK'', resp_header = Map.empty,
           resp_body = [Data ''{"error":\<newline>'', Data ''{"code":"quota"}}'']\<rparr>)) =
     (Err (APIErr \<lparr>err_code = ''quota'', err_message = ''out of quota'', err_param = None,
        err_type = ''billing'', http_status = ''200 OK'', http_status_code = 200\<rparr>) :: string recv_result)\<close>
proof -
  let ?b = \<open>[Data ''{"error":\<newline>'', Data ''{"code":"quota"}}'']\<close>
  let ?resp = "\<lparr>status_code = 200, status = ''200 OK'', resp_header = Map.empty, resp_body = ?b\<rparr>"
  let ?cd = "\<lparr>decode_payload = Inr, decode_envelope = \<lambda>b. (None, Some \<lparr>err_code = ''quota'',
          err_message = ''out of quota'', err_param = None, err_type = ''billing'',
          http_status = [], http_status_code = 0\<rparr>)\<rparr> :: string stream_codec"
  have h: "list_all (\<lambda>l. classify_line l = NotData) (lines_of (data_of ?b))"
    by code_simp
  have "fst (recv ?cd (open_session 300 ?resp)) =
          Err (error_from_body (decode_envelope ?cd) (status ?resp) (status_code ?resp) (data_of (resp_body ?resp)))"
    by (rule error_body_reported) (simp_all add: h [simplified])
  then show ?thesis by (simp add: error_from_body_def)
qed

text \<open>
  C5. The empty-message limit is exact: a first frame preceded by \<open>k\<close> blank lines is
  delivered when \<open>k\<close> is at most the limit, and the stream fails with
  \<open>ErrTooManyEmptyStreamMessages\<close> when \<open>k\<close> exceeds it.
\<close>

theorem empty_line_limit:
  assumes "data_before_fail (resp_body resp) = replicate k newline @ data_line p @ rest"
    and "frame_payload p" and "decode_payload cd p = Inr v"
  shows "fst (recv cd (open_session limit resp)) =
           (if k \<le> limit then Event v else Err ErrTooManyEmptyStreamMessages)"
proof (cases "k \<le> limit")
  case True
  with recv_frame [of "open_session limit resp" k p rest cd v] assms show ?thesis
    by (auto simp: open_session_def new_line_reader_def pending_def)
next
  case False
  let ?s = "open_session limit resp"
  from False obtain j where k: "k = limit + Suc j" by (metis add_Suc_right less_imp_Suc_add not_le)
  have "pending (sr_reader ?s) = replicate limit newline @ newline # replicate j newline @ data_line p @ rest"
    using assms(1) by (simp add: open_session_def new_line_reader_def pending_def k replicate_add replicate_app_Cons_same)
  from recv_loop_blanks [OF this, of cd] obtain r' where
    "recv_loop cd ?s = recv_loop cd (?s\<lparr>sr_reader := r', consecutive_empty_reads := limit\<rparr>)"
    and "pending r' = newline # replicate j newline @ data_line p @ rest"
    by (auto simp: open_session_def)
  with recv_loop_blank_over [of "?s\<lparr>sr_reader := r', consecutive_empty_reads := limit\<rparr>"
      "replicate j newline @ data_line p @ rest" cd] False
  show ?thesis by (simp add: open_session_def)
qed

theorem empty_line_limit_witness:
  "fst (recv \<lparr>decode_payload = Inr, decode_envelope = \<lambda>b. (None, None)\<rparr>
      (open_session 2 \<lparr>status_code = 200, status = ''200 OK'', resp_header = Map.empty,
         resp_body = [Data ''\<newline>\<newline>data: x\<newline>'']\<rparr>)) = Event ''x''
   \<and> fst (recv \<lparr>decode_payload = Inr, decode_envelope = \<lambda>b. (None, None)\<rparr>
      (open_session 2 \<lparr>status_code = 200, status = ''200 OK'', resp_header = Map.empty,
         resp_body = [Data ''\<newline>\<newline>'', Data ''\<newline>data: x\<newline>'']\<rparr>)) =
       (Err ErrTooManyEmptyStreamMessages :: string recv_result)"
proof -
  let ?cd = \<open>\<lparr>decode_payload = Inr, decode_envelope = \<lambda>b. (None, None)\<rparr> :: string stream_codec\<close>
  have fp: "frame_payload ''x''"
    by (simp add: frame_payload_def trimmed_def is_space_def newline_def done_token_def)
  have a: "fst (recv ?cd (open_session 2 \<lparr>status_code = 200, status = ''200 OK'', resp_header = Map.empty,
         resp_body = [Data ''\<newline>\<newline>data: x\<newline>'']\<rparr>)) = (if 2 \<le> (2::nat) then Event ''x'' else Err ErrTooManyEmptyStreamMessages)"
    by (rule empty_line_limit [where rest = "[]"]) (simp_all add: fp data_line_def newline_def numeral_2_eq_2)
  have b: "fst (recv ?cd (open_session 2 \<lparr>status_code = 200, status = ''200 OK'', resp_header = Map.empty,
         resp_body = [Data ''\<newline>\<newline>'', Data ''\<newline>data: x\<newline>'']\<rparr>)) = (if 3 \<le> (2::nat) then Event ''x'' else Err ErrTooManyEmptyStreamMessages)"
    by (rule empty_line_limit [where rest = "[]"]) (simp_all add: fp data_line_def newline_def numeral_3_eq_3)
  from a b show ?thesis by simp
qed

text \<open>
  C6. Every session sendRequestStream opens keeps the session invariant through any sequence of receive and close calls: its response has a success status, and its count of consecutive empty lines stays within the limit while the session is open and passes it by one at most.
\<close>

theorem stream_session_invariant:
  assumes "send_request_stream c dec req w = (Inr s, w')" and "run_ops cd ops s = (rs, s')"
  shows "session_inv s'"
  using reachable_run_ops [OF send_request_stream_reachable [OF assms(1)] assms(2)]
  by (rule reachable_session_inv)

theorem stream_session_invariant_witness:
  "send_request_stream (\<lparr>config = \<lparr>auth_token = ''tok'', base_url = ''https://ai.gitee.com/v1'', assistant_version = ''v2'',
       http_client = \<lambda>q w. (Inr \<lparr>status_code = 200, status = ''200 OK'', resp_header = Map.empty,
          resp_body = [Data ''data: [DONE]\<newline>'']\<rparr>, w), empty_messages_limit = 300\<rparr>,
     request_builder = \<lambda>m u b h. Inr \<lparr>req_method = m, req_url = u, req_header = h, req_body = None\<rparr>,
     form_builder = \<lambda>op buf. Inr buf, form_content_type = ''multipart/form-data''\<rparr> :: unit client) (\<lambda>b. (None, None)) \<lparr>req_method = ''POST'', req_url = ''https://ai.gitee.com/v1/completions'', req_header = Map.empty, req_body = None\<rparr> () = (Inr (open_session 300 \<lparr>status_code = 200, status = ''200 OK'', resp_header = Map.empty, resp_body = [Data ''data: [DONE]\<newline>'']\<rparr>), ())
   \<and> session_inv (snd (run_ops (\<lparr>decode_payload = Inr, decode_envelope = \<lambda>b. (None, None)\<rparr> :: string stream_codec) [OpRecv, OpClose, OpRecv] (open_session 300 \<lparr>status_code = 200, status = ''200 OK'', resp_header = Map.empty, resp_body = [Data ''data: [DONE]\<newline>'']\<rparr>)))"
proof -
  have h: "send_request_stream (\<lparr>config = \<lparr>auth_token = ''tok'', base_url = ''https://ai.gitee.com/v1'', assistant_version = ''v2'',
       http_client = \<lambda>q w. (Inr \<lparr>status_code = 200, status = ''200 OK'', resp_header = Map.empty,
          resp_body = [Data ''data: [DONE]\<newline>'']\<rparr>, w), empty_messages_limit = 300\<rparr>,
     request_builder = \<lambda>m u b h. Inr \<lparr>req_method = m, req_url = u, req_header = h, req_body = None\<rparr>,
     form_builder = \<lambda>op buf. Inr buf, form_content_type = ''multipart/form-data''\<rparr> :: unit client) (\<lambda>b. (None, None)) \<lparr>req_method = ''POST'', req_url = ''https://ai.gitee.com/v1/completions'', req_header = Map.empty, req_body = None\<rparr> () = (Inr (open_session 300 \<lparr>status_code = 200, status = ''200 OK'', resp_header = Map.empty, resp_body = [Data ''data: [DONE]\<newline>'']\<rparr>), ())"
    by (simp add: send_request_stream_def is_failure_status_code_def)
  have "session_inv (snd (run_ops (\<lparr>decode_payload = Inr, decode_envelope = \<lambda>b. (None, None)\<rparr> :: string stream_codec) [OpRecv, OpClose, OpRecv] (open_session 300 \<lparr>status_code = 200, status = ''200 OK'', resp_header = Map.empty, resp_body = [Data ''data: [DONE]\<newline>'']\<rparr>)))"
    by (rule stream_session_invariant [OF h, of "\<lparr>decode_payload = Inr, decode_envelope = \<lambda>b. (None, None)\<rparr> :: string stream_codec" "[OpRecv, OpClose, OpRecv]"])
      (rule prod.collapse [symmetric])
  with h show ?thesis by simp
qed

text \<open>
  C7. On every session sendRequestStream returns, after any interleaving of receive and close calls, the end of the body is resolved from the error accumulator alone: an empty accumulator ends the stream cleanly and a non-empty one yields the error handleErrorResp would build from it; the failure-status case of the specification never arises, since sendRequestStream opens no session on a failure status.
\<close>

theorem resolve_eof_ignores_status:
  assumes "send_request_stream c dec req w = (Inr s0, w')" and "run_ops cd ops s0 = (rs, s)"
  shows "resolve_eof (decode_envelope cd) s =
           (if err_acc s = [] then Finished
            else Failed (error_from_body (decode_envelope cd) (status (sr_response s))
                           (status_code (sr_response s)) (err_acc s)))"
  using reachable_session_inv [OF reachable_run_ops [OF send_request_stream_reachable [OF assms(1)] assms(2)]] by (simp add: resolve_eof_def session_inv_def acc_resolve_def)

theorem resolve_eof_ignores_status_witness:
  "resolve_eof (\<lambda>b. (None, None)) (open_session 300 \<lparr>status_code = 200, status = ''200 OK'',
      resp_header = Map.empty, resp_body = []\<rparr>) = Finished"
proof -
  let ?resp = "\<lparr>status_code = 200, status = ''200 OK'', resp_header = Map.empty, resp_body = []\<rparr>"
  let ?c = "\<lparr>config = \<lparr>auth_token = ''tok'', base_url = ''https://ai.gitee.com/v1'', assistant_version = ''v2'',
       http_client = recording_doer (\<lambda>q. Inr ?resp), empty_messages_limit = 300\<rparr>,
     request_builder = \<lambda>m u b h. Inr \<lparr>req_method = m, req_url = u, req_header = h, req_body = None\<rparr>,
     form_builder = \<lambda>op buf. Inr buf, form_content_type = ''multipart/form-data''\<rparr>"
  let ?req = "\<lparr>req_method = ''POST'', req_url = ''https://ai.gitee.com/v1/completions'', req_header = Map.empty, req_body = None\<rparr>"
  have "send_request_stream ?c (\<lambda>b. (None, None)) ?req [] = (Inr (open_session 300 ?resp), [stream_headers ?req])"
    by (simp add: send_request_stream_def recording_doer_def is_failure_status_code_def)
  from resolve_eof_ignores_status [OF this, of "\<lparr>decode_payload = Inr, decode_envelope = \<lambda>b. (None, None)\<rparr> :: string stream_codec" "[]"]
  show ?thesis by (simp add: open_session_def)
qed

text \<open>
  C22. Blank keep-alive lines are invisible to the caller: a stream whose frames are each preceded by at most the configured limit of blank lines yields exactly the decoded payloads, then end of stream. The empty-line count restarts at every event, so the blank lines of different gaps never add up against the limit.
\<close>

theorem keepalive_lines_invisible:
  assumes "data_before_fail (resp_body resp) = keepalive_body kps kd @ rest"
    and "\<forall>(k, p) \<in> set kps. k \<le> limit \<and> frame_payload p" and "kd \<le> limit"
    and "map (decode_payload cd) (map snd kps) = map Inr vs"
  shows "fst (drain (length kps + Suc m) cd (open_session limit resp)) = map Event vs @ replicate (Suc m) EOF"
  by (rule drain_keepalive [where kd = kd and rest = rest])
     (use assms in \<open>simp_all add: open_session_def new_line_reader_def pending_def keepalive_body_def\<close>)

theorem keepalive_lines_invisible_witness:
  \<open>data_before_fail [Data ''\<newline>\<newline>data: "a"\<newline>\<newline>\<newline>\<newline>data: "b"\<newline>data: [DONE]\<newline>'']
       = keepalive_body [(2, ''"a"''), (3, ''"b"'')] 0 @ []
   \<and> list_all (\<lambda>(k, p). k \<le> 3 \<and> frame_payload p) [(2::nat, ''"a"''), (3, ''"b"'')] \<and> (0::nat) \<le> 3
   \<and> fst (drain 4 \<lparr>decode_payload = Inr, decode_envelope = \<lambda>b. (None, None)\<rparr>
         (open_session 3 \<lparr>status_code = 200, status = ''200 OK'', resp_header = Map.empty,
            resp_body = [Data ''\<newline>\<newline>data: "a"\<newline>\<newline>\<newline>\<newline>data: "b"\<newline>data: [DONE]\<newline>'']\<rparr>))
       = [Event ''"a"'', Event ''"b"'', EOF, EOF]\<close>
proof -
  let ?b = \<open>[Data ''\<newline>\<newline>data: "a"\<newline>\<newline>\<newline>\<newline>data: "b"\<newline>data: [DONE]\<newline>'']\<close>
  let ?kps = \<open>[(2::nat, ''"a"''), (3, ''"b"'')]\<close>
  have h1: "data_before_fail ?b = keepalive_body ?kps 0 @ []"
    by (simp add: keepalive_body_def data_line_def done_token_def newline_def numeral_2_eq_2 numeral_3_eq_3)
  have h2: "\<forall>(k, p) \<in> set ?kps. k \<le> 3 \<and> frame_payload p"
    by (simp add: frame_payload_def trimmed_def is_space_def newline_def done_token_def)
  let ?resp = \<open>\<lparr>status_code = 200, status = ''200 OK'', resp_header = Map.empty, resp_body = ?b\<rparr>\<close>
  let ?cd = \<open>\<lparr>decode_payload = Inr, decode_envelope = \<lambda>b. (None, None)\<rparr> :: string stream_codec\<close>
  have "fst (drain (length ?kps + Suc 1) ?cd (open_session 3 ?resp)) = map Event (map snd ?kps) @ replicate (Suc 1) EOF"
    using h1 h2 by (intro keepalive_lines_invisible [where kd = 0 and rest = "[]"]) simp_all
  then show ?thesis using h1 h2 by (simp add: numeral_eq_Suc del: drain.simps)
qed

lemma complete_lines_prefix:
  "\<exists>t. s = concat (complete_lines s) @ t \<and> newline \<notin> set t"
proof (induction s rule: complete_lines.induct)
  case (1 s)
  show ?case
  proof (cases "break_line s")
    case None
    then show ?thesis by (simp add: complete_lines.simps [of s] break_line_None_iff)
  next
    case (Some p)
    then obtain l r where b: "break_line s = Some (l, r)" by (cases p) auto
    from "1" [OF b refl] obtain t where "r = concat (complete_lines r) @ t" "newline \<notin> set t" by blast
    moreover have "complete_lines s = l # complete_lines r" by (simp add: complete_lines.simps [of s] b)
    ultimately show ?thesis using break_line_Some [OF b] by (intro exI [of _ t]) simp
  qed
qed

lemma all_lines_view:
  "all_lines r = map Line (reader_lines r) @ [case reader_end r of None \<Rightarrow> EndOfInput | Some e \<Rightarrow> ReadFailure e]"
proof (induction r rule: all_lines.induct)
  case (1 r)
  obtain res r' where nl: "next_line r = (res, r')" by fastforce
  note v = next_line_view [OF nl]
  show ?case
  proof (cases "reader_lines r")
    case Nil
    with v nl show ?thesis by (cases "reader_end r") (auto simp: all_lines.simps [of r])
  next
    case (Cons l ls)
    with v nl "1" [OF nl [symmetric]] show ?thesis by (auto simp: all_lines.simps [of r])
  qed
qed

text \<open>
  C27. Reading a response body line by line until the reader stops yields the lines of the body, then EndOfInput, or the transport's first failure. The lines put back together give the body up to a tail that holds no newline, and that tail is empty unless the transport failed.
\<close>

theorem reader_lines_roundtrip:
  "all_lines (new_line_reader b) =
     map Line (body_lines b) @ [case first_fail b of None \<Rightarrow> EndOfInput | Some (e, _) \<Rightarrow> ReadFailure e]
   \<and> (\<exists>t. data_before_fail b = concat (body_lines b) @ t \<and> newline \<notin> set t
          \<and> (t = [] \<or> (\<exists>e r. first_fail b = Some (e, r))))"
proof
  show "all_lines (new_line_reader b) =
     map Line (body_lines b) @ [case first_fail b of None \<Rightarrow> EndOfInput | Some (e, _) \<Rightarrow> ReadFailure e]"
    by (simp add: all_lines_view split: option.splits)
next
  show "\<exists>t. data_before_fail b = concat (body_lines b) @ t \<and> newline \<notin> set t
          \<and> (t = [] \<or> (\<exists>e r. first_fail b = Some (e, r)))"
  proof (cases "first_fail b")
    case None
    then show ?thesis by (simp add: body_lines_def concat_lines_of)
  next
    case (Some er)
    with complete_lines_prefix [of "data_before_fail b"] show ?thesis
      by (cases er) (auto simp: body_lines_def)
  qed
qed

lemma recv_bad_payload:
  assumes "terminal_error s = None" and "\<not> closed s"
    and "pending (sr_reader s) = replicate k newline @ data_line p @ rest"
    and "consecutive_empty_reads s + k \<le> sr_empty_limit s"
    and "frame_payload p" and "decode_payload cd p = Inl je"
  shows "\<exists>s'. recv cd s = (Err (DecodeErr je), s') \<and> terminal_error s' = Some (Failed (DecodeErr je))"
proof -
  from recv_loop_blanks [OF assms(3,4), of cd] obtain r1 where
    r1: "recv_loop cd s = recv_loop cd (s\<lparr>sr_reader := r1,
           consecutive_empty_reads := consecutive_empty_reads s + k\<rparr>)"
    and p1: "pending r1 = data_line p @ rest" by blast
  define s1 where "s1 = s\<lparr>sr_reader := r1, consecutive_empty_reads := consecutive_empty_reads s + k\<rparr>"
  have "pending (sr_reader s1) = (''data: '' @ p) @ newline # rest" "newline \<notin> set (''data: '' @ p)"
    using frame_line_split [OF assms(5), of rest] p1 by (simp_all add: s1_def)
  from next_line_take_line [OF this] obtain r' where "next_line (sr_reader s1) = (Line (data_line p), r')"
    by (auto simp: data_line_def)
  with assms(5,6) have "recv_loop cd s1 = (Err (DecodeErr je), s1\<lparr>sr_reader := r', terminal_error := Some (Failed (DecodeErr je))\<rparr>)"
    by (simp add: recv_loop.simps [of cd s1] classify_frame_line seal_def)
  with r1 assms(1,2) show ?thesis by (auto simp: s1_def)
qed

text \<open>
  C28. A data line whose payload fails to decode ends the stream with that decode error: the events before it are delivered, then the error, and the session is sealed so every later receive returns the same error.
\<close>

theorem decode_error_seals:
  assumes "data_before_fail (resp_body resp) = concat (map sse_frame ps) @ data_line p @ rest"
    and "1 \<le> limit" and "\<forall>q \<in> set (p # ps). frame_payload q"
    and "map (decode_payload cd) ps = map Inr vs" and "decode_payload cd p = Inl je"
  shows "fst (drain (length ps + Suc m) cd (open_session limit resp)) =
           map Event vs @ replicate (Suc m) (Err (DecodeErr je))"
proof -
  have "fst (drain (length ps + Suc m) cd (open_session limit resp)) =
          map Event vs @ replicate (Suc m) (terminal_result (Failed (DecodeErr je)))"
  proof (rule drain_frames_then [where k = 0])
    show "pending (sr_reader (open_session limit resp)) = replicate 0 newline @ concat (map sse_frame ps) @ data_line p @ rest"
      using assms(1) by (simp add: open_session_def new_line_reader_def pending_def)
    show "\<exists>s'. recv cd ((open_session limit resp)\<lparr>sr_reader := r\<rparr>) = (terminal_result (Failed (DecodeErr je)), s')
            \<and> terminal_error s' = Some (Failed (DecodeErr je))"
      if "pending r = replicate k newline @ data_line p @ rest" "k \<le> 1" for r k
      using recv_bad_payload [of "(open_session limit resp)\<lparr>sr_reader := r\<rparr>" k p rest cd je] that assms(2,3,5)
      by (simp add: open_session_def)
  qed (use assms in \<open>simp_all add: open_session_def\<close>)
  then show ?thesis by simp
qed

theorem decode_error_seals_witness:
  \<open>fst (drain 3 \<lparr>decode_payload = \<lambda>p. if p = ''{bad'' then Inl (SyntaxError p) else Inr p, decode_envelope = \<lambda>b. (None, None)\<rparr>
       (open_session 300 \<lparr>status_code = 200, status = ''200 OK'', resp_header = Map.empty,
          resp_body = [Data ''data: "a"\<newline>\<newline>data: {bad\<newline>data: [DONE]\<newline>'']\<rparr>))
   = [Event ''"a"'', Err (DecodeErr (SyntaxError ''{bad'')), Err (DecodeErr (SyntaxError ''{bad''))]\<close>
proof -
  let ?cd = \<open>\<lparr>decode_payload = \<lambda>p. if p = ''{bad'' then Inl (SyntaxError p) else Inr p, decode_envelope = \<lambda>b. (None, None)\<rparr>\<close>
  let ?resp = \<open>\<lparr>status_code = 200, status = ''200 OK'', resp_header = Map.empty,
          resp_body = [Data ''data: "a"\<newline>\<newline>data: {bad\<newline>data: [DONE]\<newline>'']\<rparr>\<close>
  have \<open>fst (drain (length [''"a"''] + Suc 1) ?cd (open_session 300 ?resp)) =
          map Event [''"a"''] @ replicate (Suc 1) (Err (DecodeErr (SyntaxError ''{bad'')))\<close>
    by (rule decode_error_seals [where rest = \<open>''data: [DONE]\<newline>''\<close>])
       (simp_all add: sse_frame_def data_line_def newline_def frame_payload_def trimmed_def is_space_def done_token_def)
  then show ?thesis by (simp add: numeral_3_eq_3 del: drain.simps)
qed

lemma recv_blanks_end:
  assumes "terminal_error s = None" and "\<not> closed s"
    and "pending (sr_reader s) = replicate k newline" and "first_fail (lr_src (sr_reader s)) = None"
    and "consecutive_empty_reads s + k \<le> sr_empty_limit s"
  shows "\<exists>s'. recv cd s = (terminal_result (resolve_eof (decode_envelope cd) s), s')
           \<and> terminal_error s' = Some (resolve_eof (decode_envelope cd) s)"
proof -
  from recv_loop_blanks [of s k "[]" cd] assms(3,5) obtain r1 where
    r1: "recv_loop cd s = recv_loop cd (s\<lparr>sr_reader := r1,
           consecutive_empty_reads := consecutive_empty_reads s + k\<rparr>)"
    and p1: "pending r1 = []" and f1: "first_fail (lr_src r1) = None" using assms(4) by auto
  define s1 where "s1 = s\<lparr>sr_reader := r1, consecutive_empty_reads := consecutive_empty_reads s + k\<rparr>"
  from recv_loop_end [of s1 cd] p1 f1 obtain r' where
    "recv_loop cd s1 = seal (resolve_eof (decode_envelope cd) s1) (s1\<lparr>sr_reader := r'\<rparr>)"
    by (auto simp: s1_def)
  moreover have "resolve_eof (decode_envelope cd) s1 = resolve_eof (decode_envelope cd) s"
    by (simp add: s1_def resolve_eof_def)
  ultimately show ?thesis using r1 assms(1,2) by (auto simp: s1_def seal_def)
qed

text \<open>
  C31. A body that ends without the [DONE] sentinel, after complete frames and with a success status, ends the stream as a clean end of stream after its events: the session tolerates a server that closes the connection without the sentinel, as section 4.4 of the specification chooses.
\<close>

theorem unterminated_stream_ends_cleanly:
  assumes "data_before_fail (resp_body resp) = concat (map sse_frame ps)"
    and "first_fail (resp_body resp) = None" and "\<not> is_failure_status_code resp"
    and "1 \<le> limit" and "\<forall>p \<in> set ps. frame_payload p"
    and "map (decode_payload cd) ps = map Inr vs"
  shows "fst (drain (length ps + Suc m) cd (open_session limit resp)) = map Event vs @ replicate (Suc m) EOF"
proof -
  have "fst (drain (length ps + Suc m) cd (open_session limit resp)) =
          map Event vs @ replicate (Suc m) (terminal_result Finished)"
  proof (rule drain_frames_then [where k = 0 and tail = "[]"])
    show "pending (sr_reader (open_session limit resp)) = replicate 0 newline @ concat (map sse_frame ps) @ []"
      using assms(1) by (simp add: open_session_def new_line_reader_def pending_def)
    show "\<exists>s'. recv cd ((open_session limit resp)\<lparr>sr_reader := r\<rparr>) = (terminal_result Finished, s')
            \<and> terminal_error s' = Some Finished"
      if "pending r = replicate k newline @ []"
        and "first_fail (lr_src r) = first_fail (lr_src (sr_reader (open_session limit resp)))" and "k \<le> 1" for r k
    proof -
      have "resolve_eof (decode_envelope cd) ((open_session limit resp)\<lparr>sr_reader := r\<rparr>) = Finished"
        using assms(3) by (simp add: resolve_eof_def open_session_def)
      with recv_blanks_end [of "(open_session limit resp)\<lparr>sr_reader := r\<rparr>" k cd] that assms(2,4)
      show ?thesis by (simp add: open_session_def new_line_reader_def)
    qed
  qed (use assms in \<open>simp_all add: open_session_def\<close>)
  then show ?thesis by simp
qed

theorem unterminated_stream_ends_cleanly_witness:
  \<open>fst (drain 3 \<lparr>decode_payload = Inr, decode_envelope = \<lambda>b. (None, None)\<rparr>
       (open_session 300 \<lparr>status_code = 200, status = ''200 OK'', resp_header = Map.empty,
          resp_body = [Data ''data: "a"\<newline>\<newline>data: "b"'', Data ''\<newline>\<newline>'']\<rparr>))
   = [Event ''"a"'', Event ''"b"'', EOF]\<close>
proof -
  let ?cd = \<open>\<lparr>decode_payload = Inr, decode_envelope = \<lambda>b. (None, None)\<rparr> :: string stream_codec\<close>
  let ?resp = \<open>\<lparr>status_code = 200, status = ''200 OK'', resp_header = Map.empty,
          resp_body = [Data ''data: "a"\<newline>\<newline>data: "b"'', Data ''\<newline>\<newline>'']\<rparr>\<close>
  have \<open>fst (drain (length [''"a"'', ''"b"''] + Suc 0) ?cd (open_session 300 ?resp)) =
          map Event [''"a"'', ''"b"''] @ replicate (Suc 0) EOF\<close>
    by (rule unterminated_stream_ends_cleanly)
       (simp_all add: sse_frame_def data_line_def newline_def frame_payload_def trimmed_def is_space_def
          done_token_def is_failure_status_code_def)
  then show ?thesis by (simp add: numeral_3_eq_3 del: drain.simps)
qed

end
