(* ===== verification/StreamSpec.thy ===== *)
theory StreamSpec
  imports Stream
begin

text \<open>
  An abstract specification of the stream session and the proof that the session of
  \<open>Stream\<close> refines it. The abstract session (\<open>session_view\<close>) has the fields of the
  concrete one, but in place of the line reader it holds the list of lines the body still
  has (\<open>reader_lines\<close>) and the failure that ends it (\<open>reader_end\<close>); its receive
  loop \<open>a_recv_loop\<close> walks that list. \<open>recv_sim\<close> is the simulation of one receive
  call, \<open>drain_sim\<close> its extension to any number of calls. On the abstract side every
  event consumes a line, which gives the liveness of the stream and the termination of a
  caller's loop \<open>consume\<close> (receive until end of stream or an error, the loop the
  specification asks callers to run).
\<close>

partial_function (option) consume ::
  "'a stream_codec \<Rightarrow> stream_session \<Rightarrow> ('a list \<times> terminal) option" where
  "consume cd s =
     (case recv cd s of
        (Event v, s') \<Rightarrow> Option.bind (consume cd s') (\<lambda>(vs, t). Some (v # vs, t))
      | (EOF, s') \<Rightarrow> Some ([], Finished)
      | (Err e, s') \<Rightarrow> Some ([], Failed e))"

record session_view =
  a_empty_reads :: nat
  a_closed :: bool
  a_terminal :: "terminal option"
  a_limit :: nat
  a_lines :: "bytes list"
  a_end :: "io_error option"
  a_acc :: bytes
  a_response :: response

definition abstract_session :: "stream_session \<Rightarrow> session_view" where
  "abstract_session s =
     \<lparr>a_empty_reads = consecutive_empty_reads s, a_closed = closed s, a_terminal = terminal_error s,
      a_limit = sr_empty_limit s, a_lines = reader_lines (sr_reader s), a_end = reader_end (sr_reader s),
      a_acc = err_acc s, a_response = sr_response s\<rparr>"

definition a_resolve :: "envelope_decoder \<Rightarrow> session_view \<Rightarrow> terminal" where
  "a_resolve dec a =
     (if a_acc a \<noteq> [] \<or> is_failure_status_code (a_response a)
      then Failed (acc_resolve dec (status (a_response a)) (status_code (a_response a)) (a_acc a))
      else Finished)"

definition a_seal :: "terminal \<Rightarrow> session_view \<Rightarrow> 'a recv_result \<times> session_view" where
  "a_seal t a = (terminal_result t, a\<lparr>a_terminal := Some t\<rparr>)"

function a_recv_loop :: "'a stream_codec \<Rightarrow> session_view \<Rightarrow> 'a recv_result \<times> session_view" where
  "a_recv_loop cd a =
     (case a_lines a of
        [] \<Rightarrow> (case a_end a of
                 None \<Rightarrow> a_seal (a_resolve (decode_envelope cd) a) a
               | Some e \<Rightarrow> a_seal (Failed (Transport e)) a)
      | l # ls \<Rightarrow>
          (case classify_line l of
             Blank \<Rightarrow>
               (let n = Suc (a_empty_reads a)
                in if n > a_limit a then a_seal (Failed ErrTooManyEmptyStreamMessages) (a\<lparr>a_lines := ls, a_empty_reads := n\<rparr>)
                   else a_recv_loop cd (a\<lparr>a_lines := ls, a_empty_reads := n\<rparr>))
           | NotData \<Rightarrow> a_recv_loop cd (a\<lparr>a_lines := ls, a_acc := a_acc a @ l\<rparr>)
           | Sentinel \<Rightarrow> a_seal Finished (a\<lparr>a_lines := ls\<rparr>)
           | Payload p \<Rightarrow>
               (case decode_payload cd p of
                  Inl je \<Rightarrow> a_seal (Failed (DecodeErr je)) (a\<lparr>a_lines := ls\<rparr>)
                | Inr v \<Rightarrow> (Event v, a\<lparr>a_lines := ls, a_empty_reads := 0\<rparr>))))"
  by pat_completeness auto
termination
  by (relation "measure (\<lambda>(cd, a). length (a_lines a))") auto

declare a_recv_loop.simps [simp del]

definition a_recv :: "'a stream_codec \<Rightarrow> session_view \<Rightarrow> 'a recv_result \<times> session_view" where
  "a_recv cd a =
     (case a_terminal a of
        Some t \<Rightarrow> (terminal_result t, a)
      | None \<Rightarrow> if a_closed a then a_seal (Failed (Transport BodyClosed)) a else a_recv_loop cd a)"

fun a_drain :: "nat \<Rightarrow> 'a stream_codec \<Rightarrow> session_view \<Rightarrow> 'a recv_result list" where
  "a_drain 0 cd a = []"
| "a_drain (Suc n) cd a = (case a_recv cd a of (r, a') \<Rightarrow> r # a_drain n cd a')"

text \<open>The concrete session and its view agree, or both are sealed on the same terminal.\<close>

definition corresponds :: "stream_session \<Rightarrow> session_view \<Rightarrow> bool" where
  "corresponds s a \<longleftrightarrow> a = abstract_session s
     \<or> (\<exists>t. terminal_error s = Some t \<and> a_terminal a = Some t)"

definition opened_view :: "nat \<Rightarrow> response \<Rightarrow> session_view" where
  "opened_view limit resp =
     \<lparr>a_empty_reads = 0, a_closed = False, a_terminal = None, a_limit = limit,
      a_lines = body_lines (resp_body resp), a_end = map_option fst (first_fail (resp_body resp)),
      a_acc = [], a_response = resp\<rparr>"

subsection \<open>Properties\<close>

lemma abstract_session_sel [simp]:
  "a_empty_reads (abstract_session s) = consecutive_empty_reads s"
  "a_closed (abstract_session s) = closed s" "a_terminal (abstract_session s) = terminal_error s"
  "a_limit (abstract_session s) = sr_empty_limit s" "a_lines (abstract_session s) = reader_lines (sr_reader s)"
  "a_end (abstract_session s) = reader_end (sr_reader s)" "a_acc (abstract_session s) = err_acc s"
  "a_response (abstract_session s) = sr_response s"
  by (simp_all add: abstract_session_def)

lemma resolve_eof_view: "resolve_eof dec s = a_resolve dec (abstract_session s)"
  by (simp add: resolve_eof_def a_resolve_def abstract_session_def)

lemma recv_loop_sim:
  "recv_loop cd s = (r, s') \<Longrightarrow> a_recv_loop cd (abstract_session s) = (r2, a') \<Longrightarrow>
     r2 = r \<and> (case result_terminal r of None \<Rightarrow> a' = abstract_session s' | Some t \<Rightarrow> terminal_error s' = Some t \<and> a_terminal a' = Some t)"
proof (induction cd s arbitrary: r s' r2 a' rule: recv_loop.induct)
  case (1 cd s)
  obtain res r1 where nl: "next_line (sr_reader s) = (res, r1)" by fastforce
  note view = next_line_view [OF nl]
  show ?case
  proof (cases "reader_lines (sr_reader s)")
    case Nil
    with view have res: "res = (case reader_end (sr_reader s) of None \<Rightarrow> EndOfInput | Some e \<Rightarrow> ReadFailure e)" by simp
    with nl Nil "1.prems" show ?thesis
      by (auto simp: recv_loop.simps [of cd s] a_recv_loop.simps [of cd "abstract_session s"]
          a_seal_def seal_def resolve_eof_view split: option.splits)
  next
    case (Cons l ls)
    with view have res: "res = Line l" and r1: "reader_lines r1 = ls" "reader_end r1 = reader_end (sr_reader s)"
      by simp_all
    show ?thesis
    proof (cases "classify_line l")
      case Blank
      show ?thesis
      proof (cases "Suc (consecutive_empty_reads s) > sr_empty_limit s")
        case True
        with Blank nl res r1 Cons "1.prems" show ?thesis
          by (auto simp: recv_loop.simps [of cd s] a_recv_loop.simps [of cd "abstract_session s"]
              a_seal_def seal_def)
      next
        case False
        let ?s1 = "s\<lparr>sr_reader := r1, consecutive_empty_reads := Suc (consecutive_empty_reads s)\<rparr>"
        from Blank False nl res "1.prems"(1) have c: "recv_loop cd ?s1 = (r, s')"
          by (simp add: recv_loop.simps [of cd s])
        have "abstract_session ?s1 = (abstract_session s)\<lparr>a_lines := ls, a_empty_reads := Suc (consecutive_empty_reads s)\<rparr>"
          using r1 by (simp add: abstract_session_def)
        with Blank False Cons "1.prems"(2) have a: "a_recv_loop cd (abstract_session ?s1) = (r2, a')"
          by (simp add: a_recv_loop.simps [of cd "abstract_session s"])
        show ?thesis by (rule "1.IH"(1) [OF nl [symmetric] res Blank refl False c a])
      qed
    next
      case NotData
      let ?s1 = "s\<lparr>sr_reader := r1, err_acc := acc_write (err_acc s) l\<rparr>"
      from NotData nl res "1.prems"(1) have c: "recv_loop cd ?s1 = (r, s')"
        by (simp add: recv_loop.simps [of cd s])
      have "abstract_session ?s1 = (abstract_session s)\<lparr>a_lines := ls, a_acc := err_acc s @ l\<rparr>"
        using r1 by (simp add: abstract_session_def acc_write_def)
      with NotData Cons "1.prems"(2) have a: "a_recv_loop cd (abstract_session ?s1) = (r2, a')"
        by (simp add: a_recv_loop.simps [of cd "abstract_session s"])
      show ?thesis by (rule "1.IH"(2) [OF nl [symmetric] res NotData c a])
    next
      case Sentinel
      with nl res r1 Cons "1.prems" show ?thesis
        by (auto simp: recv_loop.simps [of cd s] a_recv_loop.simps [of cd "abstract_session s"]
            a_seal_def seal_def)
    next
      case (Payload p)
      show ?thesis
      proof (cases "decode_payload cd p")
        case (Inl je)
        with Payload nl res r1 Cons "1.prems" show ?thesis
          by (auto simp: recv_loop.simps [of cd s] a_recv_loop.simps [of cd "abstract_session s"]
              a_seal_def seal_def)
      next
        case (Inr v)
        with Payload nl res Cons "1.prems" have "r = Event v" "r2 = Event v"
          "s' = s\<lparr>sr_reader := r1, consecutive_empty_reads := 0\<rparr>"
          "a' = (abstract_session s)\<lparr>a_lines := ls, a_empty_reads := 0\<rparr>"
          by (simp_all add: recv_loop.simps [of cd s] a_recv_loop.simps [of cd "abstract_session s"])
        with r1 show ?thesis by (simp add: abstract_session_def)
      qed
    qed
  qed
qed


lemma recv_sim:
  assumes "corresponds s a" and "recv cd s = (r, s')"
  shows "\<exists>a'. a_recv cd a = (r, a') \<and> corresponds s' a'"
proof (cases "terminal_error s")
  case (Some t)
  with assms have "r = terminal_result t" "s' = s" "a_terminal a = Some t"
    by (auto simp: recv_def corresponds_def)
  with Some show ?thesis by (simp add: a_recv_def corresponds_def)
next
  case None
  with assms(1) have a: "a = abstract_session s" by (auto simp: corresponds_def)
  show ?thesis
  proof (cases "closed s")
    case True
    with None assms(2) a show ?thesis
      by (auto simp: recv_def a_recv_def seal_def a_seal_def corresponds_def)
  next
    case False
    with None assms(2) have c: "recv_loop cd s = (r, s')" by (simp add: recv_def)
    obtain r2 a' where al: "a_recv_loop cd (abstract_session s) = (r2, a')" by fastforce
    from recv_loop_sim [OF c al] have "r2 = r" and rel: "case result_terminal r of
        None \<Rightarrow> a' = abstract_session s' | Some t \<Rightarrow> terminal_error s' = Some t \<and> a_terminal a' = Some t"
      by simp_all
    from rel have "corresponds s' a'" by (auto simp: corresponds_def split: option.splits)
    with al a None False \<open>r2 = r\<close> show ?thesis by (simp add: a_recv_def)
  qed
qed


lemma drain_sim: "corresponds s a \<Longrightarrow> fst (drain n cd s) = a_drain n cd a"
proof (induction n arbitrary: s a)
  case 0
  then show ?case by simp
next
  case (Suc n)
  obtain r s' where rs: "recv cd s = (r, s')" by fastforce
  from recv_sim [OF Suc.prems rs] obtain a' where "a_recv cd a = (r, a')" and "corresponds s' a'" by blast
  with Suc.IH [of s' a'] rs show ?case by (cases "drain n cd s'") simp
qed

text \<open>
  C15. The results of any number of receive calls on an opened stream are those of the
  abstract session over the list of lines of the body and the failure that ends it: the
  stream depends on the body only through its lines, whatever the chunking of the reads.
\<close>

theorem open_session_refines_view:
  "fst (drain n cd (open_session limit resp)) = a_drain n cd (opened_view limit resp)"
proof -
  have "opened_view limit resp = abstract_session (open_session limit resp)"
    by (simp add: opened_view_def abstract_session_def open_session_def)
  then show ?thesis by (simp add: drain_sim corresponds_def)
qed

lemma terminal_result_not_event [simp]: "terminal_result t \<noteq> Event v"
  by (cases t) simp_all

lemma a_recv_loop_event:
  "a_recv_loop cd a = (Event v, a') \<Longrightarrow> length (a_lines a') < length (a_lines a) \<and> a_terminal a' = a_terminal a"
proof (induction cd a rule: a_recv_loop.induct)
  case (1 cd a)
  show ?case
  proof (cases "a_lines a")
    case Nil
    with "1.prems" show ?thesis
      by (auto simp: a_recv_loop.simps [of cd a] a_seal_def split: option.splits)
  next
    case (Cons l ls)
    show ?thesis
    proof (cases "classify_line l")
      case Blank
      with Cons "1.prems" "1.IH"(1) [OF Cons Blank refl] show ?thesis
        by (fastforce simp: a_recv_loop.simps [of cd a] a_seal_def split: if_splits)
    next
      case NotData
      with Cons "1.prems" "1.IH"(2) [OF Cons NotData] show ?thesis
        by (fastforce simp: a_recv_loop.simps [of cd a])
    qed (use Cons "1.prems" in \<open>auto simp: a_recv_loop.simps [of cd a] a_seal_def split: sum.splits\<close>)
  qed
qed

lemma a_recv_event:
  "a_recv cd a = (Event v, a') \<Longrightarrow> length (a_lines a') < length (a_lines a) \<and> a_terminal a' = None"
  by (auto simp: a_recv_def a_seal_def dest: a_recv_loop_event split: option.splits if_splits)

lemma recv_event_shrinks:
  assumes "recv cd s = (Event v, s')"
  shows "length (reader_lines (sr_reader s')) < length (reader_lines (sr_reader s))"
proof -
  from recv_sim [of s "abstract_session s", OF _ assms] obtain a' where
    a: "a_recv cd (abstract_session s) = (Event v, a')" and c: "corresponds s' a'"
    by (auto simp: corresponds_def)
  from a_recv_event [OF a] have "length (a_lines a') < length (reader_lines (sr_reader s))"
    and "a_terminal a' = None" by simp_all
  with c show ?thesis by (auto simp: corresponds_def)
qed

text \<open>
  C16. The caller's loop that receives until end of stream or an error terminates on every
  opened stream, having collected at most as many events as the body has lines.
\<close>

theorem consume_terminates:
  "\<exists>vs t. consume cd (open_session limit resp) = Some (vs, t)
      \<and> length vs \<le> length (body_lines (resp_body resp))"
proof -
  have "\<exists>vs t. consume cd s0 = Some (vs, t) \<and> length vs \<le> length (reader_lines (sr_reader s0))" for s0
  proof (induction "length (reader_lines (sr_reader s0))" arbitrary: s0 rule: less_induct)
    case less
    obtain r s1 where rs: "recv cd s0 = (r, s1)" by fastforce
    show ?case
    proof (cases r)
      case (Event v)
      with rs have lt: "length (reader_lines (sr_reader s1)) < length (reader_lines (sr_reader s0))"
        by (simp add: recv_event_shrinks)
      then obtain vs t where "consume cd s1 = Some (vs, t)"
        and "length vs \<le> length (reader_lines (sr_reader s1))" using less.hyps by blast
      with rs Event lt show ?thesis by (simp add: consume.simps [of cd s0])
    qed (use rs in \<open>simp_all add: consume.simps [of cd s0]\<close>)
  qed
  moreover have "reader_lines (sr_reader (open_session limit resp)) = body_lines (resp_body resp)"
    by (simp add: open_session_def)
  ultimately show ?thesis by metis
qed

lemma consume_events:
  "fst (drain (Suc (length vs)) cd s) = map Event vs @ [terminal_result t] \<Longrightarrow> consume cd s = Some (vs, t)"
proof (induction vs arbitrary: s)
  case Nil
  then show ?case by (cases t) (auto simp: consume.simps [of cd s] split: prod.splits recv_result.splits)
next
  case (Cons v vs)
  obtain r s1 where rs: "recv cd s = (r, s1)" by fastforce
  with Cons.prems have "r = Event v" "fst (drain (Suc (length vs)) cd s1) = map Event vs @ [terminal_result t]"
    by (auto split: prod.splits simp del: drain.simps simp: drain.simps(2) [of "Suc (length vs)"])
  with Cons.IH [of s1] rs show ?case by (simp add: consume.simps [of cd s])
qed

text \<open>
  C23. A streaming call end to end: sendRequestStream hands the transport the request with the streaming headers, and when the transport answers with a success status and a body of frames separated by keep-alive lines within the limit, the caller loop that receives until a terminal result collects exactly the decoded payloads and ends cleanly.
\<close>

theorem stream_call_delivers:
  assumes "http_client (config c) = recording_doer srv" and "srv (stream_headers req) = Inr resp"
    and "\<not> is_failure_status_code resp"
    and "data_before_fail (resp_body resp) = keepalive_body kps kd @ rest"
    and "\<forall>(k, p) \<in> set kps. k \<le> empty_messages_limit (config c) \<and> frame_payload p"
    and "kd \<le> empty_messages_limit (config c)"
    and "map (decode_payload cd) (map snd kps) = map Inr vs"
  shows "\<exists>s. send_request_stream c dec req sent = (Inr s, sent @ [stream_headers req])
           \<and> consume cd s = Some (vs, Finished)"
proof -
  let ?s = "open_session (empty_messages_limit (config c)) resp"
  have sent: "send_request_stream c dec req sent = (Inr ?s, sent @ [stream_headers req])"
    using assms(1-3) by (simp add: send_request_stream_def recording_doer_def)
  have "fst (drain (length kps + Suc 0) cd ?s) = map Event vs @ replicate (Suc 0) EOF"
    by (rule drain_keepalive [where kd = kd and rest = rest])
       (use assms(4-7) in \<open>simp_all add: open_session_def new_line_reader_def pending_def keepalive_body_def\<close>)
  moreover have "length kps = length vs" using arg_cong [OF assms(7), of length] by simp
  ultimately have "consume cd ?s = Some (vs, Finished)"
    by (intro consume_events [where t = Finished]) (simp del: drain.simps)
  with sent show ?thesis by simp
qed

theorem stream_call_delivers_witness:
  \<open>\<exists>s. send_request_stream \<lparr>config = \<lparr>auth_token = ''tok'', base_url = ''https://ai.gitee.com/v1'', assistant_version = ''v2'',
         http_client = recording_doer (\<lambda>q. Inr \<lparr>status_code = 200, status = ''200 OK'', resp_header = Map.empty,
            resp_body = [Data ''data: "a"\<newline>\<newline>data: "b"\<newline>data: [DONE]\<newline>'']\<rparr>), empty_messages_limit = 300\<rparr>,
       request_builder = \<lambda>m u b h. Inr \<lparr>req_method = m, req_url = u, req_header = h, req_body = None\<rparr>,
       form_builder = \<lambda>op buf. Inr buf, form_content_type = ''multipart/form-data''\<rparr>
       (\<lambda>b. (None, None)) \<lparr>req_method = ''POST'', req_url = ''https://ai.gitee.com/v1/completions'', req_header = Map.empty, req_body = None\<rparr> []
     = (Inr s, [stream_headers \<lparr>req_method = ''POST'', req_url = ''https://ai.gitee.com/v1/completions'', req_header = Map.empty, req_body = None\<rparr>])
     \<and> consume \<lparr>decode_payload = Inr, decode_envelope = \<lambda>b. (None, None)\<rparr> s = Some ([''"a"'', ''"b"''], Finished)\<close>
proof -
  let ?resp = \<open>\<lparr>status_code = 200, status = ''200 OK'', resp_header = Map.empty,
            resp_body = [Data ''data: "a"\<newline>\<newline>data: "b"\<newline>data: [DONE]\<newline>'']\<rparr>\<close>
  let ?req = \<open>\<lparr>req_method = ''POST'', req_url = ''https://ai.gitee.com/v1/completions'', req_header = Map.empty, req_body = None\<rparr>\<close>
  have \<open>\<exists>s. send_request_stream \<lparr>config = \<lparr>auth_token = ''tok'', base_url = ''https://ai.gitee.com/v1'', assistant_version = ''v2'',
         http_client = recording_doer (\<lambda>q. Inr ?resp), empty_messages_limit = 300\<rparr>,
       request_builder = \<lambda>m u b h. Inr \<lparr>req_method = m, req_url = u, req_header = h, req_body = None\<rparr>,
       form_builder = \<lambda>op buf. Inr buf, form_content_type = ''multipart/form-data''\<rparr>
       (\<lambda>b. (None, None)) ?req [] = (Inr s, [] @ [stream_headers ?req])
     \<and> consume \<lparr>decode_payload = Inr, decode_envelope = \<lambda>b. (None, None)\<rparr> s = Some ([''"a"'', ''"b"''], Finished)\<close>
    by (rule stream_call_delivers [where kps = \<open>[(0, ''"a"''), (1, ''"b"'')]\<close> and kd = 0 and rest = "[]" and resp = ?resp])
       (simp_all add: is_failure_status_code_def keepalive_body_def data_line_def done_token_def newline_def
          frame_payload_def trimmed_def is_space_def)
  then show ?thesis by simp
qed

end
