(* ===== verification/Models.thy ===== *)
theory Models
  imports Client
begin

text \<open>
  The model endpoints of \<open>src/models.go\<close>. The response structures are records with the
  source's fields (their JSON decoding is the codec's business, a parameter of each
  endpoint); \<open>ListModels\<close>, \<open>GetModel\<close> and \<open>DeleteFineTuneModel\<close> each build one
  request with \<open>newRequest\<close> and send it with \<open>sendRequest\<close>. The lemmas show which
  request each endpoint hands the transport.
\<close>

record permission =
  perm_created_at :: int
  perm_id :: string
  perm_object :: string
  allow_create_engine :: bool
  allow_sampling :: bool
  allow_logprobs :: bool
  allow_search_indices :: bool
  allow_view :: bool
  allow_fine_tuning :: bool
  organization :: string
  perm_group :: json
  is_blocking :: bool

record model =
  model_created_at :: int
  model_id :: string
  model_object :: string
  owned_by :: string
  model_permission :: "permission list"
  model_root :: string
  model_parent :: string

record fine_tune_model_delete_response =
  del_id :: string
  del_object :: string
  deleted :: bool

record models_list =
  models :: "model list"

definition list_models ::
  "'w client \<Rightarrow> envelope_decoder \<Rightarrow> (bytes \<Rightarrow> json_error + models_list) \<Rightarrow> 'w
   \<Rightarrow> (models_list, 'w) api_result" where
  "list_models c dec decode w =
     (case new_request c ''GET'' (full_url c ''/models'' []) [] of
        Inl e \<Rightarrow> ((Inl e, None), w)
      | Inr req \<Rightarrow> send_request c dec (Some (JsonTarget decode)) req w)"

definition get_model ::
  "'w client \<Rightarrow> envelope_decoder \<Rightarrow> (bytes \<Rightarrow> json_error + model) \<Rightarrow> string \<Rightarrow> 'w
   \<Rightarrow> (model, 'w) api_result" where
  "get_model c dec decode mid w =
     (let url_suffix = ''/models/'' @ mid
      in case new_request c ''GET'' (full_url c url_suffix []) [] of
           Inl e \<Rightarrow> ((Inl e, None), w)
         | Inr req \<Rightarrow> send_request c dec (Some (JsonTarget decode)) req w)"

definition delete_fine_tune_model ::
  "'w client \<Rightarrow> envelope_decoder \<Rightarrow> (bytes \<Rightarrow> json_error + fine_tune_model_delete_response)
   \<Rightarrow> string \<Rightarrow> 'w \<Rightarrow> (fine_tune_model_delete_response, 'w) api_result" where
  "delete_fine_tune_model c dec decode mid w =
     (case new_request c ''DELETE'' (full_url c (''/models/'' @ mid) []) [] of
        Inl e \<Rightarrow> ((Inl e, None), w)
      | Inr req \<Rightarrow> send_request c dec (Some (JsonTarget decode)) req w)"

subsection \<open>Properties\<close>

text \<open>
  C11. GetModel and DeleteFineTuneModel each hand the transport exactly one request, a GET and a DELETE, addressed to the same URL: the base URL, /models/ and the model id.
\<close>

theorem model_endpoints_requests:
  assumes "builds_faithfully (request_builder c)" and "http_client (config c) = recording_doer srv"
  shows "\<exists>g d. snd (get_model c dec dm mid sent) = sent @ [g]
           \<and> snd (delete_fine_tune_model c dec dd mid sent) = sent @ [d]
           \<and> req_method g = ''GET'' \<and> req_method d = ''DELETE''
           \<and> req_url g = base_url (config c) @ ''/models/'' @ mid \<and> req_url d = req_url g"
proof -
  obtain g where g: "snd (get_model c dec dm mid sent) = sent @ [send_request_headers (set_common_headers c g)]"
    and "req_method g = ''GET''" and "req_url g = base_url (config c) @ ''/models/'' @ mid"
    unfolding get_model_def full_url_def Let_def by (rule endpoint_log [OF assms])
  moreover obtain d where d: "snd (delete_fine_tune_model c dec dd mid sent) = sent @ [send_request_headers (set_common_headers c d)]"
    and "req_method d = ''DELETE''" and "req_url d = base_url (config c) @ ''/models/'' @ mid"
    unfolding delete_fine_tune_model_def full_url_def by (rule endpoint_log [OF assms])
  ultimately show ?thesis by auto
qed

theorem model_endpoints_requests_witness:
  "\<exists>g d. snd (get_model \<lparr>config = \<lparr>auth_token = ''tok'', base_url = ''https://ai.gitee.com/v1'', assistant_version = ''v2'',
       http_client = recording_doer (\<lambda>q. Inl Canceled), empty_messages_limit = 300\<rparr>,
     request_builder = \<lambda>m u b h. Inr \<lparr>req_method = m, req_url = u, req_header = h, req_body = None\<rparr>,
     form_builder = \<lambda>op buf. Inr buf, form_content_type = ''multipart/form-data''\<rparr> (\<lambda>b. (None, None)) (\<lambda>b. Inl (SyntaxError b)) ''m1'' []) = [g]
     \<and> snd (delete_fine_tune_model \<lparr>config = \<lparr>auth_token = ''tok'', base_url = ''https://ai.gitee.com/v1'', assistant_version = ''v2'',
       http_client = recording_doer (\<lambda>q. Inl Canceled), empty_messages_limit = 300\<rparr>,
     request_builder = \<lambda>m u b h. Inr \<lparr>req_method = m, req_url = u, req_header = h, req_body = None\<rparr>,
     form_builder = \<lambda>op buf. Inr buf, form_content_type = ''multipart/form-data''\<rparr> (\<lambda>b. (None, None)) (\<lambda>b. Inl (SyntaxError b)) ''m1'' []) = [d]
     \<and> req_method g = ''GET'' \<and> req_method d = ''DELETE''
     \<and> req_url g = ''https://ai.gitee.com/v1/models/m1'' \<and> req_url d = req_url g"
proof -
  have "builds_faithfully (request_builder \<lparr>config = \<lparr>auth_token = ''tok'', base_url = ''https://ai.gitee.com/v1'', assistant_version = ''v2'',
       http_client = recording_doer (\<lambda>q. Inl Canceled), empty_messages_limit = 300\<rparr>,
     request_builder = \<lambda>m u b h. Inr \<lparr>req_method = m, req_url = u, req_header = h, req_body = None\<rparr>,
     form_builder = \<lambda>op buf. Inr buf, form_content_type = ''multipart/form-data''\<rparr>)" by (simp add: builds_faithfully_def)
  from model_endpoints_requests [OF this, of "\<lambda>q. Inl Canceled" "\<lambda>b. (None, None)" "\<lambda>b. Inl (SyntaxError b)" "''m1''" "[]"]
  show ?thesis by simp
qed

text \<open>
  C13. ListModels hands the transport exactly one GET request to the base URL followed by /models, carrying the header Authorization: Bearer and the token when the token is not empty (and no Authorization header otherwise) and Accept: application/json.
\<close>

theorem list_models_sends:
  assumes "builds_faithfully (request_builder c)" and "http_client (config c) = recording_doer srv"
  shows "\<exists>q. snd (list_models c dec decode sent) = sent @ [q] \<and> req_method q = ''GET''
           \<and> req_url q = base_url (config c) @ ''/models''
           \<and> header_get (req_header q) ''Authorization'' =
               (if auth_token (config c) = [] then [] else ''Bearer '' @ auth_token (config c))
           \<and> header_get (req_header q) ''Accept'' = ''application/json''"
proof -
  obtain q where "snd (list_models c dec decode sent) = sent @ [send_request_headers (set_common_headers c q)]"
    and "req_method q = ''GET''" and "req_url q = base_url (config c) @ ''/models''"
    and "req_header q = opt_header (request_args [])"
    unfolding list_models_def full_url_def by (rule endpoint_log [OF assms])
  then show ?thesis by (auto simp: header_get_sent request_args_def)
qed

theorem list_models_sends_witness:
  "\<exists>q. snd (list_models \<lparr>config = \<lparr>auth_token = ''tok'', base_url = ''https://ai.gitee.com/v1'', assistant_version = ''v2'',
       http_client = recording_doer (\<lambda>q. Inl Canceled), empty_messages_limit = 300\<rparr>,
     request_builder = \<lambda>m u b h. Inr \<lparr>req_method = m, req_url = u, req_header = h, req_body = None\<rparr>,
     form_builder = \<lambda>op buf. Inr buf, form_content_type = ''multipart/form-data''\<rparr> (\<lambda>b. (None, None)) (\<lambda>b. Inl (SyntaxError b)) []) = [q] \<and> req_method q = ''GET''
     \<and> req_url q = ''https://ai.gitee.com/v1/models''
     \<and> header_get (req_header q) ''Authorization'' = ''Bearer tok''
     \<and> header_get (req_header q) ''Accept'' = ''application/json''"
proof -
  have "builds_faithfully (request_builder \<lparr>config = \<lparr>auth_token = ''tok'', base_url = ''https://ai.gitee.com/v1'', assistant_version = ''v2'',
       http_client = recording_doer (\<lambda>q. Inl Canceled), empty_messages_limit = 300\<rparr>,
     request_builder = \<lambda>m u b h. Inr \<lparr>req_method = m, req_url = u, req_header = h, req_body = None\<rparr>,
     form_builder = \<lambda>op buf. Inr buf, form_content_type = ''multipart/form-data''\<rparr>)" by (simp add: builds_faithfully_def)
  from list_models_sends [OF this, of "\<lambda>q. Inl Canceled" "\<lambda>b. (None, None)" "\<lambda>b. Inl (SyntaxError b)" "[]"]
  show ?thesis by simp
qed



end
