(* ===== verification/Completion.thy ===== *)
theory Completion
  imports Client "HOL-Library.List_Lexorder" "HOL-Library.Char_ord"
begin

text \<open>
  The completion endpoint of \<open>src/completion.go\<close>: the model names, the prompt type check
  \<open>checkPromptType\<close> over a value of Go's type \<open>any\<close>, the \<open>CompletionRequest\<close> record
  with the JSON object \<open>encoding/json\<close> writes for it (the struct tags, \<open>omitempty\<close>
  included), and \<open>CreateCompletion\<close> with its three guards before the request is built and
  sent. A Go value of type \<open>any\<close> is a \<open>go_value\<close>; a slice of it is \<open>None\<close> when the
  slice is nil, which Go tells apart from an empty one when it encodes it. \<open>float32\<close>
  fields are rationals (their rounding is not modelled), Go maps association lists with
  distinct keys, and the pointer fields options. \<open>StreamOptions\<close> and \<open>Usage\<close> are
  declared in files not given; a stream option is kept as the JSON value it encodes to.
\<close>

definition qwen2_7b_instruct :: string where "qwen2_7b_instruct = ''qwen2-7b-instruct''"
definition qwen2_57b_instruct :: string where "qwen2_57b_instruct = ''qwen2-57b-instruct''"
definition deepseek_v2 :: string where "deepseek_v2 = ''deepseek-v2''"
definition deepseek_v2_lite :: string where "deepseek_v2_lite = ''deepseek-v2-lite''"

definition check_endpoint_supports_model :: "string \<Rightarrow> string \<Rightarrow> bool" where
  "check_endpoint_supports_model endpoint model = True"

subsection \<open>Values of type \<open>any\<close> and the prompt check\<close>

datatype go_value = GoNil | GoString string | GoStringSlice "string list option"
  | GoAnySlice "go_value list option" | GoInt int | GoFloat rat | GoBool bool

fun is_go_string :: "go_value \<Rightarrow> bool" where
  "is_go_string (GoString _) = True"
| "is_go_string _ = False"

text \<open>
  \<open>checkPromptType\<close>: a string or a \<open>[]string\<close> passes; a \<open>[]any\<close> passes when every
  item is a string (the loop returns \<open>false\<close> at the first item that is not); anything
  else fails.
\<close>

fun check_prompt_type :: "go_value \<Rightarrow> bool" where
  "check_prompt_type (GoString _) = True"
| "check_prompt_type (GoStringSlice _) = True"
| "check_prompt_type (GoAnySlice items) = list_all is_go_string (case items of None \<Rightarrow> [] | Some xs \<Rightarrow> xs)"
| "check_prompt_type _ = False"

text \<open>\<open>encoding/json\<close> on a value of type \<open>any\<close>: a nil slice is \<open>null\<close>.\<close>

fun go_json :: "go_value \<Rightarrow> json" where
  "go_json GoNil = JNull"
| "go_json (GoString s) = JStr s"
| "go_json (GoStringSlice None) = JNull"
| "go_json (GoStringSlice (Some xs)) = JArr (map JStr xs)"
| "go_json (GoAnySlice None) = JNull"
| "go_json (GoAnySlice (Some vs)) = JArr (map go_json vs)"
| "go_json (GoInt i) = JNum (of_int i)"
| "go_json (GoFloat r) = JNum r"
| "go_json (GoBool b) = JBool b"

subsection \<open>The request and its JSON encoding\<close>

record completion_request =
  cr_model :: string
  cr_prompt :: go_value
  cr_best_of :: int
  cr_echo :: bool
  cr_frequency_penalty :: rat
  cr_logit_bias :: "(string \<times> int) list"
  cr_store :: bool
  cr_metadata :: "(string \<times> string) list"
  cr_log_probs :: int
  cr_max_tokens :: int
  cr_n :: int
  cr_presence_penalty :: rat
  cr_seed :: "int option"
  cr_stop :: "string list"
  cr_stream :: bool
  cr_suffix :: string
  cr_temperature :: rat
  cr_top_p :: rat
  cr_user :: string
  cr_stream_options :: "json option"

text \<open>
  The \<open>omitempty\<close> rule of \<open>encoding/json\<close>: a field is left out when it holds its type's
  zero value (\<open>false\<close>, \<open>0\<close>, \<open>""\<close>, a nil pointer or interface, an empty map or slice).
  Maps are written with their keys sorted.
\<close>

definition omit_int :: "int \<Rightarrow> json option" where
  "omit_int i = (if i = 0 then None else Some (JNum (of_int i)))"

definition omit_rat :: "rat \<Rightarrow> json option" where
  "omit_rat r = (if r = 0 then None else Some (JNum r))"

definition omit_bool :: "bool \<Rightarrow> json option" where
  "omit_bool b = (if b then Some (JBool True) else None)"

definition omit_str :: "string \<Rightarrow> json option" where
  "omit_str s = (if s = [] then None else Some (JStr s))"

definition omit_map :: "(string \<times> json) list \<Rightarrow> json option" where
  "omit_map kvs = (if kvs = [] then None else Some (JObj (sort_key fst kvs)))"

definition completion_fields :: "completion_request \<Rightarrow> (string \<times> json option) list" where
  "completion_fields r =
     [(''model'', Some (JStr (cr_model r))),
      (''prompt'', if cr_prompt r = GoNil then None else Some (go_json (cr_prompt r))),
      (''best_of'', omit_int (cr_best_of r)),
      (''echo'', omit_bool (cr_echo r)),
      (''frequency_penalty'', omit_rat (cr_frequency_penalty r)),
      (''logit_bias'', omit_map (map (\<lambda>(k, v). (k, JNum (of_int v))) (cr_logit_bias r))),
      (''store'', omit_bool (cr_store r)),
      (''metadata'', omit_map (map (\<lambda>(k, v). (k, JStr v)) (cr_metadata r))),
      (''logprobs'', omit_int (cr_log_probs r)),
      (''max_tokens'', omit_int (cr_max_tokens r)),
      (''n'', omit_int (cr_n r)),
      (''presence_penalty'', omit_rat (cr_presence_penalty r)),
      (''seed'', map_option (\<lambda>i. JNum (of_int i)) (cr_seed r)),
      (''stop'', if cr_stop r = [] then None else Some (JArr (map JStr (cr_stop r)))),
      (''stream'', omit_bool (cr_stream r)),
      (''suffix'', omit_str (cr_suffix r)),
      (''temperature'', omit_rat (cr_temperature r)),
      (''top_p'', omit_rat (cr_top_p r)),
      (''user'', omit_str (cr_user r)),
      (''stream_options'', cr_stream_options r)]"

definition completion_request_json :: "completion_request \<Rightarrow> json" where
  "completion_request_json r = json_fields (completion_fields r)"

subsection \<open>The response\<close>

text \<open>
  \<open>CompletionResponse\<close> and the structures it holds; \<open>Usage\<close> is declared in a file
  not given and kept as its JSON value. The header the response embeds is the second
  component of an endpoint's result.
\<close>

record logprob_result =
  lp_tokens :: "string list"
  lp_token_logprobs :: "rat list"
  lp_top_logprobs :: "(string \<times> rat) list list"
  lp_text_offset :: "int list"

record completion_choice =
  ch_text :: string
  ch_index :: int
  ch_finish_reason :: string
  ch_logprobs :: logprob_result

record completion_response =
  cresp_id :: string
  cresp_object :: string
  cresp_created :: int
  cresp_model :: string
  cresp_choices :: "completion_choice list"
  cresp_usage :: "json option"

subsection \<open>\<open>CreateCompletion\<close>\<close>

definition create_completion ::
  "'w client \<Rightarrow> envelope_decoder \<Rightarrow> (bytes \<Rightarrow> json_error + 'r) \<Rightarrow> completion_request \<Rightarrow> 'w
   \<Rightarrow> ('r, 'w) api_result" where
  "create_completion c dec decode r w =
     (if cr_stream r then ((Inl ErrCompletionStreamNotSupported, None), w)
      else let url_suffix = ''/completions'' in
      if \<not> check_endpoint_supports_model url_suffix (cr_model r)
      then ((Inl ErrCompletionUnsupportedModel, None), w)
      else if \<not> check_prompt_type (cr_prompt r)
      then ((Inl ErrCompletionRequestPromptTypeNotSupported, None), w)
      else case new_request c ''POST'' (full_url c url_suffix [with_model (cr_model r)])
                  [with_body (JsonBody (completion_request_json r))] of
             Inl e \<Rightarrow> ((Inl e, None), w)
           | Inr req \<Rightarrow> send_request c dec (Some (JsonTarget decode)) req w)"

text \<open>
  What the API accepts as a prompt, on the wire: a JSON string or an array of JSON strings.
\<close>

fun is_jstr :: "json \<Rightarrow> bool" where
  "is_jstr (JStr _) = True"
| "is_jstr _ = False"

fun json_prompt_ok :: "json \<Rightarrow> bool" where
  "json_prompt_ok (JStr _) = True"
| "json_prompt_ok (JArr xs) = list_all is_jstr xs"
| "json_prompt_ok _ = False"

subsection \<open>Properties\<close>

lemma is_jstr_go_json: "is_jstr (go_json v) = is_go_string v"
  by (cases v rule: go_json.cases) simp_all

text \<open>
  C8. checkPromptType accepts exactly the prompts that encoding/json writes as a JSON string or an array of JSON strings, and in addition a nil []string or nil []any, which it lets through although they are written as null.
\<close>

theorem check_prompt_type_json:
  "check_prompt_type p \<longleftrightarrow> json_prompt_ok (go_json p) \<or> p = GoStringSlice None \<or> p = GoAnySlice None"
  by (cases p rule: go_json.cases) (simp_all add: list_all_iff is_jstr_go_json)

text \<open>
  C9. CreateCompletion rejects a streaming request with ErrCompletionStreamNotSupported and a prompt of the wrong type with ErrCompletionRequestPromptTypeNotSupported (the stream check first), in both cases without handing the transport anything; otherwise it hands the transport exactly one POST request to the base URL followed by /completions, with content type application/json.
\<close>

theorem create_completion_sends:
  assumes "builds_faithfully (request_builder c)" and "http_client (config c) = recording_doer srv"
  shows "(cr_stream r \<longrightarrow> create_completion c dec decode r sent = ((Inl ErrCompletionStreamNotSupported, None), sent))
    \<and> (\<not> cr_stream r \<and> \<not> check_prompt_type (cr_prompt r) \<longrightarrow>
         create_completion c dec decode r sent = ((Inl ErrCompletionRequestPromptTypeNotSupported, None), sent))
    \<and> (\<not> cr_stream r \<and> check_prompt_type (cr_prompt r) \<longrightarrow>
         (\<exists>q. snd (create_completion c dec decode r sent) = sent @ [q] \<and> req_method q = ''POST''
              \<and> req_url q = base_url (config c) @ ''/completions''
              \<and> header_get (req_header q) ''Content-Type'' = ''application/json''))"
proof -
  let ?setters = "[with_body (JsonBody (completion_request_json r))]"
  obtain q where log: "snd (case new_request c ''POST'' (base_url (config c) @ ''/completions'') ?setters of
            Inl e \<Rightarrow> ((Inl e, None), sent) | Inr req \<Rightarrow> send_request c dec (Some (JsonTarget decode)) req sent)
       = sent @ [send_request_headers (set_common_headers c q)]"
    and "req_method q = ''POST''" and "req_url q = base_url (config c) @ ''/completions''"
    and "req_header q = opt_header (request_args ?setters)"
    by (rule endpoint_log [OF assms])
  moreover have "header_get (opt_header (request_args ?setters)) ''Content-Type'' = []"
    by (simp add: request_args_def with_body_def header_get_def)
  ultimately show ?thesis
    by (auto simp: create_completion_def check_endpoint_supports_model_def full_url_def header_get_sent)
qed

theorem create_completion_sends_witness:
  "\<exists>q. snd (create_completion \<lparr>config = \<lparr>auth_token = ''tok'', base_url = ''https://ai.gitee.com/v1'', assistant_version = ''v2'',
       http_client = recording_doer (\<lambda>q. Inl Canceled), empty_messages_limit = 300\<rparr>,
     request_builder = \<lambda>m u b h. Inr \<lparr>req_method = m, req_url = u, req_header = h, req_body = None\<rparr>,
     form_builder = \<lambda>op buf. Inr buf, form_content_type = ''multipart/form-data''\<rparr> (\<lambda>b. (None, None)) (\<lambda>b. Inr b) \<lparr>cr_model = ''qwen2-7b-instruct'', cr_prompt = GoString ''Hello'', cr_best_of = 0, cr_echo = False,
     cr_frequency_penalty = 0, cr_logit_bias = [], cr_store = False, cr_metadata = [], cr_log_probs = 0,
     cr_max_tokens = 16, cr_n = 0, cr_presence_penalty = 0, cr_seed = None, cr_stop = [], cr_stream = False,
     cr_suffix = [], cr_temperature = 0, cr_top_p = 0, cr_user = [], cr_stream_options = None\<rparr> []) = [q] \<and> req_method q = ''POST''
       \<and> req_url q = ''https://ai.gitee.com/v1/completions''
       \<and> header_get (req_header q) ''Content-Type'' = ''application/json''"
proof -
  have "builds_faithfully (request_builder \<lparr>config = \<lparr>auth_token = ''tok'', base_url = ''https://ai.gitee.com/v1'', assistant_version = ''v2'',
       http_client = recording_doer (\<lambda>q. Inl Canceled), empty_messages_limit = 300\<rparr>,
     request_builder = \<lambda>m u b h. Inr \<lparr>req_method = m, req_url = u, req_header = h, req_body = None\<rparr>,
     form_builder = \<lambda>op buf. Inr buf, form_content_type = ''multipart/form-data''\<rparr>)" by (simp add: builds_faithfully_def)
  from create_completion_sends [OF this, of "\<lambda>q. Inl Canceled" "\<lparr>cr_model = ''qwen2-7b-instruct'', cr_prompt = GoString ''Hello'', cr_best_of = 0, cr_echo = False,
     cr_frequency_penalty = 0, cr_logit_bias = [], cr_store = False, cr_metadata = [], cr_log_probs = 0,
     cr_max_tokens = 16, cr_n = 0, cr_presence_penalty = 0, cr_seed = None, cr_stop = [], cr_stream = False,
     cr_suffix = [], cr_temperature = 0, cr_top_p = 0, cr_user = [], cr_stream_options = None\<rparr>" "\<lambda>b. (None, None)" "\<lambda>b. Inr b" "[]"]
  show ?thesis by simp
qed

text \<open>
  C17. The request body of CreateCompletion is a JSON object with distinct keys whose first key is model; it has a stream key exactly when the request asks for streaming and a prompt key exactly when the prompt is not nil.
\<close>

theorem completion_request_json_wf:
  "\<exists>kvs. completion_request_json r = JObj kvs \<and> distinct (map fst kvs) \<and> hd (map fst kvs) = ''model''
     \<and> (''stream'' \<in> set (map fst kvs) \<longleftrightarrow> cr_stream r)
     \<and> (''prompt'' \<in> set (map fst kvs) \<longleftrightarrow> cr_prompt r \<noteq> GoNil)"
proof -
  have d: "distinct (map fst (completion_fields r))" by (simp add: completion_fields_def)
  obtain kvs where j: "completion_request_json r = JObj kvs"
    and k: "map fst kvs = map fst (filter (\<lambda>kv. snd kv \<noteq> None) (completion_fields r))"
    using json_fields_keys unfolding completion_request_json_def by blast
  have "distinct (map fst kvs)" unfolding k by (rule distinct_map_filter [OF d])
  moreover have "hd (map fst kvs) = ''model''" unfolding k by (simp add: completion_fields_def)
  moreover have "''stream'' \<in> set (map fst kvs) \<longleftrightarrow> cr_stream r"
    unfolding k key_in_present_fields [OF d] by (simp add: completion_fields_def omit_bool_def)
  moreover have "''prompt'' \<in> set (map fst kvs) \<longleftrightarrow> cr_prompt r \<noteq> GoNil"
    unfolding k key_in_present_fields [OF d] by (simp add: completion_fields_def)
  ultimately show ?thesis using j by blast
qed

end
