(* ===== verification/Image.thy ===== *)
theory Image
  imports Client
begin

text \<open>
  The image endpoints of \<open>src/image.go\<close>: the request and response records,
  \<open>CreateImage\<close> (a JSON request), the \<open>file\<close> wrapper of \<open>WrapReader\<close> with its
  \<open>Name\<close> and \<open>ContentType\<close> methods, and the two multipart endpoints
  \<open>CreateEditImage\<close> and \<open>CreateVariImage\<close>. A multipart endpoint performs a sequence of
  form-builder calls, each of which may fail and end the call with its error
  (\<open>run_form\<close>), and then sends the form with the builder's content type. The form
  builder is the interface of the client record (\<open>Client\<close>); its state is the form body
  written so far.
\<close>

definition create_image_size_256x256 :: string where "create_image_size_256x256 = ''256x256''"
definition create_image_size_512x512 :: string where "create_image_size_512x512 = ''512x512''"
definition create_image_size_1024x1024 :: string where "create_image_size_1024x1024 = ''1024x1024''"
definition create_image_size_1792x1024 :: string where "create_image_size_1792x1024 = ''1792x1024''"
definition create_image_size_1024x1792 :: string where "create_image_size_1024x1792 = ''1024x1792''"
definition create_image_size_1536x1024 :: string where "create_image_size_1536x1024 = ''1536x1024''"
definition create_image_size_1024x1536 :: string where "create_image_size_1024x1536 = ''1024x1536''"
definition create_image_model_flux_schnell :: string where "create_image_model_flux_schnell = ''flux-1-schnell''"
definition create_image_quality_standard :: string where "create_image_quality_standard = ''standard''"
definition create_image_quality_hd :: string where "create_image_quality_hd = ''hd''"
definition create_image_style_vivid :: string where "create_image_style_vivid = ''vivid''"
definition create_image_style_natural :: string where "create_image_style_natural = ''natural''"
definition create_image_response_format_b64_json :: string where
  "create_image_response_format_b64_json = ''b64_json''"
definition create_image_response_format_url :: string where
  "create_image_response_format_url = ''url''"

record image_request =
  ir_prompt :: string
  ir_model :: string
  ir_n :: int
  ir_quality :: string
  ir_size :: string
  ir_style :: string
  ir_response_format :: string
  ir_user :: string
  ir_guidance_scale :: rat
  ir_seed :: int

record image_response_data_inner =
  url :: string
  b64_json :: string
  revised_prompt :: string

record image_response =
  created :: int
  image_data :: "image_response_data_inner list"

text \<open>The JSON object of an \<open>ImageRequest\<close>: every field is \<open>omitempty\<close>.\<close>

definition image_fields :: "image_request \<Rightarrow> (string \<times> json option) list" where
  "image_fields r =
     [(''prompt'', if ir_prompt r = [] then None else Some (JStr (ir_prompt r))),
      (''model'', if ir_model r = [] then None else Some (JStr (ir_model r))),
      (''n'', if ir_n r = 0 then None else Some (JNum (of_int (ir_n r)))),
      (''quality'', if ir_quality r = [] then None else Some (JStr (ir_quality r))),
      (''size'', if ir_size r = [] then None else Some (JStr (ir_size r))),
      (''style'', if ir_style r = [] then None else Some (JStr (ir_style r))),
      (''response_format'', if ir_response_format r = [] then None else Some (JStr (ir_response_format r))),
      (''user'', if ir_user r = [] then None else Some (JStr (ir_user r))),
      (''guidance_scale'', if ir_guidance_scale r = 0 then None else Some (JNum (ir_guidance_scale r))),
      (''seed'', if ir_seed r = 0 then None else Some (JNum (of_int (ir_seed r))))]"

definition image_request_json :: "image_request \<Rightarrow> json" where
  "image_request_json r = json_fields (image_fields r)"

definition create_image ::
  "'w client \<Rightarrow> envelope_decoder \<Rightarrow> (bytes \<Rightarrow> json_error + image_response) \<Rightarrow> image_request \<Rightarrow> 'w
   \<Rightarrow> (image_response, 'w) api_result" where
  "create_image c dec decode r w =
     (let url_suffix = ''/images/generations''
      in case new_request c ''POST'' (full_url c url_suffix [with_model (ir_model r)])
                [with_body (JsonBody (image_request_json r))] of
           Inl e \<Rightarrow> ((Inl e, None), w)
         | Inr req \<Rightarrow> send_request c dec (Some (JsonTarget decode)) req w)"

subsection \<open>Readers with a name (\<open>WrapReader\<close>, \<open>file\<close>)\<close>

definition wrap_reader :: "go_reader \<Rightarrow> string \<Rightarrow> string \<Rightarrow> go_reader" where
  "wrap_reader rdr filename content_type = WrappedFile rdr filename content_type"

text \<open>
  The \<open>Name()\<close> a reader offers, if it has the method: a \<open>file\<close> returns its own name,
  else the name of the reader it wraps when that one has a \<open>Name()\<close>, else \<open>""\<close>.
\<close>

fun reader_name :: "go_reader \<Rightarrow> string option" where
  "reader_name (PlainReader _) = None"
| "reader_name (NamedReader n _) = Some n"
| "reader_name (WrappedFile rdr n ct) =
     Some (if n \<noteq> [] then n else case reader_name rdr of Some m \<Rightarrow> m | None \<Rightarrow> [])"

fun reader_content_type :: "go_reader \<Rightarrow> string option" where
  "reader_content_type (WrappedFile rdr n ct) = Some ct"
| "reader_content_type _ = None"

subsection \<open>The multipart endpoints\<close>

record image_edit_request =
  er_image :: "go_reader option"
  er_mask :: "go_reader option"
  er_prompt :: string
  er_model :: string
  er_n :: int
  er_size :: string
  er_response_format :: string
  er_user :: string

record image_vari_request =
  vr_image :: "go_reader option"
  vr_model :: string
  vr_n :: int
  vr_size :: string
  vr_response_format :: string
  vr_user :: string

text \<open>A sequence of form-builder calls, each \<open>if err != nil { return }\<close>.\<close>

fun run_form :: "form_builder \<Rightarrow> form_op list \<Rightarrow> bytes \<Rightarrow> string + bytes" where
  "run_form fb [] buf = Inr buf"
| "run_form fb (op # ops) buf = (case fb op buf of Inl e \<Rightarrow> Inl e | Inr buf' \<Rightarrow> run_form fb ops buf')"

definition edit_image_form :: "image_edit_request \<Rightarrow> form_op list" where
  "edit_image_form r =
     [FormFileReader ''image'' (er_image r) []]
     @ (case er_mask r of None \<Rightarrow> [] | Some m \<Rightarrow> [FormFileReader ''mask'' (Some m) []])
     @ [WriteField ''prompt'' (er_prompt r), WriteField ''n'' (itoa (er_n r)),
        WriteField ''size'' (er_size r), WriteField ''response_format'' (er_response_format r),
        CloseForm]"

definition vari_image_form :: "image_vari_request \<Rightarrow> form_op list" where
  "vari_image_form r =
     [FormFileReader ''image'' (vr_image r) [], WriteField ''n'' (itoa (vr_n r)),
      WriteField ''size'' (vr_size r), WriteField ''response_format'' (vr_response_format r),
      CloseForm]"

text \<open>Sending a built form: \<open>withBody(body)\<close> and the builder's content type.\<close>

definition send_form ::
  "'w client \<Rightarrow> envelope_decoder \<Rightarrow> (bytes \<Rightarrow> json_error + image_response) \<Rightarrow> string \<Rightarrow> string
   \<Rightarrow> form_op list \<Rightarrow> 'w \<Rightarrow> (image_response, 'w) api_result" where
  "send_form c dec decode suffix model ops w =
     (case run_form (form_builder c) ops [] of
        Inl e \<Rightarrow> ((Inl (FormErr e), None), w)
      | Inr body \<Rightarrow>
          (case new_request c ''POST'' (full_url c suffix [with_model model])
                  [with_body (ReaderBody body), with_content_type (form_content_type c)] of
             Inl e \<Rightarrow> ((Inl e, None), w)
           | Inr req \<Rightarrow> send_request c dec (Some (JsonTarget decode)) req w))"

definition create_edit_image ::
  "'w client \<Rightarrow> envelope_decoder \<Rightarrow> (bytes \<Rightarrow> json_error + image_response) \<Rightarrow> image_edit_request
   \<Rightarrow> 'w \<Rightarrow> (image_response, 'w) api_result" where
  "create_edit_image c dec decode r w =
     send_form c dec decode ''/images/edits'' (er_model r) (edit_image_form r) w"

definition create_vari_image ::
  "'w client \<Rightarrow> envelope_decoder \<Rightarrow> (bytes \<Rightarrow> json_error + image_response) \<Rightarrow> image_vari_request
   \<Rightarrow> 'w \<Rightarrow> (image_response, 'w) api_result" where
  "create_vari_image c dec decode r w =
     send_form c dec decode ''/images/variations'' (vr_model r) (vari_image_form r) w"

subsection \<open>Properties\<close>

text \<open>
  C10. CreateEditImage either stops at the first failing form-builder call and returns its error without handing the transport anything, or hands the transport exactly one POST request to the base URL followed by /images/edits whose Content-Type is the form builder's multipart content type: sendRequest does not replace it by application/json.
\<close>

theorem create_edit_image_sends:
  assumes "builds_faithfully (request_builder c)" and "http_client (config c) = recording_doer srv"
    and "form_content_type c \<noteq> []"
  shows "case run_form (form_builder c) (edit_image_form r) [] of
           Inl e \<Rightarrow> create_edit_image c dec decode r sent = ((Inl (FormErr e), None), sent)
         | Inr body \<Rightarrow> (\<exists>q. snd (create_edit_image c dec decode r sent) = sent @ [q]
              \<and> req_method q = ''POST'' \<and> req_url q = base_url (config c) @ ''/images/edits''
              \<and> header_get (req_header q) ''Content-Type'' = form_content_type c)"
proof (cases "run_form (form_builder c) (edit_image_form r) []")
  case (Inl e)
  then show ?thesis by (simp add: create_edit_image_def send_form_def)
next
  case (Inr body)
  let ?setters = "[with_body (ReaderBody body), with_content_type (form_content_type c)]"
  obtain q where "snd (case new_request c ''POST'' (base_url (config c) @ ''/images/edits'') ?setters of
            Inl e \<Rightarrow> ((Inl e, None), sent) | Inr req \<Rightarrow> send_request c dec (Some (JsonTarget decode)) req sent)
       = sent @ [send_request_headers (set_common_headers c q)]"
    and "req_method q = ''POST''" and "req_url q = base_url (config c) @ ''/images/edits''"
    and "req_header q = opt_header (request_args ?setters)"
    by (rule endpoint_log [OF assms(1,2)])
  moreover have "header_get (opt_header (request_args ?setters)) ''Content-Type'' = form_content_type c"
    by (simp add: request_args_def with_body_def with_content_type_def)
  ultimately show ?thesis using Inr assms(3)
    by (auto simp: create_edit_image_def send_form_def full_url_def header_get_sent)
qed

theorem create_edit_image_sends_witness:
  "\<exists>q. snd (create_edit_image \<lparr>config = \<lparr>auth_token = ''tok'', base_url = ''https://ai.gitee.com/v1'', assistant_version = ''v2'',
       http_client = recording_doer (\<lambda>q. Inl Canceled), empty_messages_limit = 300\<rparr>,
     request_builder = \<lambda>m u b h. Inr \<lparr>req_method = m, req_url = u, req_header = h, req_body = None\<rparr>,
     form_builder = \<lambda>op buf. Inr buf, form_content_type = ''multipart/form-data''\<rparr> (\<lambda>b. (None, None)) (\<lambda>b. Inl (SyntaxError b))
       \<lparr>er_image = Some (PlainReader ''png''), er_mask = None, er_prompt = ''a cat'', er_model = [], er_n = 2,
        er_size = ''256x256'', er_response_format = ''url'', er_user = []\<rparr> []) = [q]
     \<and> req_method q = ''POST'' \<and> req_url q = ''https://ai.gitee.com/v1/images/edits''
     \<and> header_get (req_header q) ''Content-Type'' = ''multipart/form-data''"
proof -
  have "builds_faithfully (request_builder \<lparr>config = \<lparr>auth_token = ''tok'', base_url = ''https://ai.gitee.com/v1'', assistant_version = ''v2'',
       http_client = recording_doer (\<lambda>q. Inl Canceled), empty_messages_limit = 300\<rparr>,
     request_builder = \<lambda>m u b h. Inr \<lparr>req_method = m, req_url = u, req_header = h, req_body = None\<rparr>,
     form_builder = \<lambda>op buf. Inr buf, form_content_type = ''multipart/form-data''\<rparr>)" by (simp add: builds_faithfully_def)
  from create_edit_image_sends [OF this, of "\<lambda>q. Inl Canceled" "\<lambda>b. (None, None)" "\<lambda>b. Inl (SyntaxError b)"
      "\<lparr>er_image = Some (PlainReader ''png''), er_mask = None, er_prompt = ''a cat'', er_model = [], er_n = 2,
        er_size = ''256x256'', er_response_format = ''url'', er_user = []\<rparr>" "[]"]
  show ?thesis by (simp add: edit_image_form_def)
qed

text \<open>
  C14. Both multipart image forms carry the request's N: each writes an n field, and its value is the decimal numeral strconv.Itoa makes of N, which reads back to the same integer, negative numbers included.
\<close>

theorem image_forms_n:
  "(\<exists>v. WriteField ''n'' v \<in> set (edit_image_form r) \<and> parse_dec v = er_n r)
   \<and> (\<exists>v. WriteField ''n'' v \<in> set (vari_image_form q) \<and> parse_dec v = vr_n q)"
  by (auto simp: edit_image_form_def vari_image_form_def itoa_parse)

text \<open>
  C26. CreateEditImage and CreateVariImage never send the request's Model or User: the form has no model or user field and fullURL ignores withModel, so two requests that differ only in these fields make the same call, with the same result.
\<close>

theorem image_forms_drop_model_user:
  "create_edit_image c dec decode (r\<lparr>er_model := m, er_user := u\<rparr>) w = create_edit_image c dec decode r w
   \<and> create_vari_image c dec decode (v\<lparr>vr_model := m, vr_user := u\<rparr>) w = create_vari_image c dec decode v w"
  unfolding create_edit_image_def create_vari_image_def send_form_def full_url_def
    edit_image_form_def vari_image_form_def by simp

text \<open>
  C30. The JSON body CreateImage sends is an object with distinct keys in which prompt, model, user and n are present exactly when the request sets them (omitempty), with the request's values; unlike the multipart image endpoints, CreateImage does send the model and the user.
\<close>

theorem image_request_json_wf:
  "\<exists>kvs. image_request_json r = JObj kvs \<and> distinct (map fst kvs)
     \<and> map_of kvs ''prompt'' = (if ir_prompt r = [] then None else Some (JStr (ir_prompt r)))
     \<and> map_of kvs ''model'' = (if ir_model r = [] then None else Some (JStr (ir_model r)))
     \<and> map_of kvs ''user'' = (if ir_user r = [] then None else Some (JStr (ir_user r)))
     \<and> map_of kvs ''n'' = (if ir_n r = 0 then None else Some (JNum (of_int (ir_n r))))"
proof -
  have "distinct (map fst (image_fields r))" by (simp add: image_fields_def)
  from json_fields_lookup [OF this] obtain kvs where j: "image_request_json r = JObj kvs"
    and d: "distinct (map fst kvs)" and m: "\<forall>k. map_of kvs k = Option.bind (map_of (image_fields r) k) (\<lambda>v. v)"
    by (auto simp: image_request_json_def)
  have "map_of kvs ''prompt'' = (if ir_prompt r = [] then None else Some (JStr (ir_prompt r)))"
    using m by (simp add: image_fields_def)
  moreover have "map_of kvs ''model'' = (if ir_model r = [] then None else Some (JStr (ir_model r)))"
    using m by (simp add: image_fields_def)
  moreover have "map_of kvs ''user'' = (if ir_user r = [] then None else Some (JStr (ir_user r)))"
    using m by (simp add: image_fields_def)
  moreover have "map_of kvs ''n'' = (if ir_n r = 0 then None else Some (JNum (of_int (ir_n r))))"
    using m by (simp add: image_fields_def)
  ultimately show ?thesis using j d by blast
qed

end
