(* ===== verification/Examples.thy ===== *)
theory Examples
  imports Completion Image
begin

text \<open>
  The example programs of \<open>src/examples\<close>, as programs over the client: each reads its
  environment (\<open>os.Getenv\<close>, \<open>os.Args\<close>, standard input), builds a client with
  \<open>NewClient\<close>, calls the API and prints. What a program prints is a list of
  \<open>printed\<close> items, and how it ends is an \<open>exit_status\<close>: normally, or by a run-time
  panic (an index out of range). The chat and audio endpoints (\<open>CreateChatCompletion\<close>,
  \<open>CreateTranscription\<close>) are declared in files not given; they are parameters of the
  programs that call them, with the record fields the programs use.
\<close>

datatype printed = Say string | SayErr string client_error
  | SayFail string "client_error option" nat

datatype exit_status = Exited | Panicked string

definition index_panic :: string where
  "index_panic = ''runtime error: index out of range [0] with length 0''"

text \<open>Go's \<open>xs[0]\<close>: the first element, or a run-time panic on an empty slice.\<close>

definition go_first :: "'a list \<Rightarrow> string + 'a" where
  "go_first xs = (case xs of [] \<Rightarrow> Inl index_panic | x # _ \<Rightarrow> Inr x)"

subsection \<open>\<open>completion/main.go\<close>\<close>

definition completion_example_request :: completion_request where
  "completion_example_request =
     \<lparr>cr_model = qwen2_7b_instruct, cr_prompt = GoString ''Lorem ipsum'', cr_best_of = 0, cr_echo = False,
      cr_frequency_penalty = 0, cr_logit_bias = [], cr_store = False, cr_metadata = [], cr_log_probs = 0,
      cr_max_tokens = 5, cr_n = 0, cr_presence_penalty = 0, cr_seed = None, cr_stop = [], cr_stream = False,
      cr_suffix = [], cr_temperature = 0, cr_top_p = 0, cr_user = [], cr_stream_options = None\<rparr>"

definition example_completion ::
  "(string \<Rightarrow> string) \<Rightarrow> request_builder \<Rightarrow> form_builder \<Rightarrow> string \<Rightarrow> 'w http_doer
   \<Rightarrow> envelope_decoder \<Rightarrow> (bytes \<Rightarrow> json_error + completion_response) \<Rightarrow> 'w
   \<Rightarrow> (printed list \<times> exit_status) \<times> 'w" where
  "example_completion env rb fb ct doer dec decode w =
     (let client = new_client rb fb ct doer (env ''GITEEAI_API_KEY'')
      in case create_completion client dec decode completion_example_request w of
           ((Inl e, _), w') \<Rightarrow> (([SayErr ''Completion error'' e], Exited), w')
         | ((Inr resp, _), w') \<Rightarrow>
             (case go_first (case resp of None \<Rightarrow> [] | Some r \<Rightarrow> cresp_choices r) of
                Inl p \<Rightarrow> (([], Panicked p), w')
              | Inr ch \<Rightarrow> (([Say (ch_text ch)], Exited), w')))"

subsection \<open>\<open>images/main.go\<close>\<close>

definition images_example_request :: image_request where
  "images_example_request =
     \<lparr>ir_prompt = ''Parrot on a skateboard performs a trick, cartoon style, natural light, high detail'',
      ir_model = [], ir_n = 1, ir_quality = [], ir_size = create_image_size_256x256, ir_style = [],
      ir_response_format = create_image_response_format_url, ir_user = [], ir_guidance_scale = 0,
      ir_seed = 0\<rparr>"

definition example_images ::
  "(string \<Rightarrow> string) \<Rightarrow> request_builder \<Rightarrow> form_builder \<Rightarrow> string \<Rightarrow> 'w http_doer
   \<Rightarrow> envelope_decoder \<Rightarrow> (bytes \<Rightarrow> json_error + image_response) \<Rightarrow> 'w
   \<Rightarrow> (printed list \<times> exit_status) \<times> 'w" where
  "example_images env rb fb ct doer dec decode w =
     (let client = new_client rb fb ct doer (env ''OPENAI_API_KEY'')
      in case create_image client dec decode images_example_request w of
           ((Inl e, _), w') \<Rightarrow> (([SayErr ''Image creation error'' e], Exited), w')
         | ((Inr resp, _), w') \<Rightarrow>
             (case go_first (case resp of None \<Rightarrow> [] | Some r \<Rightarrow> image_data r) of
                Inl p \<Rightarrow> (([], Panicked p), w')
              | Inr d \<Rightarrow> (([Say (url d)], Exited), w')))"

subsection \<open>The chat interface (declared in files not given)\<close>

record tool_call =
  tc_id :: string
  tc_name :: string
  tc_arguments :: string

record chat_message =
  role :: string
  content :: string
  msg_name :: string
  tool_calls :: "tool_call list"
  tool_call_id :: string

record chat_request =
  chat_model :: string
  messages :: "chat_message list"
  tools :: "json list"

record chat_response =
  chat_choices :: "chat_message list"

type_synonym 'w chat_api = "'w client \<Rightarrow> chat_request \<Rightarrow> 'w \<Rightarrow> (client_error + chat_response) \<times> 'w"

text \<open>A chat endpoint that answers with a server function and logs the requests it is sent.\<close>

definition recording_chat :: "(chat_request \<Rightarrow> client_error + chat_response) \<Rightarrow> chat_request list chat_api" where
  "recording_chat srv c req sent = (srv req, sent @ [req])"

definition message :: "string \<Rightarrow> string \<Rightarrow> chat_message" where
  "message r c = \<lparr>role = r, content = c, msg_name = [], tool_calls = [], tool_call_id = []\<rparr>"

subsection \<open>\<open>chatbot/main.go\<close>\<close>

text \<open>
  The loop over the lines of standard input: each line is appended to the conversation as
  a user message and the whole conversation is sent; a failed call is printed and the loop
  goes on (the line stays in the conversation); a reply is printed and appended.
\<close>

fun chatbot_loop ::
  "'w chat_api \<Rightarrow> 'w client \<Rightarrow> chat_request \<Rightarrow> string list \<Rightarrow> 'w
   \<Rightarrow> (printed list \<times> exit_status \<times> chat_request) \<times> 'w" where
  "chatbot_loop chat client req [] w = (([], Exited, req), w)"
| "chatbot_loop chat client req (line # lines) w =
     (let req1 = req\<lparr>messages := messages req @ [message ''user'' line]\<rparr>
      in case chat client req1 w of
           (Inl e, w') \<Rightarrow>
             (case chatbot_loop chat client req1 lines w' of
                ((out, ex, r), w'') \<Rightarrow> ((SayErr ''ChatCompletion error'' e # out, ex, r), w''))
         | (Inr resp, w') \<Rightarrow>
             (case go_first (chat_choices resp) of
                Inl p \<Rightarrow> (([], Panicked p, req1), w')
              | Inr m \<Rightarrow>
                  (case chatbot_loop chat client (req1\<lparr>messages := messages req1 @ [m]\<rparr>) lines w' of
                     ((out, ex, r), w'') \<Rightarrow> ((Say (content m @ ''\<newline>\<newline>'') # Say ''> '' # out, ex, r), w''))))"

definition chatbot_request :: chat_request where
  "chatbot_request =
     \<lparr>chat_model = qwen2_7b_instruct, messages = [message ''system'' ''you are a helpful chatbot''], tools = []\<rparr>"

definition example_chatbot ::
  "(string \<Rightarrow> string) \<Rightarrow> request_builder \<Rightarrow> form_builder \<Rightarrow> string \<Rightarrow> 'w http_doer
   \<Rightarrow> 'w chat_api \<Rightarrow> string list \<Rightarrow> 'w \<Rightarrow> (printed list \<times> exit_status) \<times> 'w" where
  "example_chatbot env rb fb ct doer chat input w =
     (let client = new_client rb fb ct doer (env ''GITEEAI_API_KEY'')
      in case chatbot_loop chat client chatbot_request input w of
           ((out, ex, _), w') \<Rightarrow>
             ((Say ''Conversation'' # Say ''---------------------'' # Say ''> '' # out, ex), w'))"


subsection \<open>\<open>completion-with-tool/main.go\<close>\<close>

text \<open>
  The tool the program offers, as the JSON the schema package writes for it (the
  \<open>jsonschema.Definition\<close> of the source: an object with a required string
  \<open>location\<close> and a \<open>unit\<close> that is \<open>celsius\<close> or \<open>fahrenheit\<close>).
\<close>

definition weather_tool :: json where
  "weather_tool = JObj [(''type'', JStr ''function''), (''function'', JObj
     [(''name'', JStr ''get_current_weather''),
      (''description'', JStr ''Get the current weather in a given location''),
      (''parameters'', JObj
        [(''type'', JStr ''object''),
         (''properties'', JObj
           [(''location'', JObj [(''type'', JStr ''string''),
              (''description'', JStr ''The city and state, e.g. San Francisco, CA'')]),
            (''unit'', JObj [(''type'', JStr ''string''), (''enum'', JArr [JStr ''celsius'', JStr ''fahrenheit''])])]),
         (''required'', JArr [JStr ''location''])])])]"

definition quoted :: "string \<Rightarrow> string" where
  "quoted x = CHR 0x27 # x @ [CHR 0x27]"

definition tool_question :: chat_message where
  "tool_question = message ''user'' ''What is the weather in Boston today?''"

text \<open>The number of choices of a call, as the program reads it (a failed call's response is empty).\<close>

definition choices_of :: "client_error + chat_response \<Rightarrow> chat_message list" where
  "choices_of res = (case res of Inl _ \<Rightarrow> [] | Inr r \<Rightarrow> chat_choices r)"

definition err_of :: "client_error + chat_response \<Rightarrow> client_error option" where
  "err_of res = (case res of Inl e \<Rightarrow> Some e | Inr _ \<Rightarrow> None)"

definition example_tool ::
  "(string \<Rightarrow> string) \<Rightarrow> request_builder \<Rightarrow> form_builder \<Rightarrow> string \<Rightarrow> 'w http_doer
   \<Rightarrow> 'w chat_api \<Rightarrow> 'w \<Rightarrow> (printed list \<times> exit_status) \<times> 'w" where
  "example_tool env rb fb ct doer chat w =
     (let client = new_client rb fb ct doer (env ''GITEEAI_API_KEY'');
          dialogue = [tool_question];
          asking = Say (''Asking GiteeAI '' @ quoted (content tool_question) @ '' and providing it a ''
                     @ quoted (''get_current_weather'' @ ''()'') @ '' function...'')
      in case chat client \<lparr>chat_model = qwen2_7b_instruct, messages = dialogue, tools = [weather_tool]\<rparr> w of
           (res1, w1) \<Rightarrow>
             if err_of res1 \<noteq> None \<or> length (choices_of res1) \<noteq> 1
             then (([asking, SayFail ''Completion error'' (err_of res1) (length (choices_of res1))], Exited), w1)
             else
               (case go_first (choices_of res1) of
                  Inl p \<Rightarrow> (([asking], Panicked p), w1)
                | Inr msg \<Rightarrow>
                 if length (tool_calls msg) \<noteq> 1
                 then (([asking, SayFail ''Completion error: len(toolcalls)'' None (length (tool_calls msg))], Exited), w1)
                 else
                   (case go_first (tool_calls msg) of
                      Inl p \<Rightarrow> (([asking], Panicked p), w1)
                    | Inr call \<Rightarrow>
                     (let dialogue2 = dialogue @ [msg, \<lparr>role = ''tool'', content = ''Sunny and 80 degrees.'',
                                       msg_name = tc_name call, tool_calls = [], tool_call_id = tc_id call\<rparr>];
                          called = Say (''GiteeAI called us back wanting to invoke our function '' @ quoted (tc_name call)
                                        @ '' with params '' @ quoted (tc_arguments call));
                          sending = Say (''Sending GiteeAI our '' @ quoted (''get_current_weather'' @ ''()'')
                                         @ '' function's response and requesting the reply to the original question...'')
                      in case chat client \<lparr>chat_model = qwen2_7b_instruct, messages = dialogue2, tools = [weather_tool]\<rparr> w1 of
                           (res2, w2) \<Rightarrow>
                             if err_of res2 \<noteq> None \<or> length (choices_of res2) \<noteq> 1
                             then (([asking, called, sending,
                                     SayFail ''2nd completion error'' (err_of res2) (length (choices_of res2))], Exited), w2)
                             else
                               (case go_first (choices_of res2) of
                                  Inl p \<Rightarrow> (([asking, called, sending], Panicked p), w2)
                                | Inr answer \<Rightarrow>
                                    (([asking, called, sending,
                                       Say (''GiteeAI answered the original request with: '' @ content answer)],
                                      Exited), w2))))))"

subsection \<open>\<open>voice-to-text/main.go\<close>\<close>

datatype stat_result = StatOk | StatNotExist | StatError string

record audio_request =
  audio_model :: string
  audio_file_path :: string

record audio_response =
  audio_text :: string

type_synonym 'w transcription_api =
  "'w client \<Rightarrow> audio_request \<Rightarrow> 'w \<Rightarrow> (client_error + audio_response) \<times> 'w"

definition example_voice ::
  "(string \<Rightarrow> string) \<Rightarrow> string list \<Rightarrow> (string \<Rightarrow> stat_result) \<Rightarrow> request_builder \<Rightarrow> form_builder
   \<Rightarrow> string \<Rightarrow> 'w http_doer \<Rightarrow> 'w transcription_api \<Rightarrow> 'w \<Rightarrow> (printed list \<times> exit_status) \<times> 'w" where
  "example_voice env args stat rb fb ct doer transcribe w =
     (if length args < 2 then (([Say ''please provide a filename to convert to text''], Exited), w)
      else if stat (args ! 1) = StatNotExist then (([Say (''file '' @ args ! 1 @ '' does not exist'')], Exited), w)
      else
        (let client = new_client rb fb ct doer (env ''OPENAI_API_KEY'')
         in case transcribe client \<lparr>audio_model = ''whisper-1'', audio_file_path = args ! 1\<rparr> w of
              (Inl e, w') \<Rightarrow> (([SayErr ''Transcription error'' e], Exited), w')
            | (Inr r, w') \<Rightarrow> (([Say (audio_text r)], Exited), w')))"

text \<open>A transcription endpoint that answers with a server function and logs the requests it is sent.\<close>

definition recording_transcription :: "(audio_request \<Rightarrow> client_error + audio_response) \<Rightarrow> audio_request list transcription_api" where
  "recording_transcription srv c req sent = (srv req, sent @ [req])"

text \<open>A chat endpoint whose successful answers always have a choice, and the requests it answers.\<close>

definition always_chooses :: "(chat_request \<Rightarrow> client_error + chat_response) \<Rightarrow> bool" where
  "always_chooses srv \<longleftrightarrow> (\<forall>q. case srv q of Inl _ \<Rightarrow> True | Inr resp \<Rightarrow> chat_choices resp \<noteq> [])"

definition answered :: "(chat_request \<Rightarrow> client_error + chat_response) \<Rightarrow> chat_request \<Rightarrow> bool" where
  "answered srv q \<longleftrightarrow> (case srv q of Inl _ \<Rightarrow> False | Inr _ \<Rightarrow> True)"

subsection \<open>Properties\<close>

lemma recording_chat_call: "recording_chat srv c r sent = (srv r, sent @ [r])"
  by (simp add: recording_chat_def)

text \<open>
  C18. The tool example never panics: it indexes the choices and the tool calls of a response only after checking that there is exactly one of each, whatever the API answers.
\<close>

theorem example_tool_never_panics:
  "snd (fst (example_tool env rb fb ct doer chat w)) = Exited"
  by (auto simp: example_tool_def Let_def go_first_def length_Suc_conv split: prod.splits list.splits)

text \<open>
  C19. The completion example panics with an index out of range when CreateCompletion succeeds with a response that has no choices, instead of reporting an error.
\<close>

theorem example_completion_panics:
  assumes "create_completion (new_client rb fb ct doer (env ''GITEEAI_API_KEY'')) dec decode
             completion_example_request w = ((Inr (Some resp), h), w')"
    and "cresp_choices resp = []"
  shows "example_completion env rb fb ct doer dec decode w = (([], Panicked index_panic), w')"
  using assms by (simp add: example_completion_def go_first_def)

theorem example_completion_panics_witness:
  "example_completion (\<lambda>v. ''tok'') (\<lambda>m u b h. Inr \<lparr>req_method = m, req_url = u, req_header = h, req_body = None\<rparr>)
     (\<lambda>op buf. Inr buf) ''multipart/form-data''
     (\<lambda>q w. (Inr \<lparr>status_code = 200, status = ''200 OK'', resp_header = Map.empty, resp_body = [Data ''{}'']\<rparr>, w))
     (\<lambda>b. (None, None))
     (\<lambda>b. Inr \<lparr>cresp_id = [], cresp_object = [], cresp_created = 0, cresp_model = [], cresp_choices = [], cresp_usage = None\<rparr>)
     () = (([], Panicked index_panic), ())"
  by (rule example_completion_panics [where resp = "\<lparr>cresp_id = [], cresp_object = [], cresp_created = 0,
      cresp_model = [], cresp_choices = [], cresp_usage = None\<rparr>"])
    (simp_all add: create_completion_def new_client_def new_client_with_config_def default_config_def
      check_endpoint_supports_model_def completion_example_request_def new_request_def send_request_def set_header_def
      decode_response_def is_failure_status_code_def json_value_end_def json_space_def decode_value_def)

lemma chatbot_loop_unfold:
  "chatbot_loop (recording_chat srv) client req (line # lines) sent =
     (let req1 = req\<lparr>messages := messages req @ [message ''user'' line]\<rparr> in
      case srv req1 of
         Inl e \<Rightarrow> (case chatbot_loop (recording_chat srv) client req1 lines (sent @ [req1]) of
                     ((out, ex, r), w'') \<Rightarrow> ((SayErr ''ChatCompletion error'' e # out, ex, r), w''))
       | Inr resp \<Rightarrow> (case go_first (chat_choices resp) of
                        Inl p \<Rightarrow> (([], Panicked p, req1), sent @ [req1])
                      | Inr m \<Rightarrow> (case chatbot_loop (recording_chat srv) client (req1\<lparr>messages := messages req1 @ [m]\<rparr>) lines (sent @ [req1]) of
                          ((out, ex, r), w'') \<Rightarrow> ((Say (content m @ ''\<newline>\<newline>'') # Say ''> '' # out, ex, r), w''))))"
  unfolding chatbot_loop.simps(2) [of "recording_chat srv"] Let_def recording_chat_call
  by (simp split: sum.splits)

lemma chatbot_loop_step:
  assumes "chatbot_loop (recording_chat srv) client req (line # lines) sent = ((out, Exited, req'), sent')"
  defines "req1 \<equiv> req\<lparr>messages := messages req @ [message ''user'' line]\<rparr>"
  shows "\<exists>reqX out'. chatbot_loop (recording_chat srv) client reqX lines (sent @ [req1]) = ((out', Exited, req'), sent')
      \<and> (\<exists>e. messages reqX = messages req1 @ e)"
proof -
  have unf: "chatbot_loop (recording_chat srv) client req (line # lines) sent =
      (case srv req1 of
         Inl e \<Rightarrow> (case chatbot_loop (recording_chat srv) client req1 lines (sent @ [req1]) of
                     ((out, ex, r), w'') \<Rightarrow> ((SayErr ''ChatCompletion error'' e # out, ex, r), w''))
       | Inr resp \<Rightarrow> (case go_first (chat_choices resp) of
                        Inl p \<Rightarrow> (([], Panicked p, req1), sent @ [req1])
                      | Inr m \<Rightarrow> (case chatbot_loop (recording_chat srv) client (req1\<lparr>messages := messages req1 @ [m]\<rparr>) lines (sent @ [req1]) of
                          ((out, ex, r), w'') \<Rightarrow> ((Say (content m @ ''\<newline>\<newline>'') # Say ''> '' # out, ex, r), w''))))"
    by (simp only: chatbot_loop_unfold Let_def req1_def)
  show ?thesis
  proof (cases "srv req1")
    case (Inl err)
    with assms(1) unf show ?thesis by (auto split: prod.splits)
  next
    case (Inr resp)
    with assms(1) unf show ?thesis by (cases "go_first (chat_choices resp)") (auto split: prod.splits)
  qed
qed

text \<open>
  C20. The chatbot sends every line of its input, in order: when it runs to the end, it has made one request per line, the k-th request ends with the k-th line as a user message, and each request extends the conversation of the one before (a failed call leaves its line in the conversation).
\<close>

theorem chatbot_sends_every_line:
  assumes "chatbot_loop (recording_chat srv) client req lines sent = ((out, Exited, req'), sent')"
  shows "\<exists>reqs. sent' = sent @ reqs \<and> length reqs = length lines
     \<and> (\<forall>k < length lines. last (messages (reqs ! k)) = message ''user'' (lines ! k)
          \<and> (\<exists>h. messages (reqs ! k) = messages req @ h))
     \<and> (\<forall>k. Suc k < length lines \<longrightarrow> (\<exists>h. messages (reqs ! Suc k) = messages (reqs ! k) @ h))"
  using assms
proof (induction lines arbitrary: req sent out)
  case Nil
  then show ?case by simp
next
  case (Cons line lines)
  define req1 where "req1 = req\<lparr>messages := messages req @ [message ''user'' line]\<rparr>"
  from chatbot_loop_step [OF Cons.prems] obtain reqX out' e
    where rec: "chatbot_loop (recording_chat srv) client reqX lines (sent @ [req1]) = ((out', Exited, req'), sent')"
    and mx: "messages reqX = messages req1 @ e" by (auto simp: req1_def)
  from Cons.IH [OF rec] obtain reqs where s': "sent' = (sent @ [req1]) @ reqs" and len: "length reqs = length lines"
    and last_k: "\<forall>k < length lines. last (messages (reqs ! k)) = message ''user'' (lines ! k)
          \<and> (\<exists>h. messages (reqs ! k) = messages reqX @ h)"
    and grow: "\<forall>k. Suc k < length lines \<longrightarrow> (\<exists>h. messages (reqs ! Suc k) = messages (reqs ! k) @ h)"
    by blast
  have m1: "messages req1 = messages req @ [message ''user'' line]" by (simp add: req1_def)
  show ?case
  proof (intro exI [of _ "req1 # reqs"] conjI allI impI)
    show "sent' = sent @ req1 # reqs" using s' by simp
    show "length (req1 # reqs) = length (line # lines)" using len by simp
  next
    fix k assume k: "k < length (line # lines)"
    show "last (messages ((req1 # reqs) ! k)) = message ''user'' ((line # lines) ! k)"
    proof (cases k)
      case 0 then show ?thesis by (simp add: m1)
    next
      case (Suc j) with k last_k show ?thesis by simp
    qed
    show "\<exists>h. messages ((req1 # reqs) ! k) = messages req @ h"
    proof (cases k)
      case 0 then show ?thesis by (simp add: m1)
    next
      case (Suc j) with k last_k mx m1 show ?thesis by fastforce
    qed
  next
    fix k assume k: "Suc k < length (line # lines)"
    show "\<exists>h. messages ((req1 # reqs) ! Suc k) = messages ((req1 # reqs) ! k) @ h"
    proof (cases k)
      case 0 with k last_k mx show ?thesis by fastforce
    next
      case (Suc j) with k grow show ?thesis by simp
    qed
  qed
qed

theorem chatbot_sends_every_line_witness:
  "fst (snd (fst (chatbot_loop (recording_chat (\<lambda>q. Inr \<lparr>chat_choices = [message ''assistant'' ''hi'']\<rparr>)) (\<lparr>config = \<lparr>auth_token = ''tok'', base_url = ''https://ai.gitee.com/v1'', assistant_version = ''v2'',
       http_client = \<lambda>q w. (Inl Canceled, w), empty_messages_limit = 300\<rparr>,
     request_builder = \<lambda>m u b h. Inr \<lparr>req_method = m, req_url = u, req_header = h, req_body = None\<rparr>,
     form_builder = \<lambda>op buf. Inr buf, form_content_type = ''multipart/form-data''\<rparr> :: chat_request list client) chatbot_request [''a'', ''b''] []))) = Exited
   \<and> (\<exists>reqs. snd (chatbot_loop (recording_chat (\<lambda>q. Inr \<lparr>chat_choices = [message ''assistant'' ''hi'']\<rparr>)) (\<lparr>config = \<lparr>auth_token = ''tok'', base_url = ''https://ai.gitee.com/v1'', assistant_version = ''v2'',
       http_client = \<lambda>q w. (Inl Canceled, w), empty_messages_limit = 300\<rparr>,
     request_builder = \<lambda>m u b h. Inr \<lparr>req_method = m, req_url = u, req_header = h, req_body = None\<rparr>,
     form_builder = \<lambda>op buf. Inr buf, form_content_type = ''multipart/form-data''\<rparr> :: chat_request list client) chatbot_request [''a'', ''b''] []) = [] @ reqs
       \<and> length reqs = length [''a'', ''b'']
       \<and> (\<forall>k < length [''a'', ''b'']. last (messages (reqs ! k)) = message ''user'' ([''a'', ''b''] ! k)
            \<and> (\<exists>h. messages (reqs ! k) = messages chatbot_request @ h))
       \<and> (\<forall>k. Suc k < length [''a'', ''b''] \<longrightarrow> (\<exists>h. messages (reqs ! Suc k) = messages (reqs ! k) @ h)))"
proof -
  let ?x = "chatbot_loop (recording_chat (\<lambda>q. Inr \<lparr>chat_choices = [message ''assistant'' ''hi'']\<rparr>)) (\<lparr>config = \<lparr>auth_token = ''tok'', base_url = ''https://ai.gitee.com/v1'', assistant_version = ''v2'',
       http_client = \<lambda>q w. (Inl Canceled, w), empty_messages_limit = 300\<rparr>,
     request_builder = \<lambda>m u b h. Inr \<lparr>req_method = m, req_url = u, req_header = h, req_body = None\<rparr>,
     form_builder = \<lambda>op buf. Inr buf, form_content_type = ''multipart/form-data''\<rparr> :: chat_request list client) chatbot_request [''a'', ''b''] []"
  have ex: "fst (snd (fst ?x)) = Exited"
    by (simp add: recording_chat_call go_first_def)
  then have "?x = ((fst (fst ?x), Exited, snd (snd (fst ?x))), snd ?x)"
    by (metis prod.collapse)
  from chatbot_sends_every_line [OF this] ex show ?thesis by simp
qed

text \<open>
  C21. The images example authenticates with the value of the OPENAI_API_KEY environment variable: the one request it hands the transport goes to the GiteeAI base URL with that token, not with GITEEAI_API_KEY, which the other examples read.
\<close>

theorem example_images_token:
  assumes "builds_faithfully rb"
  shows "\<exists>q. snd (example_images env rb fb ct (recording_doer srv) dec decode sent) = sent @ [q]
     \<and> req_url q = giteeai_api_url_v1 @ ''/images/generations''
     \<and> header_get (req_header q) ''Authorization'' =
         (if env ''OPENAI_API_KEY'' = [] then [] else ''Bearer '' @ env ''OPENAI_API_KEY'')"
proof -
  let ?c = "new_client rb fb ct (recording_doer srv) (env ''OPENAI_API_KEY'')"
  let ?setters = "[with_body (JsonBody (image_request_json images_example_request))]"
  have c: "builds_faithfully (request_builder ?c)" "http_client (config ?c) = recording_doer srv"
    using assms by (simp_all add: new_client_def new_client_with_config_def default_config_def)
  have cfg: "base_url (config ?c) = giteeai_api_url_v1" "auth_token (config ?c) = env ''OPENAI_API_KEY''"
    by (simp_all add: new_client_def new_client_with_config_def default_config_def)
  obtain q where log: "snd (case new_request ?c ''POST'' (giteeai_api_url_v1 @ ''/images/generations'') ?setters of
            Inl e \<Rightarrow> ((Inl e, None), sent) | Inr req \<Rightarrow> send_request ?c dec (Some (JsonTarget decode)) req sent)
       = sent @ [send_request_headers (set_common_headers ?c q)]"
    and "req_url q = giteeai_api_url_v1 @ ''/images/generations''"
    and "req_header q = opt_header (request_args ?setters)"
    by (rule endpoint_log [OF c])
  moreover have "snd (example_images env rb fb ct (recording_doer srv) dec decode sent) =
      snd (create_image ?c dec decode images_example_request sent)"
    by (simp add: example_images_def split: prod.splits sum.splits list.splits)
  ultimately show ?thesis
    by (auto simp: create_image_def full_url_def header_get_sent request_args_def with_body_def cfg Let_def)
qed

theorem example_images_token_witness:
  "\<exists>q. snd (example_images (\<lambda>v. if v = ''OPENAI_API_KEY'' then ''sk-openai'' else ''gitee-token'')
       (\<lambda>m u b h. Inr \<lparr>req_method = m, req_url = u, req_header = h, req_body = None\<rparr>) (\<lambda>op buf. Inr buf)
       ''multipart/form-data'' (recording_doer (\<lambda>q. Inl Canceled)) (\<lambda>b. (None, None))
       (\<lambda>b. Inl (SyntaxError b)) []) = [q]
     \<and> req_url q = ''https://ai.gitee.com/v1/images/generations''
     \<and> header_get (req_header q) ''Authorization'' = ''Bearer sk-openai''"
proof -
  have "builds_faithfully (\<lambda>m u b h. Inr \<lparr>req_method = m, req_url = u, req_header = h, req_body = None\<rparr>)"
    by (simp add: builds_faithfully_def)
  from example_images_token [OF this, of "\<lambda>v. if v = ''OPENAI_API_KEY'' then ''sk-openai'' else ''gitee-token''"
      "\<lambda>op buf. Inr buf" "''multipart/form-data''" "\<lambda>q. Inl Canceled" "\<lambda>b. (None, None)" "\<lambda>b. Inl (SyntaxError b)" "[]"]
  show ?thesis by (simp add: giteeai_api_url_v1_def)
qed

text \<open>
  C24. The tool example answers the model's tool call correctly: when the first reply has one choice with one tool call, the second request carries the question, the assistant message with the call, and a tool message with the call's name and id, with the same tool offered.
\<close>

theorem example_tool_replies_to_call:
  assumes "srv \<lparr>chat_model = qwen2_7b_instruct, messages = [tool_question], tools = [weather_tool]\<rparr> = Inr resp"
    and "chat_choices resp = [m]" and "tool_calls m = [call]"
  shows "\<exists>q. snd (example_tool env rb fb ct doer (recording_chat srv) []) =
           [\<lparr>chat_model = qwen2_7b_instruct, messages = [tool_question], tools = [weather_tool]\<rparr>, q]
         \<and> messages q = [tool_question, m, \<lparr>role = ''tool'', content = ''Sunny and 80 degrees.'',
                          msg_name = tc_name call, tool_calls = [], tool_call_id = tc_id call\<rparr>]
         \<and> tools q = [weather_tool]"
  using assms
  by (auto simp: example_tool_def Let_def recording_chat_def go_first_def choices_of_def err_of_def
      split: prod.splits sum.splits)

theorem example_tool_replies_to_call_witness:
  "\<exists>q. snd (example_tool (\<lambda>k. ''tok'') (\<lambda>m u b h. Inr \<lparr>req_method = m, req_url = u, req_header = h, req_body = None\<rparr>)
        (\<lambda>op buf. Inr buf) ''multipart/form-data'' (\<lambda>q w. (Inl Canceled, w)) (recording_chat (\<lambda>q. Inr \<lparr>chat_choices =
        [\<lparr>role = ''assistant'', content = [], msg_name = [],
           tool_calls = [\<lparr>tc_id = ''call_1'', tc_name = ''get_current_weather'', tc_arguments = ''{}''\<rparr>], tool_call_id = []\<rparr>]\<rparr>)) []) =
      [\<lparr>chat_model = qwen2_7b_instruct, messages = [tool_question], tools = [weather_tool]\<rparr>, q]
    \<and> map tool_call_id (messages q) = [[], [], ''call_1'']"
proof -
  let ?call = "\<lparr>tc_id = ''call_1'', tc_name = ''get_current_weather'', tc_arguments = ''{}''\<rparr>"
  let ?m = "\<lparr>role = ''assistant'', content = [], msg_name = [], tool_calls = [?call], tool_call_id = []\<rparr>"
  show ?thesis
    using example_tool_replies_to_call [where srv = "\<lambda>q. Inr \<lparr>chat_choices = [?m]\<rparr>" and resp = "\<lparr>chat_choices = [?m]\<rparr>"
        and m = ?m and call = ?call and env = "\<lambda>k. ''tok''" and rb = "\<lambda>m u b h. Inr \<lparr>req_method = m, req_url = u, req_header = h, req_body = None\<rparr>"
        and fb = "\<lambda>op buf. Inr buf" and ct = "''multipart/form-data''" and doer = "\<lambda>q w. (Inl Canceled, w)"]
    by (auto simp: tool_question_def message_def)
qed

text \<open>
  C25. The voice-to-text example calls the transcription endpoint exactly when it is given a file name whose os.Stat result is not ErrNotExist, so any other Stat error (permission denied, a bad path) still reaches the endpoint.
\<close>

theorem example_voice_transcribes:
  "snd (example_voice env args stat rb fb ct doer (recording_transcription srv) sent) =
     sent @ (if 2 \<le> length args \<and> stat (args ! 1) \<noteq> StatNotExist
             then [\<lparr>audio_model = ''whisper-1'', audio_file_path = args ! 1\<rparr>] else [])"
  by (simp add: example_voice_def recording_transcription_def Let_def split: sum.splits)

lemma chatbot_log_extends:
  "\<exists>xs. snd (chatbot_loop (recording_chat srv) client req lines sent) = sent @ xs"
proof (induction lines arbitrary: req sent)
  case Nil
  then show ?case by simp
next
  case (Cons line lines)
  define req1 where "req1 = req\<lparr>messages := messages req @ [message ''user'' line]\<rparr>"
  have "\<exists>xs. snd (chatbot_loop (recording_chat srv) client r lines (sent @ [req1])) = sent @ xs" for r
    using Cons.IH [of r "sent @ [req1]"] by auto
  then show ?case
    unfolding chatbot_loop_unfold Let_def req1_def [symmetric]
    by (auto simp del: chatbot_loop.simps split: sum.splits prod.splits simp: go_first_def list.splits)
      (metis snd_conv)+
qed

lemma chatbot_prompts:
  assumes "always_chooses srv"
  shows "chatbot_loop (recording_chat srv) client req lines sent = ((out, ex, r), w) \<Longrightarrow>
     ex = Exited \<and> length (filter (\<lambda>p. p = Say ''> '') out) = length (filter (answered srv) (drop (length sent) w))"
proof (induction lines arbitrary: req sent out ex r w)
  case Nil
  then show ?case by simp
next
  case (Cons line lines)
  define req1 where "req1 = req\<lparr>messages := messages req @ [message ''user'' line]\<rparr>"
  note unf = Cons.prems [unfolded chatbot_loop_unfold Let_def req1_def [symmetric]]
  show ?case
  proof (cases "srv req1")
    case (Inl e)
    with unf obtain out' where rec: "chatbot_loop (recording_chat srv) client req1 lines (sent @ [req1]) = ((out', ex, r), w)"
      and o: "out = SayErr ''ChatCompletion error'' e # out'"
      by (auto simp del: chatbot_loop.simps split: prod.splits)
    from chatbot_log_extends [of srv client req1 lines "sent @ [req1]"] rec obtain xs where "w = sent @ [req1] @ xs" by auto
    with Cons.IH [OF rec] o Inl show ?thesis by (simp add: answered_def)
  next
    case (Inr resp)
    from assms have "case srv req1 of Inl _ \<Rightarrow> True | Inr resp \<Rightarrow> chat_choices resp \<noteq> []"
      unfolding always_chooses_def by blast
    with Inr have "chat_choices resp \<noteq> []" by simp
    then obtain m ms where ch: "chat_choices resp = m # ms" by (cases "chat_choices resp") auto
    with unf Inr obtain out' where
      rec: "chatbot_loop (recording_chat srv) client (req1\<lparr>messages := messages req1 @ [m]\<rparr>) lines (sent @ [req1]) = ((out', ex, r), w)"
      and o: "out = Say (content m @ ''\<newline>\<newline>'') # Say ''> '' # out'"
      by (auto simp del: chatbot_loop.simps simp: go_first_def split: prod.splits)
    from chatbot_log_extends [of srv client "req1\<lparr>messages := messages req1 @ [m]\<rparr>" lines "sent @ [req1]"] rec
    obtain xs where "w = sent @ [req1] @ xs" by auto
    with Cons.IH [OF rec] o Inr show ?thesis by (simp add: answered_def)
  qed
qed

text \<open>
  C32. When every successful answer of the chat endpoint has at least one choice, the chatbot never panics and prints one "> " prompt at the start and one after each answered request: a failed call prints its error but no new prompt.
\<close>

theorem chatbot_prompt_per_reply:
  assumes "always_chooses srv"
  shows "snd (fst (example_chatbot env rb fb ct doer (recording_chat srv) input sent)) = Exited
    \<and> length (filter (\<lambda>p. p = Say ''> '') (fst (fst (example_chatbot env rb fb ct doer (recording_chat srv) input sent))))
      = Suc (length (filter (answered srv) (drop (length sent) (snd (example_chatbot env rb fb ct doer (recording_chat srv) input sent)))))"
proof -
  obtain out ex r w where rec: "chatbot_loop (recording_chat srv) (new_client rb fb ct doer (env ''GITEEAI_API_KEY''))
      chatbot_request input sent = ((out, ex, r), w)" by (metis surj_pair)
  from chatbot_prompts [OF assms rec] rec show ?thesis by (simp add: example_chatbot_def)
qed

theorem chatbot_prompt_per_reply_witness:
  "snd (fst (example_chatbot (\<lambda>k. ''tok'') (\<lambda>m u b h. Inr \<lparr>req_method = m, req_url = u, req_header = h, req_body = None\<rparr>)
       (\<lambda>op buf. Inr buf) ''multipart/form-data'' (\<lambda>q w. (Inl Canceled, w))
       (recording_chat (\<lambda>q. Inr \<lparr>chat_choices = [message ''assistant'' ''hi'']\<rparr>)) [''a'', ''b''] [])) = Exited
   \<and> length (filter (\<lambda>p. p = Say ''> '') (fst (fst (example_chatbot (\<lambda>k. ''tok'') (\<lambda>m u b h. Inr \<lparr>req_method = m, req_url = u, req_header = h, req_body = None\<rparr>)
       (\<lambda>op buf. Inr buf) ''multipart/form-data'' (\<lambda>q w. (Inl Canceled, w))
       (recording_chat (\<lambda>q. Inr \<lparr>chat_choices = [message ''assistant'' ''hi'']\<rparr>)) [''a'', ''b''] [])))) = 3"
proof -
  have "always_chooses (\<lambda>q. Inr \<lparr>chat_choices = [message ''assistant'' ''hi'']\<rparr>)" by (simp add: always_chooses_def)
  note c = chatbot_prompt_per_reply [OF this, of "\<lambda>k. ''tok''" "\<lambda>m u b h. Inr \<lparr>req_method = m, req_url = u, req_header = h, req_body = None\<rparr>"
      "\<lambda>op buf. Inr buf" "''multipart/form-data''" "\<lambda>q w. (Inl Canceled, w)" "[''a'', ''b'']" "[]"]
  have "length (snd (example_chatbot (\<lambda>k. ''tok'') (\<lambda>m u b h. Inr \<lparr>req_method = m, req_url = u, req_header = h, req_body = None\<rparr>)
       (\<lambda>op buf. Inr buf) ''multipart/form-data'' (\<lambda>q w. (Inl Canceled, w))
       (recording_chat (\<lambda>q. Inr \<lparr>chat_choices = [message ''assistant'' ''hi'']\<rparr>)) [''a'', ''b''] [])) = 2"
    by (simp add: example_chatbot_def recording_chat_def go_first_def)
  then obtain q1 q2 where "snd (example_chatbot (\<lambda>k. ''tok'') (\<lambda>m u b h. Inr \<lparr>req_method = m, req_url = u, req_header = h, req_body = None\<rparr>)
       (\<lambda>op buf. Inr buf) ''multipart/form-data'' (\<lambda>q w. (Inl Canceled, w))
       (recording_chat (\<lambda>q. Inr \<lparr>chat_choices = [message ''assistant'' ''hi'']\<rparr>)) [''a'', ''b''] []) = [q1, q2]"
    by (auto simp: numeral_2_eq_2 length_Suc_conv)
  with c show ?thesis by (simp add: answered_def)
qed

end
