(* ===== verification/Spec2Isabelle.thy ===== *)
theory Spec2Isabelle
  imports StreamSpec Models Examples
begin

text \<open>
  A verification development for go-giteeai, a Go client library for an OpenAI-compatible
  text, image and audio generation API. The library builds HTTP requests, sends them
  through a transport, turns failure responses into typed errors, and reads streamed
  chat and completion responses as a sequence of server-sent events.

  \<^bold>\<open>Parts of the program and where they are modelled.\<close>
  \<^item> \<open>Prelude\<close>: byte strings, the helpers of Go's \<open>bytes\<close> package the stream reader uses
    (\<open>HasPrefix\<close>, \<open>TrimPrefix\<close>, \<open>TrimSpace\<close> on ASCII white space), splitting a
    buffer at its first newline.
  \<^item> \<open>Http\<close>: what the sources use of \<open>net/http\<close>: \<open>Header.Set\<close>/\<open>Get\<close> with
    canonical keys, request and response records, a body as the list of reads the
    transport delivers (each read bytes or a failure such as a cancelled context),
    \<open>io.ReadAll\<close>, the \<open>HTTPDoer\<close> interface of \<open>src/config.go\<close> as a function that
    threads the state of the outside world, and \<open>isFailureStatusCode\<close> of
    \<open>src/client.go\<close>.
  \<^item> \<open>Errors\<close>: the error values (\<open>APIError\<close>, \<open>RequestError\<close>, the sentinel errors;
    \<open>error.go\<close> is not among the given sources, so they follow the specification's error
    envelope) and the decision of \<open>handleErrorResp\<close> (\<open>src/client.go\<close>).
  \<^item> \<open>Client\<close>: \<open>ClientConfig\<close>/\<open>DefaultConfig\<close> (\<open>src/config.go\<close>) and the client of
    \<open>src/client.go\<close>: request options, \<open>newRequest\<close>, \<open>setCommonHeaders\<close>, \<open>fullURL\<close>,
    \<open>decodeResponse\<close>, \<open>sendRequest\<close>, \<open>sendRequestRaw\<close> with its
    \<open>RawResponse\<close>, and \<open>httpHeader.SetHeader\<close> (\<open>set_header\<close>). The request builder, the form
    builder and the JSON codec are interfaces (their code is not among the sources).
  \<^item> \<open>LineReader\<close>, \<open>Framing\<close>, \<open>Stream\<close>: the streaming core of the specification
    (its code, \<open>stream_reader.go\<close> and the internal error accumulator, is not among the
    sources and is modelled from the specification, sections 4 to 7): the line reader over
    the body (\<open>read_line\<close>, \<open>next_line\<close>), the event decoder (\<open>classify_line\<close>), the
    error accumulator (\<open>acc_write\<close>, \<open>acc_resolve\<close>), and the stream session with
    \<open>recv\<close> (the receive loop \<open>recv_loop\<close>) and \<open>close\<close>; \<open>sendRequestStream\<close> of
    \<open>src/client.go\<close> opens it (\<open>send_request_stream\<close>, \<open>open_session\<close>).
  \<^item> \<open>Completion\<close>, \<open>Models\<close>, \<open>Image\<close>: the endpoints of \<open>src/completion.go\<close>,
    \<open>src/models.go\<close> and \<open>src/image.go\<close>: their request and response records, the JSON
    objects the request structs encode to, \<open>checkPromptType\<close>, the guards of
    \<open>CreateCompletion\<close>, \<open>WrapReader\<close> and \<open>file.Name\<close>, and the multipart sequences of
    \<open>CreateEditImage\<close> and \<open>CreateVariImage\<close>, each endpoint composed of
    \<open>newRequest\<close> and \<open>sendRequest\<close> as in the source.
  \<^item> \<open>StreamSpec\<close>: the abstract contract of a stream: the payloads still to come and how
    it ends (\<open>stream_view\<close>), with \<open>abstract_session\<close> mapping a concrete session to
    it and \<open>consume\<close>, the caller's loop of \<open>Recv\<close> until a terminal result, as a
    \<open>partial_function (option)\<close>.
  \<^item> \<open>Examples\<close>: the five programs of \<open>src/examples\<close>, each \<open>main\<close> as a function of
    the environment, the arguments, the lines of standard input and the API, returning
    what it prints and whether it exits or panics (Go's \<open>xs[0]\<close> on an empty slice is
    \<open>go_first\<close>). \<open>CreateChatCompletion\<close> and \<open>CreateTranscription\<close>, which three of
    them call, are not declared under \<open>src\<close>: they are parameters (\<open>chat_api\<close>,
    \<open>transcription_api\<close>), observed through \<open>recording_chat\<close>.

  \<^bold>\<open>How the model corresponds to the code.\<close> Structs are records with the source's
  fields, Go's \<open>error\<close> results are values of \<open>client_error\<close> in a sum type, the
  outside world is an explicit state \<open>'w\<close> passed through the transport, and loops are
  recursive functions: the line reader recurses on the reads left, the receive loop is a
  \<open>function\<close> whose termination measure is the size of the unread input (every line read
  shrinks it), so every receive call returns; no fuel is used; the
  caller's loop \<open>consume\<close> is a partial function whose totality is proved by induction on
  the lines left. A caller's interleaving of
  receive and close calls is a list of \<open>session_op\<close>s run by \<open>run_ops\<close>, and the
  sessions a caller can hold are the inductive \<open>reachable_session\<close>. The request builder,
  the form builder and the JSON codec are parameters (interfaces); the endpoint lemmas
  assume of the builder only \<open>builds_faithfully\<close> (it keeps the method, URL and header it
  is given) and observe the transport through \<open>recording_doer\<close>, whose world is the log of
  the requests it was handed.

  \<^bold>\<open>What is shown.\<close> \<open>LineReader\<close>: the reader returns the first line of the bytes
  not yet returned, or the transport's first failure, whatever the chunking
  (\<open>next_line_refines\<close>), and the lines put the input back together. \<open>Stream\<close>: a
  well-formed stream yields its payloads in order then end of stream (C1); a terminal result
  seals the session (C2); a transport failure mid-line is reported after the complete
  frames (C3); an unframed error body is reported on the first receive (C4); the empty-line
  limit is exact (C5); the session invariant holds on every session \<open>sendRequestStream\<close>
  returns and after any receive and close calls (C6); and, because \<open>sendRequestStream\<close>
  opens no session on a failure status, the failure-status branch of the specification's
  end-of-body rule is dead on those sessions (C7). The endpoint theories show the prompt
  check against the JSON the prompt is sent as (C8, which exposes that nil slices pass the
  check and are sent as \<open>null\<close>), the guards and the request of \<open>CreateCompletion\<close>
  (C9), that the multipart content type reaches the transport (C10), the requests of the
  model endpoints (C11, C13), the status carried by every error of \<open>handleErrorResp\<close>
  (C12), and that both multipart image forms carry \<open>N\<close> as a decimal that reads back
  (C14). \<open>StreamSpec\<close>: opening a session refines the abstract view of its body, so the
  results of receive calls depend on the body's bytes and first failure, not on its
  chunking (C15); \<open>consume\<close>, the caller's loop, returns \<open>Some\<close> on every session
  with at most as many events as the body has lines (C16); a streaming call end to end, from
  \<open>sendRequestStream\<close> to the caller's loop, collects exactly the decoded payloads (C23).
  \<open>Completion\<close>: the request JSON is an object with distinct keys whose optional fields
  follow the request (C17). \<open>Examples\<close>: the tool example never panics (C18); the
  completion example panics on an answer with no choices (C19); the chatbot sends every input
  line, in order, each request extending the last (C20); the images example authenticates
  with \<open>OPENAI_API_KEY\<close> (C21); the tool example's second request answers the model's
  tool call with its name and id (C24); the voice-to-text example reaches the endpoint on
  every \<open>os.Stat\<close> error other than \<open>ErrNotExist\<close> (C25); the chatbot never panics
  when every answer has a choice, and prints a prompt after each answered request but none
  after a failed call (C32). Further stream behaviour: blank keep-alive lines are invisible
  and the empty-line count restarts at every event (C22); reading a body line by line
  yields its lines then the end of input or the first transport failure, and the lines give
  back the body up to a tail without a newline that only a failure leaves (C27); a payload
  that fails to decode ends the stream with that error after the earlier events (C28); a
  body that ends without the sentinel ends the stream cleanly after its events, the
  specification's tolerance of an abrupt close (C31). \<open>Image\<close>: \<open>CreateEditImage\<close>
  and \<open>CreateVariImage\<close> never send the request's \<open>Model\<close> or \<open>User\<close> (C26),
  while the JSON body of \<open>CreateImage\<close> carries prompt, model, user and \<open>n\<close> exactly
  when they are set (C30). \<open>ListModels\<close> end to end returns \<open>handleErrorResp\<close>'s
  error on a failure status, otherwise what \<open>json.Decoder\<close> makes of the body, the
  first complete value decoded even when a transport failure follows it, and keeps the
  response header recorded by \<open>SetHeader\<close> either way (C29).

  \<^bold>\<open>Bounds.\<close> No bound is chosen: the receive loop is total by its measure, and the
  empty-line limit is the configured \<open>EmptyMessagesLimit\<close> (300 by default), kept
  symbolic in every theorem.

  \<^bold>\<open>Not modelled.\<close> Closing the response body as a transport effect, TLS, connection
  reuse and retries (the transport's business); \<open>Header()\<close> and \<open>GetRateLimitHeaders\<close> of
  \<open>httpHeader\<close> (the rate-limit type is in a file not given); the unmarshalling of a JSON value into a Go type (a parameter; the value boundary of \<open>json.Decoder\<close> is modelled by \<open>json_value_end\<close>); closing a stream before it is sealed makes the next receive fail at once with the closed-body error (the stream reader's code is not given, and the specification says only that Close releases the transport); \<open>float32\<close> rounding (floats are
  rationals); the bodies of the chat and transcription endpoints, which are not among the
  sources; console output is a list of printed items, not bytes on a file.
\<close>

end
